theory Spec2Isabelle
  imports Complex_Main "HOL-Library.AList" "HOL-Library.Sublist"
begin

section \<open>Python values, exceptions and dictionaries\<close>

text \<open>
  The pipeline passes loosely typed dictionaries around (tweets, analysis bundles, status
  results). They are modelled as Python values: numbers are exact rationals (Python ints,
  and floats idealised without rounding), a dictionary is an association list in insertion
  order, which is the order Python iterates it in.
\<close>

datatype pyval =
    PNone
  | PBool bool
  | PNum rat
  | PStr string
  | PList "pyval list"
  | PDict "(pyval \<times> pyval) list"

text \<open>
  Exceptions are values: the class decides which \<open>except\<close> clause catches it, the
  string is what \<open>str(e)\<close> gives. Only subclasses of \<open>Exception\<close> are modelled
  (what \<open>except Exception\<close> catches); \<open>JSONDecodeError\<close> is a \<open>ValueError\<close>.
\<close>

datatype exn_class = ValueError | TypeError | KeyError | AttributeError | OSError | OtherError

type_synonym exn = "exn_class \<times> string"

definition and_then :: "exn + 'a \<Rightarrow> ('a \<Rightarrow> exn + 'b) \<Rightarrow> exn + 'b" where
  "and_then m f = (case m of Inl e \<Rightarrow> Inl e | Inr x \<Rightarrow> f x)"

fun truthy :: "pyval \<Rightarrow> bool" where
  "truthy PNone = False"
| "truthy (PBool b) = b"
| "truthy (PNum r) = (r \<noteq> 0)"
| "truthy (PStr s) = (s \<noteq> [])"
| "truthy (PList xs) = (xs \<noteq> [])"
| "truthy (PDict kvs) = (kvs \<noteq> [])"

fun hashable :: "pyval \<Rightarrow> bool" where
  "hashable (PList xs) = False"
| "hashable (PDict kvs) = False"
| "hashable v = True"

text \<open>\<open>d.get(k, default)\<close>; a value that is not a dictionary has no \<open>get\<close>.\<close>

definition dict_get :: "pyval \<Rightarrow> string \<Rightarrow> pyval \<Rightarrow> exn + pyval" where
  "dict_get d k dflt =
     (case d of
        PDict kvs \<Rightarrow> Inr (case map_of kvs (PStr k) of Some v \<Rightarrow> v | None \<Rightarrow> dflt)
      | _ \<Rightarrow> Inl (AttributeError, ''object has no attribute get''))"

text \<open>\<open>d[k]\<close> on a dictionary with a string key.\<close>

definition subscript :: "pyval \<Rightarrow> string \<Rightarrow> exn + pyval" where
  "subscript d k =
     (case d of
        PDict kvs \<Rightarrow> (case map_of kvs (PStr k) of
                        Some v \<Rightarrow> Inr v
                      | None \<Rightarrow> Inl (KeyError, [CHR 0x27] @ k @ [CHR 0x27]))
      | _ \<Rightarrow> Inl (TypeError, ''object is not subscriptable''))"

text \<open>Numbers as arithmetic and ordering see them; \<open>bool\<close> is an \<open>int\<close> in Python.\<close>

fun num_of :: "pyval \<Rightarrow> exn + rat" where
  "num_of (PNum r) = Inr r"
| "num_of (PBool b) = Inr (if b then 1 else 0)"
| "num_of v = Inl (TypeError, ''unsupported operand type'')"

text \<open>\<open>sum(f(x) for x in xs)\<close>: the generator is consumed left to right.\<close>

fun sum_over :: "('a \<Rightarrow> exn + pyval) \<Rightarrow> 'a list \<Rightarrow> rat \<Rightarrow> exn + rat" where
  "sum_over f [] acc = Inr acc"
| "sum_over f (x # xs) acc =
     and_then (f x) (\<lambda>v. and_then (num_of v) (\<lambda>r. sum_over f xs (acc + r)))"

fun map_exn :: "('a \<Rightarrow> exn + 'b) \<Rightarrow> 'a list \<Rightarrow> exn + 'b list" where
  "map_exn f [] = Inr []"
| "map_exn f (x # xs) =
     and_then (f x) (\<lambda>y. and_then (map_exn f xs) (\<lambda>ys. Inr (y # ys)))"

text \<open>
  \<open>c[k] += 1\<close> on a \<open>Counter\<close> or a \<open>defaultdict(int)\<close>: an existing key keeps its
  place, a new key goes to the end.
\<close>

definition incr :: "'k \<Rightarrow> ('k \<times> nat) list \<Rightarrow> ('k \<times> nat) list" where
  "incr k c = AList.update k (case map_of c k of None \<Rightarrow> 1 | Some n \<Rightarrow> n + 1) c"

text \<open>
  \<open>max(items, key=...)\<close>: the first item is the candidate, and a later item replaces it
  only when its key is strictly greater.
\<close>

fun max_from :: "('a \<Rightarrow> nat) \<Rightarrow> 'a \<Rightarrow> 'a list \<Rightarrow> 'a" where
  "max_from key best [] = best"
| "max_from key best (x # xs) = max_from key (if key best < key x then x else best) xs"

definition py_max :: "('a \<Rightarrow> nat) \<Rightarrow> 'a list \<Rightarrow> exn + 'a" where
  "py_max key xs =
     (case xs of
        [] \<Rightarrow> Inl (ValueError, ''max() arg is an empty sequence'')
      | x # rest \<Rightarrow> Inr (max_from key x rest))"

section \<open>Dates and their renderings\<close>

record datetime =
  year :: nat
  month :: nat
  day :: nat
  hour :: nat
  minute :: nat
  second :: nat
  microsecond :: nat

definition valid_datetime :: "datetime \<Rightarrow> bool" where
  "valid_datetime dt \<longleftrightarrow>
     1000 \<le> year dt \<and> year dt \<le> 9999 \<and> 1 \<le> month dt \<and> month dt \<le> 12 \<and>
     1 \<le> day dt \<and> day dt \<le> 31 \<and> hour dt < 24 \<and> minute dt < 60 \<and> second dt < 60 \<and>
     microsecond dt < 1000000"

definition digit :: "nat \<Rightarrow> char" where
  "digit n = ''0123456789'' ! (n mod 10)"

text \<open>Zero-padded decimal of fixed width, as \<open>%02d\<close> prints a field that is in range.\<close>

fun zpad :: "nat \<Rightarrow> nat \<Rightarrow> string" where
  "zpad 0 n = []"
| "zpad (Suc w) n = zpad w (n div 10) @ [digit n]"

text \<open>\<open>strftime('%Y-%m-%d')\<close>, also \<open>date().isoformat()\<close>.\<close>

definition date_str :: "datetime \<Rightarrow> string" where
  "date_str dt = zpad 4 (year dt) @ ''-'' @ zpad 2 (month dt) @ ''-'' @ zpad 2 (day dt)"

text \<open>\<open>strftime("%Y%m%d_%H%M%S")\<close>: the microsecond is not printed.\<close>

definition timestamp_str :: "datetime \<Rightarrow> string" where
  "timestamp_str dt =
     zpad 4 (year dt) @ zpad 2 (month dt) @ zpad 2 (day dt) @ ''_'' @
     zpad 2 (hour dt) @ zpad 2 (minute dt) @ zpad 2 (second dt)"

text \<open>\<open>datetime.isoformat()\<close>: the fraction is printed unless the microsecond is 0.\<close>

definition isoformat :: "datetime \<Rightarrow> string" where
  "isoformat dt =
     date_str dt @ ''T'' @ zpad 2 (hour dt) @ '':'' @ zpad 2 (minute dt) @ '':'' @
     zpad 2 (second dt) @
     (if microsecond dt = 0 then [] else ''.'' @ zpad 6 (microsecond dt))"

text \<open>
  \<open>datetime.strptime(s, fmt)\<close>: the parser of the library is a parameter
  (\<open>None\<close> when the text does not match the format, a \<open>ValueError\<close>); an argument that is
  not a string is a \<open>TypeError\<close>.
\<close>

definition py_strptime :: "(string \<Rightarrow> datetime option) \<Rightarrow> pyval \<Rightarrow> exn + datetime" where
  "py_strptime parse v =
     (case v of
        PStr s \<Rightarrow> (case parse s of
                     None \<Rightarrow> Inl (ValueError, ''time data does not match format'')
                   | Some dt \<Rightarrow> Inr dt)
      | _ \<Rightarrow> Inl (TypeError, ''strptime() argument 1 must be str''))"

section \<open>AnalysisProcessor: aggregation over analysed tweets\<close>

text \<open>\<open>tweet.get('sentiment', {}).get('overall_sentiment', 'neutral')\<close>\<close>

definition tweet_sentiment :: "pyval \<Rightarrow> exn + pyval" where
  "tweet_sentiment tweet =
     and_then (dict_get tweet ''sentiment'' (PDict []))
       (\<lambda>s. dict_get s ''overall_sentiment'' (PStr ''neutral''))"

text \<open>\<open>tweet.get('engagement', {}).get('total_engagement', 0)\<close>\<close>

definition tweet_engagement :: "pyval \<Rightarrow> exn + pyval" where
  "tweet_engagement tweet =
     and_then (dict_get tweet ''engagement'' (PDict []))
       (\<lambda>e. dict_get e ''total_engagement'' (PNum 0))"

text \<open>\<open>tweet.get('media', {}).get('has_media', False)\<close>\<close>

definition tweet_has_media :: "pyval \<Rightarrow> exn + pyval" where
  "tweet_has_media tweet =
     and_then (dict_get tweet ''media'' (PDict []))
       (\<lambda>m. dict_get m ''has_media'' (PBool False))"

text \<open>\<open>tweet.get('text_analysis', {}).get(field, 0)\<close>\<close>

definition tweet_text_count :: "string \<Rightarrow> pyval \<Rightarrow> exn + pyval" where
  "tweet_text_count field tweet =
     and_then (dict_get tweet ''text_analysis'' (PDict []))
       (\<lambda>t. dict_get t field (PNum 0))"

subsection \<open>Posting frequency\<close>

text \<open>
  The loop of \<open>_analyze_posting_frequency\<close>. An empty or missing \<open>created_at\<close> is skipped;
  a \<open>ValueError\<close> of the parser is caught inside the loop (\<open>continue\<close>); every other
  exception leaves the loop.
\<close>

fun posting_loop ::
  "(string \<Rightarrow> datetime option) \<Rightarrow> pyval list \<Rightarrow> (string \<times> nat) list \<Rightarrow> (nat \<times> nat) list
     \<Rightarrow> exn + ((string \<times> nat) list \<times> (nat \<times> nat) list)" where
  "posting_loop parse [] date_counts hour_counts = Inr (date_counts, hour_counts)"
| "posting_loop parse (tweet # tweets) date_counts hour_counts =
     and_then (dict_get tweet ''created_at'' (PStr ''''))
       (\<lambda>created_at.
          if truthy created_at then
            (case py_strptime parse created_at of
               Inr dt \<Rightarrow>
                 posting_loop parse tweets (incr (date_str dt) date_counts)
                   (incr (hour dt) hour_counts)
             | Inl (ValueError, msg) \<Rightarrow> posting_loop parse tweets date_counts hour_counts
             | Inl e \<Rightarrow> Inl e)
          else posting_loop parse tweets date_counts hour_counts)"

definition counts_dict :: "('k \<Rightarrow> pyval) \<Rightarrow> ('k \<times> nat) list \<Rightarrow> pyval" where
  "counts_dict key c = PDict (map (\<lambda>(k, n). (key k, PNum (of_nat n))) c)"

text \<open>\<open>max(hour_counts.items(), key=lambda x: x[1])[0] if hour_counts else None\<close>\<close>

definition most_active_hour :: "(nat \<times> nat) list \<Rightarrow> nat option" where
  "most_active_hour hour_counts =
     (case hour_counts of [] \<Rightarrow> None | x # rest \<Rightarrow> Some (fst (max_from snd x rest)))"

definition analyze_posting_frequency :: "(string \<Rightarrow> datetime option) \<Rightarrow> pyval list \<Rightarrow> pyval" where
  "analyze_posting_frequency parse tweets =
     (case posting_loop parse tweets [] [] of
        Inr (date_counts, hour_counts) \<Rightarrow>
          PDict [(PStr ''daily_posts'', counts_dict PStr date_counts),
                 (PStr ''hourly_distribution'', counts_dict (\<lambda>h. PNum (of_nat h)) hour_counts),
                 (PStr ''most_active_hour'',
                    (case most_active_hour hour_counts of
                       None \<Rightarrow> PNone | Some h \<Rightarrow> PNum (of_nat h)))]
      | Inl e \<Rightarrow> PDict [])"

subsection \<open>Sentiment trends\<close>

text \<open>
  \<open>sentiment_by_date[date_key][sentiment] += 1\<close> on a
  \<open>defaultdict(lambda: {'bullish': 0, 'bearish': 0, 'neutral': 0})\<close>: a label outside the
  three keys is a \<open>KeyError\<close>, an unhashable one a \<open>TypeError\<close>.
\<close>

definition bump_sentiment ::
  "string \<Rightarrow> pyval \<Rightarrow> (string \<times> (string \<times> nat) list) list
     \<Rightarrow> exn + (string \<times> (string \<times> nat) list) list" where
  "bump_sentiment date_key sentiment by_date =
     (let row = (case map_of by_date date_key of
                   Some r \<Rightarrow> r
                 | None \<Rightarrow> [(''bullish'', 0), (''bearish'', 0), (''neutral'', 0)])
      in if \<not> hashable sentiment then Inl (TypeError, ''unhashable type'')
         else (case sentiment of
                 PStr s \<Rightarrow>
                   (case map_of row s of
                      Some n \<Rightarrow> Inr (AList.update date_key (AList.update s (n + 1) row) by_date)
                    | None \<Rightarrow> Inl (KeyError, [CHR 0x27] @ s @ [CHR 0x27]))
               | _ \<Rightarrow> Inl (KeyError, ''sentiment'')))"

fun trends_loop ::
  "(string \<Rightarrow> datetime option) \<Rightarrow> pyval list \<Rightarrow> (string \<times> (string \<times> nat) list) list
     \<Rightarrow> exn + (string \<times> (string \<times> nat) list) list" where
  "trends_loop parse [] by_date = Inr by_date"
| "trends_loop parse (tweet # tweets) by_date =
     and_then (dict_get tweet ''created_at'' (PStr ''''))
       (\<lambda>created_at. and_then (tweet_sentiment tweet)
          (\<lambda>sentiment.
             if truthy created_at then
               (case py_strptime parse created_at of
                  Inr dt \<Rightarrow>
                    and_then (bump_sentiment (date_str dt) sentiment by_date)
                      (\<lambda>by_date'. trends_loop parse tweets by_date')
                | Inl (ValueError, msg) \<Rightarrow> trends_loop parse tweets by_date
                | Inl e \<Rightarrow> Inl e)
             else trends_loop parse tweets by_date))"

definition analyze_sentiment_trends :: "(string \<Rightarrow> datetime option) \<Rightarrow> pyval list \<Rightarrow> pyval" where
  "analyze_sentiment_trends parse tweets =
     (case trends_loop parse tweets [] of
        Inr by_date \<Rightarrow> PDict (map (\<lambda>(d, row). (PStr d, counts_dict PStr row)) by_date)
      | Inl e \<Rightarrow> PDict [])"

subsection \<open>Engagement patterns\<close>

text \<open>\<open>groups[k].append(v)\<close> on a \<open>defaultdict(list)\<close>.\<close>

definition group_append :: "'k \<Rightarrow> 'v \<Rightarrow> ('k \<times> 'v list) list \<Rightarrow> ('k \<times> 'v list) list" where
  "group_append k v groups =
     AList.update k ((case map_of groups k of None \<Rightarrow> [] | Some vs \<Rightarrow> vs) @ [v]) groups"

fun patterns_loop ::
  "pyval list \<Rightarrow> (pyval \<times> pyval list) list \<Rightarrow> pyval list \<Rightarrow> pyval list
     \<Rightarrow> exn + ((pyval \<times> pyval list) list \<times> pyval list \<times> pyval list)" where
  "patterns_loop [] by_sentiment with_media without_media =
     Inr (by_sentiment, with_media, without_media)"
| "patterns_loop (tweet # tweets) by_sentiment with_media without_media =
     and_then (tweet_engagement tweet)
       (\<lambda>engagement. and_then (tweet_sentiment tweet)
          (\<lambda>sentiment. and_then (tweet_has_media tweet)
             (\<lambda>has_media.
                if \<not> hashable sentiment then Inl (TypeError, ''unhashable type'')
                else if truthy has_media then
                  patterns_loop tweets (group_append sentiment engagement by_sentiment)
                    (with_media @ [engagement]) without_media
                else
                  patterns_loop tweets (group_append sentiment engagement by_sentiment)
                    with_media (without_media @ [engagement]))))"

text \<open>
  \<open>np.mean(values) if values else 0\<close> on a list of numbers (a value that is not a number
  makes \<open>np.mean\<close> raise).
\<close>

definition mean_or_zero :: "pyval list \<Rightarrow> exn + pyval" where
  "mean_or_zero vs =
     (if vs = [] then Inr (PNum 0)
      else and_then (sum_over Inr vs 0) (\<lambda>s. Inr (PNum (s / of_nat (length vs)))))"

definition analyze_engagement_patterns :: "pyval list \<Rightarrow> pyval" where
  "analyze_engagement_patterns tweets =
     (case
        and_then (patterns_loop tweets [] [] [])
          (\<lambda>(by_sentiment, with_media, without_media).
             and_then (map_exn (\<lambda>(s, vs). and_then (mean_or_zero vs) (\<lambda>m. Inr (s, m)))
                         by_sentiment)
               (\<lambda>avg_by_sentiment. and_then (mean_or_zero with_media)
                  (\<lambda>avg_with. and_then (mean_or_zero without_media)
                     (\<lambda>avg_without.
                        Inr (PDict [(PStr ''by_sentiment'', PDict avg_by_sentiment),
                                    (PStr ''by_media'',
                                       PDict [(PStr ''with_media'', avg_with),
                                              (PStr ''without_media'', avg_without)])])))))
      of Inr d \<Rightarrow> d | Inl e \<Rightarrow> PDict [])"

subsection \<open>The analysis bundle\<close>

fun sentiment_loop :: "pyval list \<Rightarrow> (pyval \<times> nat) list \<Rightarrow> exn + (pyval \<times> nat) list" where
  "sentiment_loop [] distribution = Inr distribution"
| "sentiment_loop (tweet # tweets) distribution =
     and_then (tweet_sentiment tweet)
       (\<lambda>sentiment.
          if \<not> hashable sentiment then Inl (TypeError, ''unhashable type'')
          else sentiment_loop tweets (incr sentiment distribution))"

text \<open>
  \<open>sorted(tweets, key=engagement, reverse=True)[:5]\<close>: descending, and tweets of equal
  engagement keep their order.
\<close>

definition most_engaging :: "pyval list \<Rightarrow> exn + pyval list" where
  "most_engaging tweets =
     and_then (map_exn (\<lambda>t. and_then (tweet_engagement t) num_of) tweets)
       (\<lambda>keys. Inr (take 5 (map snd (sort_key (\<lambda>(k, t). - k) (zip keys tweets)))))"

text \<open>\<open>sum(1 for tweet in tweets if tweet.get('media', {}).get('has_media', False))\<close>\<close>

fun count_media :: "pyval list \<Rightarrow> nat \<Rightarrow> exn + nat" where
  "count_media [] n = Inr n"
| "count_media (tweet # tweets) n =
     and_then (tweet_has_media tweet)
       (\<lambda>m. count_media tweets (if truthy m then n + 1 else n))"

text \<open>
  The body of \<open>_generate_comprehensive_analysis\<close> inside its \<open>try\<close>; \<open>now\<close> is the
  reading of \<open>datetime.now()\<close>.
\<close>

definition comprehensive_analysis_body ::
  "(string \<Rightarrow> datetime option) \<Rightarrow> datetime \<Rightarrow> pyval list \<Rightarrow> string \<Rightarrow> exn + pyval" where
  "comprehensive_analysis_body parse now analyzed_tweets username =
     (if analyzed_tweets = [] then Inr (PDict [])
      else
        and_then (sentiment_loop analyzed_tweets [])
        (\<lambda>sentiment_distribution. and_then (sum_over tweet_engagement analyzed_tweets 0)
        (\<lambda>total_engagement. and_then (most_engaging analyzed_tweets)
        (\<lambda>most_engaging_tweets.
           and_then (sum_over (tweet_text_count ''word_count'') analyzed_tweets 0)
        (\<lambda>total_words.
           and_then (sum_over (tweet_text_count ''hashtag_count'') analyzed_tweets 0)
        (\<lambda>total_hashtags.
           and_then (sum_over (tweet_text_count ''mention_count'') analyzed_tweets 0)
        (\<lambda>total_mentions. and_then (count_media analyzed_tweets 0)
        (\<lambda>tweets_with_media.
           Inr (PDict
             [(PStr ''username'', PStr username),
              (PStr ''tweets'', PList analyzed_tweets),
              (PStr ''summary'', PDict
                 [(PStr ''total_tweets'', PNum (of_nat (length analyzed_tweets))),
                  (PStr ''sentiment_distribution'', counts_dict id sentiment_distribution),
                  (PStr ''total_engagement'', PNum total_engagement),
                  (PStr ''average_engagement'',
                     PNum (total_engagement / of_nat (length analyzed_tweets))),
                  (PStr ''total_words'', PNum total_words),
                  (PStr ''total_hashtags'', PNum total_hashtags),
                  (PStr ''total_mentions'', PNum total_mentions),
                  (PStr ''tweets_with_media'', PNum (of_nat tweets_with_media)),
                  (PStr ''media_percentage'',
                     PNum (of_nat tweets_with_media / of_nat (length analyzed_tweets) * 100))]),
              (PStr ''insights'', PDict
                 [(PStr ''most_engaging_tweets'', PList most_engaging_tweets),
                  (PStr ''posting_frequency'', analyze_posting_frequency parse analyzed_tweets),
                  (PStr ''sentiment_trends'', analyze_sentiment_trends parse analyzed_tweets),
                  (PStr ''engagement_patterns'', analyze_engagement_patterns analyzed_tweets)]),
              (PStr ''timestamp'', PStr (isoformat now))])))))))))"

text \<open>
  \<open>_generate_comprehensive_analysis\<close>: \<open>except Exception\<close> turns every exception of the
  body into the empty dictionary. The result type keeps the exception case, so that
  "does not raise" is a statement about the function.
\<close>

definition generate_comprehensive_analysis ::
  "(string \<Rightarrow> datetime option) \<Rightarrow> datetime \<Rightarrow> pyval list \<Rightarrow> string \<Rightarrow> exn + pyval" where
  "generate_comprehensive_analysis parse now analyzed_tweets username =
     (case comprehensive_analysis_body parse now analyzed_tweets username of
        Inr bundle \<Rightarrow> Inr bundle
      | Inl e \<Rightarrow> Inr (PDict []))"

subsection \<open>Recommendations\<close>

definition rec_engagement :: string where
  "rec_engagement = ''Consider posting more engaging content to increase interaction rates''"

definition rec_media :: string where
  "rec_media = ''Increase media usage in posts to boost engagement''"

definition rec_emotional :: string where
  "rec_emotional = ''Consider adding more emotional content to increase engagement''"

definition rec_posting_times :: string where
  "rec_posting_times = ''Analyze optimal posting times based on engagement patterns''"

text \<open>
  \<open>_generate_recommendations\<close> has no \<open>try\<close> of its own: an exception goes to the caller
  (\<open>generate_insights_report\<close>, which catches it).
\<close>

definition generate_recommendations :: "pyval \<Rightarrow> exn + string list" where
  "generate_recommendations analysis_data =
     and_then (dict_get analysis_data ''summary'' (PDict []))
     (\<lambda>summary. and_then (dict_get analysis_data ''insights'' (PDict []))
     (\<lambda>insights. and_then (dict_get summary ''average_engagement'' (PNum 0))
     (\<lambda>avg_engagement. and_then (num_of avg_engagement)
     (\<lambda>avg. and_then (dict_get summary ''media_percentage'' (PNum 0))
     (\<lambda>media_percentage. and_then (num_of media_percentage)
     (\<lambda>media. and_then (dict_get summary ''sentiment_distribution'' (PDict []))
     (\<lambda>sentiment_dist. and_then (dict_get sentiment_dist ''neutral'' (PNum 0))
     (\<lambda>neutral_count. and_then (num_of neutral_count)
     (\<lambda>neutral. and_then (dict_get insights ''posting_frequency'' (PDict []))
     (\<lambda>posting_freq.
        Inr ((if avg < 10 then [rec_engagement] else []) @
             (if media < 30 then [rec_media] else []) @
             (if neutral > 70 then [rec_emotional] else []) @
             (if truthy posting_freq then [rec_posting_times] else []))))))))))))"

subsection \<open>Notions used to state properties of the analysis\<close>

text \<open>Position of the first occurrence of \<open>x\<close> in a list (its length when absent).\<close>

fun first_index :: "'a list \<Rightarrow> 'a \<Rightarrow> nat" where
  "first_index [] x = 0"
| "first_index (y # ys) x = (if y = x then 0 else Suc (first_index ys x))"

text \<open>
  The hour \<open>_analyze_posting_frequency\<close> counts for one tweet: that of a non-empty
  \<open>created_at\<close> which the parser accepts; \<open>None\<close> for a tweet the loop passes over.
\<close>

definition item_hour :: "(string \<Rightarrow> datetime option) \<Rightarrow> pyval \<Rightarrow> nat option" where
  "item_hour parse tweet =
     (case dict_get tweet ''created_at'' (PStr '''') of
        Inr created_at \<Rightarrow>
          (if truthy created_at then
             (case py_strptime parse created_at of Inr dt \<Rightarrow> Some (hour dt) | Inl e \<Rightarrow> None)
           else None)
      | Inl e \<Rightarrow> None)"

definition parsed_hours :: "(string \<Rightarrow> datetime option) \<Rightarrow> pyval list \<Rightarrow> nat list" where
  "parsed_hours parse tweets = List.map_filter (item_hour parse) tweets"

text \<open>
  The rule for the emotional-content recommendation as the specification words it: the
  share of neutral items, \<open>sentiment_distribution[neutral] / item_count > 0.70\<close>.
\<close>

definition spec_neutral_rule :: "pyval \<Rightarrow> exn + bool" where
  "spec_neutral_rule analysis_data =
     and_then (dict_get analysis_data ''summary'' (PDict []))
     (\<lambda>summary. and_then (dict_get summary ''sentiment_distribution'' (PDict []))
     (\<lambda>sentiment_dist. and_then (dict_get sentiment_dist ''neutral'' (PNum 0))
     (\<lambda>neutral_count. and_then (num_of neutral_count)
     (\<lambda>neutral. and_then (dict_get summary ''total_tweets'' (PNum 0))
     (\<lambda>total_tweets. and_then (num_of total_tweets)
     (\<lambda>total. Inr (neutral / total > 7 / 10)))))))"

subsection \<open>Sample data\<close>

text \<open>A parser that knows two timestamps of the tweet format, and tweets carrying them.\<close>

definition sample_strptime :: "string \<Rightarrow> datetime option" where
  "sample_strptime s =
     (if s = ''Mon Jan 01 15:00:00 +0000 2024''
      then Some \<lparr>year = 2024, month = 1, day = 1, hour = 15, minute = 0, second = 0,
                  microsecond = 0\<rparr>
      else if s = ''Tue Jan 02 09:30:00 +0000 2024''
      then Some \<lparr>year = 2024, month = 1, day = 2, hour = 9, minute = 30, second = 0,
                  microsecond = 0\<rparr>
      else None)"

definition sample_now :: datetime where
  "sample_now = \<lparr>year = 2024, month = 3, day = 5, hour = 12, minute = 30, second = 45,
                  microsecond = 123456\<rparr>"

definition sample_tweet :: "string \<Rightarrow> string \<Rightarrow> rat \<Rightarrow> pyval" where
  "sample_tweet created_at sentiment engagement =
     PDict [(PStr ''id'', PStr ''1''),
            (PStr ''created_at'', PStr created_at),
            (PStr ''sentiment'', PDict [(PStr ''overall_sentiment'', PStr sentiment)]),
            (PStr ''engagement'', PDict [(PStr ''total_engagement'', PNum engagement)]),
            (PStr ''media'', PDict [(PStr ''has_media'', PBool True)])]"

definition tweet_at_15 :: pyval where
  "tweet_at_15 = sample_tweet ''Mon Jan 01 15:00:00 +0000 2024'' ''neutral'' 24"

definition tweet_at_9 :: pyval where
  "tweet_at_9 = sample_tweet ''Tue Jan 02 09:30:00 +0000 2024'' ''neutral'' 31"

definition neutral_tweets :: "pyval list" where
  "neutral_tweets =
     [sample_tweet [] ''neutral'' 24, sample_tweet [] ''neutral'' 24,
      sample_tweet [] ''neutral'' 24]"

section \<open>TweetAnalysisAgent: the per-user pipeline and the batch\<close>

text \<open>
  The agent drives two collaborators, \<open>TweetStorer.store_user_tweets\<close> and
  \<open>TweetAnalyzer.analyze_user\<close>, which are parameters here: each takes the user name and the
  state of the world \<open>'w\<close> (network, disk, clock) and either raises or returns a value,
  leaving a new state. \<open>str_of\<close> is Python's \<open>str\<close> on a value, \<open>clock\<close> reads
  \<open>datetime.now()\<close>.
\<close>

record 'w collaborators =
  store_user_tweets :: "string \<Rightarrow> 'w \<Rightarrow> (exn + pyval) \<times> 'w"
  analyze_user :: "string \<Rightarrow> 'w \<Rightarrow> (exn + pyval) \<times> 'w"
  clock :: "'w \<Rightarrow> datetime"
  str_of :: "pyval \<Rightarrow> string"

definition error_result :: "string \<Rightarrow> pyval" where
  "error_result message = PDict [(PStr ''status'', PStr ''error''), (PStr ''message'', PStr message)]"

text \<open>\<open>_fetch_and_store_tweets\<close>: an exception of the storer becomes an error result.\<close>

definition fetch_and_store_tweets :: "'w collaborators \<Rightarrow> string \<Rightarrow> 'w \<Rightarrow> pyval \<times> 'w" where
  "fetch_and_store_tweets c username w =
     (case store_user_tweets c username w of
        (Inr result, w') \<Rightarrow> (result, w')
      | (Inl e, w') \<Rightarrow> (error_result (snd e), w'))"

text \<open>\<open>_analyze_user_tweets\<close>: an exception of the analyzer becomes an error result.\<close>

definition analyze_user_tweets_step :: "'w collaborators \<Rightarrow> string \<Rightarrow> 'w \<Rightarrow> pyval \<times> 'w" where
  "analyze_user_tweets_step c username w =
     (case analyze_user c username w of
        (Inr result, w') \<Rightarrow> (result, w')
      | (Inl e, w') \<Rightarrow> (error_result (snd e), w'))"

text \<open>
  The body of \<open>process_user\<close> inside its \<open>try\<close>. Reading \<open>result["status"]\<close> or
  \<open>result['message']\<close> raises when the collaborator returned something else than a
  dictionary with these keys.
\<close>

definition process_user_body :: "'w collaborators \<Rightarrow> string \<Rightarrow> 'w \<Rightarrow> (exn + pyval) \<times> 'w" where
  "process_user_body c username w =
     (case fetch_and_store_tweets c username w of (storage_result, w1) \<Rightarrow>
        (case subscript storage_result ''status'' of
           Inl e \<Rightarrow> (Inl e, w1)
         | Inr storage_status \<Rightarrow>
             if storage_status \<noteq> PStr ''success'' then
               (and_then (subscript storage_result ''message'')
                  (\<lambda>m. Inr (PDict
                     [(PStr ''status'', PStr ''error''),
                      (PStr ''message'',
                         PStr (''Failed to fetch tweets for '' @ username @ '': '' @ str_of c m)),
                      (PStr ''step'', PStr ''fetch_and_store'')])),
                w1)
             else
               (case analyze_user_tweets_step c username w1 of (analysis_result, w2) \<Rightarrow>
                  (case subscript analysis_result ''status'' of
                     Inl e \<Rightarrow> (Inl e, w2)
                   | Inr analysis_status \<Rightarrow>
                       if analysis_status \<noteq> PStr ''success'' then
                         (and_then (subscript analysis_result ''message'')
                            (\<lambda>m. Inr (PDict
                               [(PStr ''status'', PStr ''error''),
                                (PStr ''message'',
                                   PStr (''Failed to analyze tweets for '' @ username @ '': ''
                                         @ str_of c m)),
                                (PStr ''step'', PStr ''analysis'')])),
                          w2)
                       else
                         (Inr (PDict
                            [(PStr ''status'', PStr ''success''),
                             (PStr ''message'', PStr (''Successfully processed '' @ username)),
                             (PStr ''storage'', storage_result),
                             (PStr ''analysis'', analysis_result),
                             (PStr ''timestamp'', PStr (isoformat (clock c w2)))]),
                          w2)))))"

text \<open>\<open>process_user\<close>: \<open>except Exception\<close> turns an exception of the body into an error result.\<close>

definition process_user :: "'w collaborators \<Rightarrow> string \<Rightarrow> 'w \<Rightarrow> (exn + pyval) \<times> 'w" where
  "process_user c username w =
     (case process_user_body c username w of
        (Inr result, w') \<Rightarrow> (Inr result, w')
      | (Inl e, w') \<Rightarrow>
          (Inr (error_result (''Unexpected error processing '' @ username @ '': '' @ snd e)), w'))"

text \<open>
  \<open>asyncio.gather(*tasks, return_exceptions=True)\<close>: the coroutines never suspend (nothing
  they await yields to the loop), so the tasks run to completion one after the other in
  the order of the list; an exception of a task would be an entry of the result list.
\<close>

fun gather :: "'w collaborators \<Rightarrow> string list \<Rightarrow> 'w \<Rightarrow> (exn + pyval) list \<times> 'w" where
  "gather c [] w = ([], w)"
| "gather c (username # usernames) w =
     (case process_user c username w of (r, w1) \<Rightarrow>
        (case gather c usernames w1 of (rs, w2) \<Rightarrow> (r # rs, w2)))"

text \<open>What the batch stores under a user name for one entry of the result list.\<close>

definition settle :: "exn + pyval \<Rightarrow> pyval" where
  "settle r =
     (case r of
        Inl e \<Rightarrow> error_result (''Exception occurred: '' @ snd e)
      | Inr result \<Rightarrow> result)"

text \<open>The loop \<open>for i, username in enumerate(usernames): combined_results[username] = ...\<close>.\<close>

fun combine ::
  "(string \<times> (exn + pyval)) list \<Rightarrow> (pyval \<times> pyval) list \<Rightarrow> (pyval \<times> pyval) list" where
  "combine [] combined_results = combined_results"
| "combine ((username, r) # rest) combined_results =
     combine rest (AList.update (PStr username) (settle r) combined_results)"

definition process_multiple_users ::
  "'w collaborators \<Rightarrow> string list \<Rightarrow> 'w \<Rightarrow> (exn + pyval) \<times> 'w" where
  "process_multiple_users c usernames w =
     (case gather c usernames w of
        (results, w') \<Rightarrow> (Inr (PDict (combine (zip usernames results) [])), w'))"

text \<open>The status a result dictionary reports, if it is a dictionary that has one.\<close>

definition status_of :: "pyval \<Rightarrow> pyval option" where
  "status_of result = (case result of PDict kvs \<Rightarrow> map_of kvs (PStr ''status'') | _ \<Rightarrow> None)"

subsection \<open>Sample collaborators\<close>

text \<open>
  The world is a counter of collaborator calls. Storing fails with an exception for
  \<open>bob\<close> and reports an error for \<open>carol\<close>; analysis succeeds.
\<close>

definition sample_collaborators :: "nat collaborators" where
  "sample_collaborators =
     \<lparr>store_user_tweets = (\<lambda>username w.
          if username = ''bob'' then (Inl (OSError, ''connection reset''), w + 1)
          else if username = ''carol'' then (Inr (error_result ''no tweets''), w + 1)
          else (Inr (PDict [(PStr ''status'', PStr ''success'')]), w + 1)),
       analyze_user = (\<lambda>username w. (Inr (PDict [(PStr ''status'', PStr ''success'')]), w + 1)),
       clock = (\<lambda>w. sample_now),
       str_of = (\<lambda>v. case v of PStr s \<Rightarrow> s | _ \<Rightarrow> ''?'')\<rparr>"

section \<open>The file system and the library, as the data manager sees them\<close>

text \<open>
  A path is the list of its components, relative to the working directory (the empty path).
  User names and data types are taken to be single components (no separator in them).
  A file holds a complete JSON document, a text that breaks off partway, or bytes that are
  no JSON text (an archive, the placeholder line of the CSV export); the file system lists
  its entries in the order a directory scan yields them.
\<close>

type_synonym path = "string list"

datatype contents = Document pyval | Truncated | Other

datatype node = Dir | File contents datetime

type_synonym filesystem = "(path \<times> node) list"

text \<open>
  What the code cannot decide from the entries: which system calls the operating system
  refuses (with its message), the modification time it reports for a directory, the size
  it reports for a file, and the library functions \<open>strptime(name, '%Y-%m-%d')\<close>, \<open>dt - timedelta(days=n)\<close> (\<open>None\<close>: out of
  range) and the text \<open>json.dump\<close> writes for a dictionary key that is not a string.
\<close>

record os_env =
  mkdir_fault :: "path \<Rightarrow> string option"
  open_fault :: "path \<Rightarrow> string option"
  write_fault :: "path \<Rightarrow> string option"
  remove_fault :: "path \<Rightarrow> string option"
  copy_fault :: "path \<Rightarrow> string option"
  rename_fault :: "path \<Rightarrow> string option"
  dir_mtime :: "path \<Rightarrow> datetime"
  file_size :: "path \<Rightarrow> nat"
  strptime_date :: "string \<Rightarrow> datetime option"
  minus_days :: "datetime \<Rightarrow> int \<Rightarrow> datetime option"
  json_key :: "pyval \<Rightarrow> string"

text \<open>Datetimes compare field by field; for fields in range this number orders them so.\<close>

definition dt_key :: "datetime \<Rightarrow> nat" where
  "dt_key dt =
     ((((((year dt * 13 + month dt) * 32 + day dt) * 24 + hour dt) * 60 + minute dt) * 60
        + second dt) * 1000000 + microsecond dt)"

fun path_str :: "path \<Rightarrow> string" where
  "path_str [] = ''.''"
| "path_str [a] = a"
| "path_str (a # b # rest) = a @ ''/'' @ path_str (b # rest)"

definition is_dir :: "filesystem \<Rightarrow> path \<Rightarrow> bool" where
  "is_dir fs p = (p = [] \<or> map_of fs p = Some Dir)"

definition is_file :: "filesystem \<Rightarrow> path \<Rightarrow> bool" where
  "is_file fs p = (case map_of fs p of Some (File c m) \<Rightarrow> True | _ \<Rightarrow> False)"

definition path_exists :: "filesystem \<Rightarrow> path \<Rightarrow> bool" where
  "path_exists fs p = (p = [] \<or> map_of fs p \<noteq> None)"

text \<open>\<open>Path.iterdir()\<close>: the entries directly below \<open>d\<close>; a missing directory raises.\<close>

definition children :: "filesystem \<Rightarrow> path \<Rightarrow> path list" where
  "children fs d = [p \<leftarrow> map fst fs. p \<noteq> [] \<and> butlast p = d]"

definition iterdir :: "filesystem \<Rightarrow> path \<Rightarrow> exn + path list" where
  "iterdir fs d =
     (if is_dir fs d then Inr (children fs d)
      else Inl (OSError, ''No such file or directory: '' @ path_str d))"

text \<open>
  Matching a name against a pattern: \<open>*\<close> stands for any run of characters, \<open>?\<close> for one.
  Bracket classes are not modelled; no pattern of the code has one unless a user name
  brings it in.
\<close>

fun fnmatch :: "string \<Rightarrow> string \<Rightarrow> bool" where
  "fnmatch [] s = (s = [])"
| "fnmatch (p # ps) [] = (p = CHR ''*'' \<and> fnmatch ps [])"
| "fnmatch (p # ps) (c # cs) =
     (if p = CHR ''*'' then fnmatch ps (c # cs) \<or> fnmatch (p # ps) cs
      else (p = CHR ''?'' \<or> p = c) \<and> fnmatch ps cs)"

text \<open>\<open>d.glob(pattern)\<close> for a pattern of one component: the matching entries below \<open>d\<close>.\<close>

definition glob :: "filesystem \<Rightarrow> path \<Rightarrow> string \<Rightarrow> path list" where
  "glob fs d pattern =
     (if is_dir fs d then [p \<leftarrow> children fs d. fnmatch pattern (last p)] else [])"

text \<open>\<open>p.stat().st_mtime\<close> of an entry that exists.\<close>

definition mtime :: "os_env \<Rightarrow> filesystem \<Rightarrow> path \<Rightarrow> datetime" where
  "mtime env fs p = (case map_of fs p of Some (File c m) \<Rightarrow> m | _ \<Rightarrow> dir_mtime env p)"

text \<open>\<open>max(files, key=lambda x: x.stat().st_mtime)\<close> on a list that is not empty.\<close>

definition latest :: "os_env \<Rightarrow> filesystem \<Rightarrow> path list \<Rightarrow> path" where
  "latest env fs files = max_from (\<lambda>p. dt_key (mtime env fs p)) (hd files) (tl files)"

text \<open>
  \<open>Path.mkdir(parents=True, exist_ok=True)\<close>: every missing ancestor is created in turn;
  the directories created before a failure stay.
\<close>

definition mkdir1 :: "os_env \<Rightarrow> path \<Rightarrow> filesystem \<Rightarrow> (exn + unit) \<times> filesystem" where
  "mkdir1 env q fs =
     (case map_of fs q of
        Some Dir \<Rightarrow> (Inr (), fs)
      | Some (File c m) \<Rightarrow> (Inl (OSError, ''File exists: '' @ path_str q), fs)
      | None \<Rightarrow>
          (case mkdir_fault env q of
             Some msg \<Rightarrow> (Inl (OSError, msg), fs)
           | None \<Rightarrow> (Inr (), fs @ [(q, Dir)])))"

fun mkdirs :: "os_env \<Rightarrow> path list \<Rightarrow> filesystem \<Rightarrow> (exn + unit) \<times> filesystem" where
  "mkdirs env [] fs = (Inr (), fs)"
| "mkdirs env (q # qs) fs =
     (case mkdir1 env q fs of
        (Inl e, fs') \<Rightarrow> (Inl e, fs')
      | (Inr u, fs') \<Rightarrow> mkdirs env qs fs')"

definition mkdir_parents :: "os_env \<Rightarrow> path \<Rightarrow> filesystem \<Rightarrow> (exn + unit) \<times> filesystem" where
  "mkdir_parents env p fs = mkdirs env (tl (prefixes p)) fs"

text \<open>
  \<open>with open(p, 'w') as f: json.dump(v, f)\<close>. Opening creates the file or empties it;
  the document is then written into that very file, so a write that breaks off leaves the
  file there, cut short. \<open>wtime\<close> is the time the system stamps on the file.
\<close>

definition write_json ::
  "os_env \<Rightarrow> datetime \<Rightarrow> path \<Rightarrow> pyval \<Rightarrow> filesystem \<Rightarrow> (exn + unit) \<times> filesystem" where
  "write_json env wtime p v fs =
     (if p = [] \<or> \<not> is_dir fs (butlast p) then
        (Inl (OSError, ''No such file or directory: '' @ path_str p), fs)
      else if map_of fs p = Some Dir then
        (Inl (OSError, ''Is a directory: '' @ path_str p), fs)
      else
        (case open_fault env p of
           Some msg \<Rightarrow> (Inl (OSError, msg), fs)
         | None \<Rightarrow>
             (case write_fault env p of
                Some msg \<Rightarrow> (Inl (OSError, msg), AList.update p (File Truncated wtime) fs)
              | None \<Rightarrow> (Inr (), AList.update p (File (Document v) wtime) fs))))"

text \<open>
  What \<open>json.load\<close> gives back for a dumped value: the keys of every dictionary have
  become strings, and of two keys with the same text the later value stays.
\<close>

definition string_key :: "os_env \<Rightarrow> pyval \<Rightarrow> pyval" where
  "string_key env k = (case k of PStr s \<Rightarrow> PStr s | _ \<Rightarrow> PStr (json_key env k))"

definition merge_keys :: "(pyval \<times> pyval) list \<Rightarrow> (pyval \<times> pyval) list" where
  "merge_keys kvs = fold (\<lambda>(k, v) acc. AList.update k v acc) kvs []"

primrec json_decode :: "os_env \<Rightarrow> pyval \<Rightarrow> pyval" where
  "json_decode env PNone = PNone"
| "json_decode env (PBool b) = PBool b"
| "json_decode env (PNum r) = PNum r"
| "json_decode env (PStr s) = PStr s"
| "json_decode env (PList xs) = PList (map (json_decode env) xs)"
| "json_decode env (PDict kvs) =
     PDict (merge_keys (map (map_prod (string_key env) (json_decode env)) kvs))"

text \<open>\<open>with open(p, 'r') as f: json.load(f)\<close>\<close>

definition read_json :: "os_env \<Rightarrow> filesystem \<Rightarrow> path \<Rightarrow> exn + pyval" where
  "read_json env fs p =
     (case map_of fs p of
        None \<Rightarrow> Inl (OSError, ''No such file or directory: '' @ path_str p)
      | Some Dir \<Rightarrow> Inl (OSError, ''Is a directory: '' @ path_str p)
      | Some (File c m) \<Rightarrow>
          (case open_fault env p of
             Some msg \<Rightarrow> Inl (OSError, msg)
           | None \<Rightarrow>
               (case c of
                  Document v \<Rightarrow> Inr (json_decode env v)
                | _ \<Rightarrow> Inl (ValueError, ''Expecting value''))))"

text \<open>
  \<open>shutil.rmtree(d)\<close> walks the tree as \<open>os.scandir\<close> lists it: in every directory it
  takes the entries in turn, a subdirectory with all it holds before the next entry, a
  file by \<open>os.unlink\<close>, and removes the directory itself last (\<open>os.rmdir\<close>). This is the
  order in which it asks the system to remove the entries at and below \<open>d\<close>.
\<close>

function removal_order :: "filesystem \<Rightarrow> path \<Rightarrow> path list" where
  "removal_order fs d =
     concat (map (\<lambda>c. if map_of fs c = Some Dir then removal_order fs c else [c])
               (children fs d)) @ [d]"
  by pat_completeness auto
termination
proof (relation "measure (\<lambda>(fs, d). Suc (sum_list (map length (map fst fs))) - length d)")
  show "wf (measure (\<lambda>(fs, d). Suc (sum_list (map length (map fst fs))) - length d))"
    by simp
next
  fix fs :: filesystem and d c :: path
  assume "c \<in> set (children fs d)"
  then have c: "c \<in> set (map fst fs)" "c \<noteq> []" "butlast c = d"
    by (simp_all add: children_def)
  have "length q \<le> sum_list (map length qs)" if "q \<in> set qs" for q :: path and qs
    using that by (induction qs) auto
  from this[OF c(1)] have "length c \<le> sum_list (map length (map fst fs))" .
  moreover from c(2,3) have "length c = Suc (length d)"
    by (cases c rule: rev_cases) auto
  ultimately show "((fs, c), (fs, d))
      \<in> measure (\<lambda>(fs, d). Suc (sum_list (map length (map fst fs))) - length d)"
    by simp
qed

declare removal_order.simps [simp del]

text \<open>
  The removals are made one after the other. The first one the system refuses raises, and
  what was removed before it stays removed; nothing after it is tried.
\<close>

fun remove_each :: "os_env \<Rightarrow> path list \<Rightarrow> filesystem \<Rightarrow> (exn + unit) \<times> filesystem" where
  "remove_each env [] fs = (Inr (), fs)"
| "remove_each env (p # ps) fs =
     (case remove_fault env p of
        Some msg \<Rightarrow> (Inl (OSError, msg), fs)
      | None \<Rightarrow> remove_each env ps (AList.delete p fs))"

definition rmtree :: "os_env \<Rightarrow> path \<Rightarrow> filesystem \<Rightarrow> (exn + unit) \<times> filesystem" where
  "rmtree env d fs =
     (if \<not> is_dir fs d then (Inl (OSError, ''Not a directory: '' @ path_str d), fs)
      else remove_each env (removal_order fs d) fs)"

text \<open>\<open>p.unlink()\<close> removes one file; a directory is refused.\<close>

definition unlink :: "os_env \<Rightarrow> path \<Rightarrow> filesystem \<Rightarrow> (exn + unit) \<times> filesystem" where
  "unlink env p fs =
     (case map_of fs p of
        None \<Rightarrow> (Inl (OSError, ''No such file or directory: '' @ path_str p), fs)
      | Some Dir \<Rightarrow> (Inl (OSError, ''Is a directory: '' @ path_str p), fs)
      | Some (File c m) \<Rightarrow>
          (case remove_fault env p of
             Some msg \<Rightarrow> (Inl (OSError, msg), fs)
           | None \<Rightarrow> (Inr (), AList.delete p fs)))"

text \<open>Decimal text of a number, as an f-string prints an \<open>int\<close>.\<close>

fun show_nat :: "nat \<Rightarrow> string" where
  "show_nat n = (if n < 10 then [digit n] else show_nat (n div 10) @ [digit n])"

declare show_nat.simps [simp del]

definition show_int :: "int \<Rightarrow> string" where
  "show_int i = (if i < 0 then ''-'' @ show_nat (nat (- i)) else show_nat (nat i))"

text \<open>
  \<open>shutil.copytree(src, dst)\<close> copies the tree below \<open>src\<close> to \<open>dst\<close>, which must not
  exist; \<open>shutil.copy2(src, dst)\<close> copies one file with its modification time. A copy the
  system refuses leaves the entries as they were.
\<close>

definition copytree :: "os_env \<Rightarrow> path \<Rightarrow> path \<Rightarrow> filesystem \<Rightarrow> (exn + unit) \<times> filesystem" where
  "copytree env src dst fs =
     (if path_exists fs dst then (Inl (OSError, ''File exists: '' @ path_str dst), fs)
      else (case copy_fault env src of
              Some msg \<Rightarrow> (Inl (OSError, msg), fs)
            | None \<Rightarrow>
                (Inr (), fs @ [(dst @ drop (length src) p, n). (p, n) \<leftarrow> fs, prefix src p])))"

definition copy2 :: "os_env \<Rightarrow> path \<Rightarrow> path \<Rightarrow> filesystem \<Rightarrow> (exn + unit) \<times> filesystem" where
  "copy2 env src dst fs =
     (case map_of fs src of
        Some (File c m) \<Rightarrow>
          (if map_of fs dst = Some Dir then
             (Inl (OSError, ''Is a directory: '' @ path_str dst), fs)
           else (case copy_fault env src of
                   Some msg \<Rightarrow> (Inl (OSError, msg), fs)
                 | None \<Rightarrow> (Inr (), AList.update dst (File c m) fs)))
      | _ \<Rightarrow> (Inl (OSError, ''No such file: '' @ path_str src), fs))"

text \<open>\<open>d.rglob(pattern)\<close>: the matching entries anywhere below \<open>d\<close>.\<close>

definition rglob :: "filesystem \<Rightarrow> path \<Rightarrow> string \<Rightarrow> path list" where
  "rglob fs d pattern =
     (if is_dir fs d then [p \<leftarrow> map fst fs. strict_prefix d p \<and> fnmatch pattern (last p)]
      else [])"

section \<open>DataManager\<close>

text \<open>
  Every operation takes the file system and returns its result together with the file
  system it leaves. The result type keeps the case of an exception reaching the caller
  (\<open>Inl\<close>). The readings of \<open>datetime.now()\<close> an operation takes are parameters, in the
  order the code takes them, and so is the time stamped on a file it writes.
\<close>

definition success :: pyval where
  "success = PStr ''success''"

text \<open>\<open>ensure_directories\<close>, run by the constructor; it has no \<open>try\<close>.\<close>

definition data_directories :: "string list" where
  "data_directories =
     [''raw'', ''analyzed'', ''processed'', ''archived'', ''backups'', ''logs'', ''insights'',
      ''reports'', ''temp'']"

fun ensure_each :: "os_env \<Rightarrow> path list \<Rightarrow> filesystem \<Rightarrow> (exn + unit) \<times> filesystem" where
  "ensure_each env [] fs = (Inr (), fs)"
| "ensure_each env (directory # directories) fs =
     (case mkdir_parents env directory fs of
        (Inl e, fs') \<Rightarrow> (Inl e, fs')
      | (Inr u, fs') \<Rightarrow> ensure_each env directories fs')"

definition ensure_directories :: "os_env \<Rightarrow> path \<Rightarrow> filesystem \<Rightarrow> (exn + unit) \<times> filesystem" where
  "ensure_directories env base_dir fs =
     ensure_each env (map (\<lambda>name. base_dir @ [name]) data_directories) fs"

subsection \<open>Storing\<close>

text \<open>
  The directory and the file name \<open>store_tweet_data\<close> builds: \<open>now1\<close> is the reading for
  the date partition, \<open>now2\<close> the one for the name.
\<close>

definition tweet_data_dir :: "datetime \<Rightarrow> string \<Rightarrow> string \<Rightarrow> path" where
  "tweet_data_dir now1 username data_type =
     (if data_type = ''raw''
      then [''output'', date_str now1, ''tweets'', ''raw'', username]
      else [''output'', date_str now1, ''tweets'', ''analyzed'', username])"

definition tweet_data_filename :: "datetime \<Rightarrow> string \<Rightarrow> string \<Rightarrow> string" where
  "tweet_data_filename now2 username data_type =
     username @ ''_'' @ data_type @ ''_'' @ timestamp_str now2 @ ''.json''"

definition tweet_data_path :: "datetime \<Rightarrow> datetime \<Rightarrow> string \<Rightarrow> string \<Rightarrow> path" where
  "tweet_data_path now1 now2 username data_type =
     tweet_data_dir now1 username data_type @ [tweet_data_filename now2 username data_type]"

definition store_tweet_data_body ::
  "os_env \<Rightarrow> datetime \<Rightarrow> datetime \<Rightarrow> datetime \<Rightarrow> pyval list \<Rightarrow> string \<Rightarrow> string \<Rightarrow> filesystem
     \<Rightarrow> (exn + pyval) \<times> filesystem" where
  "store_tweet_data_body env now1 now2 wtime tweets username data_type fs =
     (if tweets = [] then
        (Inr (PDict [(PStr ''status'', PStr ''error''),
                     (PStr ''message'', PStr (''No tweets to store for '' @ username))]), fs)
      else
        (case mkdir_parents env (tweet_data_dir now1 username data_type) fs of
           (Inl e, fs1) \<Rightarrow> (Inl e, fs1)
         | (Inr u, fs1) \<Rightarrow>
             (case write_json env wtime (tweet_data_path now1 now2 username data_type)
                     (PList tweets) fs1 of
                (Inl e, fs2) \<Rightarrow> (Inl e, fs2)
              | (Inr u, fs2) \<Rightarrow>
                  (Inr (PDict
                     [(PStr ''status'', success),
                      (PStr ''message'',
                         PStr (''Successfully stored '' @ show_nat (length tweets)
                               @ '' tweets for '' @ username)),
                      (PStr ''filepath'',
                         PStr (path_str (tweet_data_path now1 now2 username data_type))),
                      (PStr ''filename'', PStr (tweet_data_filename now2 username data_type)),
                      (PStr ''data_type'', PStr data_type),
                      (PStr ''tweet_count'', PNum (of_nat (length tweets)))]),
                   fs2))))"

definition store_tweet_data ::
  "os_env \<Rightarrow> datetime \<Rightarrow> datetime \<Rightarrow> datetime \<Rightarrow> pyval list \<Rightarrow> string \<Rightarrow> string \<Rightarrow> filesystem
     \<Rightarrow> (exn + pyval) \<times> filesystem" where
  "store_tweet_data env now1 now2 wtime tweets username data_type fs =
     (case store_tweet_data_body env now1 now2 wtime tweets username data_type fs of
        (Inr result, fs') \<Rightarrow> (Inr result, fs')
      | (Inl e, fs') \<Rightarrow>
          (Inr (error_result (''Error storing tweet data for '' @ username @ '': '' @ snd e)),
           fs'))"

definition analysis_results_path :: "datetime \<Rightarrow> datetime \<Rightarrow> string \<Rightarrow> path" where
  "analysis_results_path now1 now2 username =
     [''output'', date_str now1, ''tweets'', ''analyzed'', username,
      username @ ''_analysis_'' @ timestamp_str now2 @ ''.json'']"

definition store_analysis_results ::
  "os_env \<Rightarrow> datetime \<Rightarrow> datetime \<Rightarrow> datetime \<Rightarrow> pyval \<Rightarrow> string \<Rightarrow> filesystem
     \<Rightarrow> (exn + pyval) \<times> filesystem" where
  "store_analysis_results env now1 now2 wtime analysis_data username fs =
     (case
        (case mkdir_parents env (butlast (analysis_results_path now1 now2 username)) fs of
           (Inl e, fs1) \<Rightarrow> (Inl e, fs1)
         | (Inr u, fs1) \<Rightarrow>
             (case write_json env wtime (analysis_results_path now1 now2 username)
                     analysis_data fs1 of
                (Inl e, fs2) \<Rightarrow> (Inl e, fs2)
              | (Inr u, fs2) \<Rightarrow>
                  (Inr (PDict
                     [(PStr ''status'', success),
                      (PStr ''message'',
                         PStr (''Successfully stored analysis results for '' @ username)),
                      (PStr ''filepath'',
                         PStr (path_str (analysis_results_path now1 now2 username))),
                      (PStr ''filename'',
                         PStr (last (analysis_results_path now1 now2 username)))]),
                   fs2)))
      of
        (Inr result, fs') \<Rightarrow> (Inr result, fs')
      | (Inl e, fs') \<Rightarrow>
          (Inr (error_result
                  (''Error storing analysis results for '' @ username @ '': '' @ snd e)),
           fs'))"

definition insights_filename :: "datetime \<Rightarrow> string \<Rightarrow> string" where
  "insights_filename now username = username @ ''_insights_'' @ timestamp_str now @ ''.json''"

definition store_insights_report ::
  "os_env \<Rightarrow> path \<Rightarrow> datetime \<Rightarrow> datetime \<Rightarrow> pyval \<Rightarrow> string \<Rightarrow> filesystem
     \<Rightarrow> (exn + pyval) \<times> filesystem" where
  "store_insights_report env base_dir now wtime insights_data username fs =
     (case write_json env wtime (base_dir @ [''insights'', insights_filename now username])
             insights_data fs of
        (Inr u, fs') \<Rightarrow>
          (Inr (PDict
             [(PStr ''status'', success),
              (PStr ''message'',
                 PStr (''Successfully stored insights report for '' @ username)),
              (PStr ''filepath'',
                 PStr (path_str (base_dir @ [''insights'', insights_filename now username]))),
              (PStr ''filename'', PStr (insights_filename now username))]),
           fs')
      | (Inl e, fs') \<Rightarrow>
          (Inr (error_result
                  (''Error storing insights report for '' @ username @ '': '' @ snd e)),
           fs'))"

subsection \<open>Retrieving\<close>

text \<open>
  One of the three blocks of \<open>retrieve_user_data\<close>: the newest entry of
  \<open>{base_dir}/{kind}/{username}_{kind}_*.json\<close>, parsed, goes into \<open>retrieved_data[kind]\<close>.
\<close>

definition retrieve_kind ::
  "os_env \<Rightarrow> filesystem \<Rightarrow> path \<Rightarrow> string \<Rightarrow> string \<Rightarrow> (pyval \<times> pyval) list
     \<Rightarrow> exn + (pyval \<times> pyval) list" where
  "retrieve_kind env fs base_dir username kind retrieved_data =
     (let files = glob fs (base_dir @ [kind]) (username @ ''_'' @ kind @ ''_*.json'')
      in if files = [] then Inr retrieved_data
         else and_then (read_json env fs (latest env fs files))
                (\<lambda>v. Inr (AList.update (PStr kind) v retrieved_data)))"

definition retrieve_user_data ::
  "os_env \<Rightarrow> filesystem \<Rightarrow> path \<Rightarrow> string \<Rightarrow> string \<Rightarrow> exn + pyval" where
  "retrieve_user_data env fs base_dir username data_type =
     (case
        and_then (if data_type \<in> set [''raw'', ''all'']
                  then retrieve_kind env fs base_dir username ''raw'' [] else Inr [])
        (\<lambda>d1. and_then (if data_type \<in> set [''analyzed'', ''all'']
                  then retrieve_kind env fs base_dir username ''analyzed'' d1 else Inr d1)
        (\<lambda>d2. and_then (if data_type \<in> set [''insights'', ''all'']
                  then retrieve_kind env fs base_dir username ''insights'' d2 else Inr d2)
        (\<lambda>retrieved_data.
           Inr (PDict [(PStr ''status'', success),
                       (PStr ''username'', PStr username),
                       (PStr ''data_type'', PStr data_type),
                       (PStr ''data'', PDict retrieved_data)]))))
      of
        Inr result \<Rightarrow> Inr result
      | Inl e \<Rightarrow> Inr (error_result (snd e)))"

subsection \<open>Expiring old data\<close>

definition reserved_dirs :: "string list" where
  "reserved_dirs = [''archived'', ''backups'', ''logs'']"

text \<open>
  The first loop of \<open>cleanup_old_data\<close> over the entries of \<open>base_dir\<close>. A name that does
  not parse as a date is passed over (\<open>except ValueError: continue\<close>); an exception of
  \<open>rmtree\<close> is not caught here and ends the loop.
\<close>

fun sweep_dirs ::
  "os_env \<Rightarrow> datetime \<Rightarrow> path list \<Rightarrow> string list \<Rightarrow> filesystem
     \<Rightarrow> (exn + string list) \<times> filesystem" where
  "sweep_dirs env cutoff_date [] deleted_files fs = (Inr deleted_files, fs)"
| "sweep_dirs env cutoff_date (date_dir # rest) deleted_files fs =
     (if is_dir fs date_dir \<and> last date_dir \<notin> set reserved_dirs then
        (case strptime_date env (last date_dir) of
           None \<Rightarrow> sweep_dirs env cutoff_date rest deleted_files fs
         | Some dir_date \<Rightarrow>
             if dt_key dir_date < dt_key cutoff_date then
               (case rmtree env date_dir fs of
                  (Inl e, fs') \<Rightarrow> (Inl e, fs')
                | (Inr u, fs') \<Rightarrow>
                    sweep_dirs env cutoff_date rest (deleted_files @ [last date_dir]) fs')
             else sweep_dirs env cutoff_date rest deleted_files fs)
      else sweep_dirs env cutoff_date rest deleted_files fs)"

text \<open>\<open>_is_file_old\<close>, for an entry the scan has just listed.\<close>

definition is_file_old :: "os_env \<Rightarrow> filesystem \<Rightarrow> path \<Rightarrow> datetime \<Rightarrow> bool" where
  "is_file_old env fs file_path cutoff_date \<longleftrightarrow>
     dt_key (mtime env fs file_path) < dt_key cutoff_date"

fun sweep_files ::
  "os_env \<Rightarrow> datetime \<Rightarrow> path list \<Rightarrow> string list \<Rightarrow> filesystem
     \<Rightarrow> (exn + string list) \<times> filesystem" where
  "sweep_files env cutoff_date [] deleted_files fs = (Inr deleted_files, fs)"
| "sweep_files env cutoff_date (file # rest) deleted_files fs =
     (if is_file_old env fs file cutoff_date then
        (case unlink env file fs of
           (Inl e, fs') \<Rightarrow> (Inl e, fs')
         | (Inr u, fs') \<Rightarrow>
             sweep_files env cutoff_date rest (deleted_files @ [path_str file]) fs')
      else sweep_files env cutoff_date rest deleted_files fs)"

fun sweep_subdirs ::
  "os_env \<Rightarrow> datetime \<Rightarrow> path \<Rightarrow> string list \<Rightarrow> string list \<Rightarrow> filesystem
     \<Rightarrow> (exn + string list) \<times> filesystem" where
  "sweep_subdirs env cutoff_date base_dir [] deleted_files fs = (Inr deleted_files, fs)"
| "sweep_subdirs env cutoff_date base_dir (subdir # rest) deleted_files fs =
     (if path_exists fs (base_dir @ [subdir]) then
        (case sweep_files env cutoff_date (glob fs (base_dir @ [subdir]) ''*.json'')
                deleted_files fs of
           (Inl e, fs') \<Rightarrow> (Inl e, fs')
         | (Inr deleted_files', fs') \<Rightarrow>
             sweep_subdirs env cutoff_date base_dir rest deleted_files' fs')
      else sweep_subdirs env cutoff_date base_dir rest deleted_files fs)"

definition cleanup_old_data_body ::
  "os_env \<Rightarrow> path \<Rightarrow> datetime \<Rightarrow> int \<Rightarrow> filesystem \<Rightarrow> (exn + pyval) \<times> filesystem" where
  "cleanup_old_data_body env base_dir now days_to_keep fs =
     (case minus_days env now days_to_keep of
        None \<Rightarrow> (Inl (OtherError, ''date value out of range''), fs)
      | Some cutoff_date \<Rightarrow>
          (case iterdir fs base_dir of
             Inl e \<Rightarrow> (Inl e, fs)
           | Inr entries \<Rightarrow>
               (case sweep_dirs env cutoff_date entries [] fs of
                  (Inl e, fs1) \<Rightarrow> (Inl e, fs1)
                | (Inr deleted1, fs1) \<Rightarrow>
                    (case sweep_subdirs env cutoff_date base_dir
                            [''raw'', ''analyzed'', ''processed'', ''temp''] deleted1 fs1 of
                       (Inl e, fs2) \<Rightarrow> (Inl e, fs2)
                     | (Inr deleted_files, fs2) \<Rightarrow>
                         (Inr (PDict
                            [(PStr ''status'', success),
                             (PStr ''message'',
                                PStr (''Cleaned up data older than '' @ show_int days_to_keep
                                      @ '' days'')),
                             (PStr ''deleted_files'', PList (map PStr deleted_files)),
                             (PStr ''cutoff_date'', PStr (isoformat cutoff_date))]),
                          fs2)))))"

definition cleanup_old_data ::
  "os_env \<Rightarrow> path \<Rightarrow> datetime \<Rightarrow> int \<Rightarrow> filesystem \<Rightarrow> (exn + pyval) \<times> filesystem" where
  "cleanup_old_data env base_dir now days_to_keep fs =
     (case cleanup_old_data_body env base_dir now days_to_keep fs of
        (Inr result, fs') \<Rightarrow> (Inr result, fs')
      | (Inl e, fs') \<Rightarrow> (Inr (error_result (snd e)), fs'))"

subsection \<open>Backup and validation\<close>

fun backup_items ::
  "os_env \<Rightarrow> path \<Rightarrow> path list \<Rightarrow> filesystem \<Rightarrow> (exn + unit) \<times> filesystem" where
  "backup_items env backup_dir [] fs = (Inr (), fs)"
| "backup_items env backup_dir (item # rest) fs =
     (if is_dir fs item \<and> last item \<notin> set [''backups'', ''archived'', ''logs''] then
        (case copytree env item (backup_dir @ [last item]) fs of
           (Inl e, fs') \<Rightarrow> (Inl e, fs')
         | (Inr u, fs') \<Rightarrow> backup_items env backup_dir rest fs')
      else if is_file fs item then
        (case copy2 env item (backup_dir @ [last item]) fs of
           (Inl e, fs') \<Rightarrow> (Inl e, fs')
         | (Inr u, fs') \<Rightarrow> backup_items env backup_dir rest fs')
      else backup_items env backup_dir rest fs)"

definition create_backup ::
  "os_env \<Rightarrow> path \<Rightarrow> datetime \<Rightarrow> string option \<Rightarrow> filesystem \<Rightarrow> (exn + pyval) \<times> filesystem" where
  "create_backup env base_dir now backup_name_arg fs =
     (let backup_name = (case backup_name_arg of
                           None \<Rightarrow> ''backup_'' @ timestamp_str now
                         | Some name \<Rightarrow> name);
          backup_dir = base_dir @ [''backups'', backup_name]
      in case
           (case mkdir_parents env backup_dir fs of
              (Inl e, fs1) \<Rightarrow> (Inl e, fs1)
            | (Inr u, fs1) \<Rightarrow>
                (case iterdir fs1 base_dir of
                   Inl e \<Rightarrow> (Inl e, fs1)
                 | Inr items \<Rightarrow>
                     (case backup_items env backup_dir items fs1 of
                        (Inl e, fs2) \<Rightarrow> (Inl e, fs2)
                      | (Inr u, fs2) \<Rightarrow>
                          (Inr (PDict
                             [(PStr ''status'', success),
                              (PStr ''message'', PStr (''Created backup: '' @ backup_name)),
                              (PStr ''backup_path'', PStr (path_str backup_dir))]),
                           fs2))))
         of
           (Inr result, fs') \<Rightarrow> (Inr result, fs')
         | (Inl e, fs') \<Rightarrow> (Inr (error_result (snd e)), fs'))"

text \<open>
  The loop of \<open>validate_data_integrity\<close>: a file that does not open or parse goes to the
  invalid list with the message of its exception.
\<close>

fun validate_files ::
  "os_env \<Rightarrow> filesystem \<Rightarrow> path list \<Rightarrow> pyval list \<Rightarrow> pyval list \<Rightarrow> nat
     \<Rightarrow> pyval list \<times> pyval list \<times> nat" where
  "validate_files env fs [] valid_files invalid_files total_files =
     (valid_files, invalid_files, total_files)"
| "validate_files env fs (json_file # rest) valid_files invalid_files total_files =
     (case read_json env fs json_file of
        Inr v \<Rightarrow>
          validate_files env fs rest (valid_files @ [PStr (path_str json_file)]) invalid_files
            (total_files + 1)
      | Inl e \<Rightarrow>
          validate_files env fs rest valid_files
            (invalid_files @ [PDict [(PStr ''file'', PStr (path_str json_file)),
                                     (PStr ''error'', PStr (snd e))]])
            (total_files + 1))"

definition validate_data_integrity :: "os_env \<Rightarrow> path \<Rightarrow> filesystem \<Rightarrow> exn + pyval" where
  "validate_data_integrity env base_dir fs =
     (case validate_files env fs (rglob fs base_dir ''*.json'') [] [] 0 of
        (valid_files, invalid_files, total_files) \<Rightarrow>
          Inr (PDict
            [(PStr ''status'', success),
             (PStr ''validation_results'', PDict
                [(PStr ''valid_files'', PList valid_files),
                 (PStr ''invalid_files'', PList invalid_files),
                 (PStr ''total_files'', PNum (of_nat total_files))])]))"

subsection \<open>Sample environment\<close>

text \<open>
  An operating system that refuses nothing, with a date parser that knows two partition
  names and a \<open>timedelta\<close> subtraction that knows one difference.
\<close>

definition sample_env :: os_env where
  "sample_env =
     \<lparr>mkdir_fault = (\<lambda>p. None), open_fault = (\<lambda>p. None), write_fault = (\<lambda>p. None),
       remove_fault = (\<lambda>p. None), copy_fault = (\<lambda>p. None),
       rename_fault = (\<lambda>p. None),
       dir_mtime = (\<lambda>p. sample_now),
       file_size = (\<lambda>p. 2),
       strptime_date = (\<lambda>s.
          if s = ''2024-01-01'' then
            Some \<lparr>year = 2024, month = 1, day = 1, hour = 0, minute = 0, second = 0,
                   microsecond = 0\<rparr>
          else if s = ''2024-03-01'' then
            Some \<lparr>year = 2024, month = 3, day = 1, hour = 0, minute = 0, second = 0,
                   microsecond = 0\<rparr>
          else None),
       minus_days = (\<lambda>now days.
          if now = sample_now \<and> days = 30 then
            Some \<lparr>year = 2024, month = 2, day = 4, hour = 12, minute = 30, second = 45,
                   microsecond = 123456\<rparr>
          else None),
       json_key = (\<lambda>k. ''key'')\<rparr>"

text \<open>A later reading of the clock within the same second as \<open>sample_now\<close>.\<close>

definition sample_now_later :: datetime where
  "sample_now_later = sample_now\<lparr>microsecond := 654321\<rparr>"

text \<open>The status an operation reports to its caller; none when it raised.\<close>

definition result_status :: "exn + pyval \<Rightarrow> pyval option" where
  "result_status r = (case r of Inr result \<Rightarrow> status_of result | Inl e \<Rightarrow> None)"

text \<open>The tree \<open>store_tweet_data\<close> creates for \<open>alice\<close> on 2024-03-05, and the file it names.\<close>

definition sample_output_tree :: filesystem where
  "sample_output_tree =
     [([''output''], Dir), ([''output'', ''2024-03-05''], Dir),
      ([''output'', ''2024-03-05'', ''tweets''], Dir),
      ([''output'', ''2024-03-05'', ''tweets'', ''raw''], Dir),
      ([''output'', ''2024-03-05'', ''tweets'', ''raw'', ''alice''], Dir)]"

definition sample_target :: path where
  "sample_target =
     [''output'', ''2024-03-05'', ''tweets'', ''raw'', ''alice'',
      ''alice_raw_20240305_123045.json'']"

text \<open>An operating system on which every write breaks off partway.\<close>

definition full_disk_env :: os_env where
  "full_disk_env = sample_env\<lparr>write_fault := (\<lambda>p. Some ''No space left on device'')\<rparr>"

subsection \<open>Notions used to state properties of the data manager\<close>

text \<open>
  A value that JSON represents as it is: every dictionary key is a string, and no
  dictionary has a key twice.
\<close>

definition is_str :: "pyval \<Rightarrow> bool" where
  "is_str v = (case v of PStr s \<Rightarrow> True | _ \<Rightarrow> False)"

primrec json_native :: "pyval \<Rightarrow> bool" where
  "json_native PNone = True"
| "json_native (PBool b) = True"
| "json_native (PNum r) = True"
| "json_native (PStr s) = True"
| "json_native (PList xs) = list_all (\<lambda>b. b) (map json_native xs)"
| "json_native (PDict kvs) =
     (list_all (\<lambda>(k, b). is_str k \<and> b) (map (map_prod id json_native) kvs) \<and>
      distinct (map fst kvs))"

text \<open>A name without characters that mean something in a glob pattern.\<close>

definition glob_plain :: "string \<Rightarrow> bool" where
  "glob_plain s = list_all (\<lambda>c. c \<noteq> CHR ''*'' \<and> c \<noteq> CHR ''?'' \<and> c \<noteq> CHR ''['') s"

text \<open>
  The part of the file system that does not lie below \<open>output\<close>, the tree into which
  \<open>store_tweet_data\<close> and \<open>store_analysis_results\<close> write.
\<close>

definition outside_output :: "filesystem \<Rightarrow> filesystem" where
  "outside_output fs = [(p, n) \<leftarrow> fs. take 1 p \<noteq> [''output'']]"

text \<open>The data directories as the constructor leaves them.\<close>

definition sample_data_tree :: filesystem where
  "sample_data_tree =
     [([''data''], Dir), ([''data'', ''raw''], Dir), ([''data'', ''analyzed''], Dir),
      ([''data'', ''insights''], Dir)]"

definition sample_insights :: pyval where
  "sample_insights =
     PDict [(PStr ''username'', PStr ''alice''),
            (PStr ''recommendations'', PList [PStr ''Increase media usage in posts to boost engagement''])]"






definition without_files :: "path list \<Rightarrow> filesystem \<Rightarrow> filesystem" where
  "without_files fsx fs = [(p, n) \<leftarrow> fs. p \<notin> set fsx]"











subsection \<open>Organising by date\<close>

text \<open>
  \<open>Path.mkdir(exist_ok=True)\<close>, without \<open>parents\<close>: a missing parent is an error. A date
  and an archive name are taken to be single components, like user names.
\<close>

definition mkdir_exist_ok :: "os_env \<Rightarrow> path \<Rightarrow> filesystem \<Rightarrow> (exn + unit) \<times> filesystem" where
  "mkdir_exist_ok env q fs =
     (case map_of fs q of
        Some Dir \<Rightarrow> (Inr (), fs)
      | Some (File c m) \<Rightarrow> (Inl (OSError, ''File exists: '' @ path_str q), fs)
      | None \<Rightarrow>
          if q = [] then (Inr (), fs)
          else if \<not> is_dir fs (butlast q) then
            (Inl (OSError, ''No such file or directory: '' @ path_str q), fs)
          else (case mkdir_fault env q of
                  Some msg \<Rightarrow> (Inl (OSError, msg), fs)
                | None \<Rightarrow> (Inr (), fs @ [(q, Dir)])))"

fun mkdir_each :: "os_env \<Rightarrow> path list \<Rightarrow> filesystem \<Rightarrow> (exn + unit) \<times> filesystem" where
  "mkdir_each env [] fs = (Inr (), fs)"
| "mkdir_each env (q # qs) fs =
     (case mkdir_exist_ok env q fs of
        (Inl e, fs') \<Rightarrow> (Inl e, fs')
      | (Inr u, fs') \<Rightarrow> mkdir_each env qs fs')"

text \<open>\<open>sub in s\<close> on strings.\<close>

fun contains :: "string \<Rightarrow> string \<Rightarrow> bool" where
  "contains sub [] = (sub = [])"
| "contains sub (c # cs) = (prefix sub (c # cs) \<or> contains sub cs)"

text \<open>\<open>_should_move_file\<close>: \<open>target_date.replace('-', '') in file_path.name\<close>\<close>

definition should_move_file :: "path \<Rightarrow> string \<Rightarrow> bool" where
  "should_move_file file_path target_date =
     contains (filter (\<lambda>c. c \<noteq> CHR ''-'') target_date) (last file_path)"

text \<open>
  \<open>shutil.move(src, dst)\<close>: into \<open>dst\<close> when that is a directory (where the name must be
  free), else onto \<open>dst\<close>, replacing a file there; a directory does not go onto a file.
\<close>

definition move :: "os_env \<Rightarrow> path \<Rightarrow> path \<Rightarrow> filesystem \<Rightarrow> (exn + unit) \<times> filesystem" where
  "move env src dst fs =
     (let real_dst = (if is_dir fs dst then dst @ [last src] else dst)
      in if \<not> path_exists fs src \<or> src = [] then
           (Inl (OSError, ''No such file or directory: '' @ path_str src), fs)
         else if is_dir fs dst \<and> path_exists fs real_dst then
           (Inl (OSError, ''Destination path already exists: '' @ path_str real_dst), fs)
         else if \<not> is_dir fs (butlast real_dst) then
           (Inl (OSError, ''No such file or directory: '' @ path_str real_dst), fs)
         else if is_dir fs src \<and> is_file fs real_dst then
           (Inl (OSError, ''File exists: '' @ path_str real_dst), fs)
         else
           (case rename_fault env src of
              Some msg \<Rightarrow> (Inl (OSError, msg), fs)
            | None \<Rightarrow>
                (Inr (),
                 [(p, n) \<leftarrow> fs. \<not> prefix src p \<and> p \<noteq> real_dst] @
                 [(real_dst @ drop (length src) p, n). (p, n) \<leftarrow> fs, prefix src p])))"

fun organize_files ::
  "os_env \<Rightarrow> string \<Rightarrow> path \<Rightarrow> path list \<Rightarrow> string list \<Rightarrow> filesystem
     \<Rightarrow> (exn + string list) \<times> filesystem" where
  "organize_files env date target_dir [] moved fs = (Inr moved, fs)"
| "organize_files env date target_dir (file # rest) moved fs =
     (if should_move_file file date then
        (case move env file (target_dir @ [last file]) fs of
           (Inl e, fs') \<Rightarrow> (Inl e, fs')
         | (Inr u, fs') \<Rightarrow> organize_files env date target_dir rest (moved @ [last file]) fs')
      else organize_files env date target_dir rest moved fs)"

fun organize_subdirs ::
  "os_env \<Rightarrow> path \<Rightarrow> string \<Rightarrow> string list \<Rightarrow> (string \<times> string list) list \<Rightarrow> filesystem
     \<Rightarrow> (exn + (string \<times> string list) list) \<times> filesystem" where
  "organize_subdirs env base_dir date [] moved_files fs = (Inr moved_files, fs)"
| "organize_subdirs env base_dir date (subdir # rest) moved_files fs =
     (if path_exists fs (base_dir @ [subdir]) then
        (case organize_files env date (base_dir @ [date, subdir])
                (glob fs (base_dir @ [subdir]) ''*.json'') [] fs of
           (Inl e, fs') \<Rightarrow> (Inl e, fs')
         | (Inr moved, fs') \<Rightarrow>
             organize_subdirs env base_dir date rest
               (AList.update subdir moved moved_files) fs')
      else organize_subdirs env base_dir date rest moved_files fs)"

definition date_subdirs :: "string list" where
  "date_subdirs = [''raw'', ''analyzed'', ''processed'', ''insights'']"

definition organize_data_by_date_body ::
  "os_env \<Rightarrow> path \<Rightarrow> datetime \<Rightarrow> string option \<Rightarrow> filesystem \<Rightarrow> (exn + pyval) \<times> filesystem" where
  "organize_data_by_date_body env base_dir now date_arg fs =
     (let date = (case date_arg of None \<Rightarrow> date_str now | Some d \<Rightarrow> d)
      in case mkdir_each env
                ((base_dir @ [date]) # map (\<lambda>subdir. base_dir @ [date, subdir]) date_subdirs)
                fs of
           (Inl e, fs1) \<Rightarrow> (Inl e, fs1)
         | (Inr u, fs1) \<Rightarrow>
             (case organize_subdirs env base_dir date date_subdirs
                     (map (\<lambda>subdir. (subdir, [])) date_subdirs) fs1 of
                (Inl e, fs2) \<Rightarrow> (Inl e, fs2)
              | (Inr moved_files, fs2) \<Rightarrow>
                  (Inr (PDict
                     [(PStr ''status'', success),
                      (PStr ''message'', PStr (''Organized data for '' @ date)),
                      (PStr ''date'', PStr date),
                      (PStr ''moved_files'',
                         PDict (map (\<lambda>(subdir, names). (PStr subdir, PList (map PStr names)))
                                  moved_files))]),
                   fs2)))"

definition organize_data_by_date ::
  "os_env \<Rightarrow> path \<Rightarrow> datetime \<Rightarrow> string option \<Rightarrow> filesystem \<Rightarrow> (exn + pyval) \<times> filesystem" where
  "organize_data_by_date env base_dir now date_arg fs =
     (case organize_data_by_date_body env base_dir now date_arg fs of
        (Inr result, fs') \<Rightarrow> (Inr result, fs')
      | (Inl e, fs') \<Rightarrow> (Inr (error_result (snd e)), fs'))"

subsection \<open>Archive and export\<close>

text \<open>
  Writing a file that is no JSON document (\<open>shutil.make_archive\<close>, or \<open>open\<close> and
  \<open>f.write\<close>): as for \<open>json.dump\<close>, a write that breaks off leaves the file cut short.
\<close>

definition write_other ::
  "os_env \<Rightarrow> datetime \<Rightarrow> path \<Rightarrow> filesystem \<Rightarrow> (exn + unit) \<times> filesystem" where
  "write_other env wtime p fs =
     (if p = [] \<or> \<not> is_dir fs (butlast p) then
        (Inl (OSError, ''No such file or directory: '' @ path_str p), fs)
      else if map_of fs p = Some Dir then
        (Inl (OSError, ''Is a directory: '' @ path_str p), fs)
      else
        (case open_fault env p of
           Some msg \<Rightarrow> (Inl (OSError, msg), fs)
         | None \<Rightarrow>
             (case write_fault env p of
                Some msg \<Rightarrow> (Inl (OSError, msg), AList.update p (File Truncated wtime) fs)
              | None \<Rightarrow> (Inr (), AList.update p (File Other wtime) fs))))"

text \<open>
  \<open>archive_data\<close>. \<open>make_archive\<close> gets the path without its suffix and appends \<open>.zip\<close>
  again; for the empty name \<open>.zip\<close> has no suffix to drop, and the archive is \<open>.zip.zip\<close>.
\<close>

definition archive_target :: "path \<Rightarrow> string \<Rightarrow> path" where
  "archive_target base_dir archive_name =
     base_dir @ [''archived'', (if archive_name = [] then ''.zip.zip'' else archive_name @ ''.zip'')]"

definition archive_data ::
  "os_env \<Rightarrow> path \<Rightarrow> datetime \<Rightarrow> datetime \<Rightarrow> string option \<Rightarrow> filesystem
     \<Rightarrow> (exn + pyval) \<times> filesystem" where
  "archive_data env base_dir now wtime archive_name_arg fs =
     (let archive_name = (case archive_name_arg of
                            None \<Rightarrow> ''archive_'' @ timestamp_str now
                          | Some name \<Rightarrow> name)
      in case
           (case mkdir_parents env (base_dir @ [''archived'']) fs of
              (Inl e, fs1) \<Rightarrow> (Inl e, fs1)
            | (Inr u, fs1) \<Rightarrow>
                (case write_other env wtime (archive_target base_dir archive_name) fs1 of
                   (Inl e, fs2) \<Rightarrow> (Inl e, fs2)
                 | (Inr u, fs2) \<Rightarrow>
                     (Inr (PDict
                        [(PStr ''status'', success),
                         (PStr ''message'', PStr (''Created archive: '' @ archive_name)),
                         (PStr ''archive_path'',
                            PStr (path_str (base_dir @ [''archived'', archive_name @ ''.zip''])))]),
                      fs2)))
         of
           (Inr result, fs') \<Rightarrow> (Inr result, fs')
         | (Inl e, fs') \<Rightarrow> (Inr (error_result (snd e)), fs'))"

text \<open>
  \<open>export_data\<close>. With a format that is neither \<open>json\<close> nor \<open>csv\<close> the result dictionary
  reads a \<open>filepath\<close> that was never assigned, which is an exception like any other.
\<close>

definition export_filename :: "datetime \<Rightarrow> string \<Rightarrow> string \<Rightarrow> string" where
  "export_filename now username ext = username @ ''_export_'' @ timestamp_str now @ ext"

definition export_data_body ::
  "os_env \<Rightarrow> path \<Rightarrow> datetime \<Rightarrow> datetime \<Rightarrow> string \<Rightarrow> string \<Rightarrow> filesystem
     \<Rightarrow> (exn + pyval) \<times> filesystem" where
  "export_data_body env base_dir now wtime username export_format fs =
     (case and_then (retrieve_user_data env fs base_dir username ''all'')
             (\<lambda>user_data. and_then (subscript user_data ''status'')
             (\<lambda>status. Inr (user_data, status))) of
        Inl e \<Rightarrow> (Inl e, fs)
      | Inr (user_data, status) \<Rightarrow>
          if status \<noteq> success then (Inr user_data, fs)
          else
            (case
               (if export_format = ''json'' then
                  (case subscript user_data ''data'' of
                     Inl e \<Rightarrow> (Inl e, fs)
                   | Inr data \<Rightarrow>
                       (case write_json env wtime
                               (base_dir @ [''reports'', export_filename now username ''.json''])
                               data fs of
                          (Inl e, fs') \<Rightarrow> (Inl e, fs')
                        | (Inr u, fs') \<Rightarrow> (Inr (export_filename now username ''.json''), fs')))
                else if export_format = ''csv'' then
                  (case write_other env wtime
                          (base_dir @ [''reports'', export_filename now username ''.csv'']) fs of
                     (Inl e, fs') \<Rightarrow> (Inl e, fs')
                   | (Inr u, fs') \<Rightarrow> (Inr (export_filename now username ''.csv''), fs'))
                else (Inl (OtherError, ''local variable filepath referenced before assignment''),
                      fs))
             of
               (Inl e, fs') \<Rightarrow> (Inl e, fs')
             | (Inr filename, fs') \<Rightarrow>
                 (Inr (PDict
                    [(PStr ''status'', success),
                     (PStr ''message'',
                        PStr (''Exported data for '' @ username @ '' in '' @ export_format
                              @ '' format'')),
                     (PStr ''filepath'', PStr (path_str (base_dir @ [''reports'', filename]))),
                     (PStr ''filename'', PStr filename)]),
                  fs')))"

definition export_data ::
  "os_env \<Rightarrow> path \<Rightarrow> datetime \<Rightarrow> datetime \<Rightarrow> string \<Rightarrow> string \<Rightarrow> filesystem
     \<Rightarrow> (exn + pyval) \<times> filesystem" where
  "export_data env base_dir now wtime username export_format fs =
     (case export_data_body env base_dir now wtime username export_format fs of
        (Inr result, fs') \<Rightarrow> (Inr result, fs')
      | (Inl e, fs') \<Rightarrow> (Inr (error_result (snd e)), fs'))"

subsection \<open>Summary and statistics\<close>

text \<open>\<open>item.parent.name\<close>\<close>

definition parent_name :: "path \<Rightarrow> string" where
  "parent_name p = (if butlast p = [] then [] else last (butlast p))"

text \<open>\<open>d[k] += n\<close> after \<open>if k not in d: d[k] = 0\<close>\<close>

definition add_to :: "'k \<Rightarrow> nat \<Rightarrow> ('k \<times> nat) list \<Rightarrow> ('k \<times> nat) list" where
  "add_to k n d = AList.update k ((case map_of d k of None \<Rightarrow> 0 | Some m \<Rightarrow> m) + n) d"

text \<open>The files \<open>base_dir.rglob('*')\<close> yields, directories left out by \<open>is_file()\<close>.\<close>

definition all_files :: "filesystem \<Rightarrow> path \<Rightarrow> path list" where
  "all_files fs base_dir = [p \<leftarrow> rglob fs base_dir ''*''. is_file fs p]"

fun summary_loop ::
  "os_env \<Rightarrow> path list \<Rightarrow> nat \<Rightarrow> (string \<times> nat) list \<Rightarrow> (string \<times> nat) list
     \<Rightarrow> nat \<times> (string \<times> nat) list \<times> (string \<times> nat) list" where
  "summary_loop env [] total_size file_counts directory_sizes =
     (total_size, file_counts, directory_sizes)"
| "summary_loop env (item # rest) total_size file_counts directory_sizes =
     summary_loop env rest (total_size + file_size env item)
       (add_to (parent_name item) 1 file_counts)
       (add_to (parent_name item) (file_size env item) directory_sizes)"

definition get_data_summary :: "os_env \<Rightarrow> path \<Rightarrow> filesystem \<Rightarrow> exn + pyval" where
  "get_data_summary env base_dir fs =
     (case summary_loop env (all_files fs base_dir) 0 [] [] of
        (total_size, file_counts, directory_sizes) \<Rightarrow>
          Inr (PDict
            [(PStr ''status'', success),
             (PStr ''summary'', PDict
                [(PStr ''total_size'', PNum (of_nat total_size)),
                 (PStr ''file_counts'', counts_dict PStr file_counts),
                 (PStr ''directory_sizes'', counts_dict PStr directory_sizes),
                 (PStr ''total_size_mb'', PNum (of_nat total_size / (1024 * 1024)))])]))"

text \<open>
  The loop of \<open>get_storage_statistics\<close>. It reads the clock once for every file:
  \<open>reading n\<close> is the reading taken for the file at position \<open>n\<close>.
\<close>

definition add_file :: "'k \<Rightarrow> nat \<Rightarrow> ('k \<times> nat \<times> nat) list \<Rightarrow> ('k \<times> nat \<times> nat) list" where
  "add_file k bytes d =
     (case map_of d k of
        None \<Rightarrow> AList.update k (1, bytes) d
      | Some (files, amount) \<Rightarrow> AList.update k (files + 1, amount + bytes) d)"

record statistics =
  total_files :: nat
  total_size_bytes :: nat
  by_directory :: "(string \<times> nat \<times> nat) list"
  by_user :: "(string \<times> nat \<times> nat) list"
  recent_activity :: "pyval list"

fun statistics_loop ::
  "os_env \<Rightarrow> filesystem \<Rightarrow> (nat \<Rightarrow> datetime) \<Rightarrow> path list \<Rightarrow> nat \<Rightarrow> statistics
     \<Rightarrow> exn + statistics" where
  "statistics_loop env fs reading [] n stats = Inr stats"
| "statistics_loop env fs reading (item # rest) n stats =
     (case minus_days env (reading n) 7 of
        None \<Rightarrow> Inl (OtherError, ''date value out of range'')
      | Some week_ago \<Rightarrow>
          statistics_loop env fs reading rest (n + 1)
            \<lparr>total_files = total_files stats + 1,
             total_size_bytes = total_size_bytes stats + file_size env item,
             by_directory = add_file (parent_name item) (file_size env item) (by_directory stats),
             by_user =
               (if CHR ''_'' \<in> set (last item) then
                  add_file (takeWhile (\<lambda>c. c \<noteq> CHR ''_'') (last item)) (file_size env item)
                    (by_user stats)
                else by_user stats),
             recent_activity =
               (if dt_key (mtime env fs item) > dt_key week_ago then
                  recent_activity stats @
                  [PDict [(PStr ''file'', PStr (path_str item)),
                          (PStr ''modified'', PStr (isoformat (mtime env fs item))),
                          (PStr ''size'', PNum (of_nat (file_size env item)))]]
                else recent_activity stats)\<rparr>)"

definition files_and_size :: "(string \<times> nat \<times> nat) list \<Rightarrow> pyval" where
  "files_and_size d =
     PDict (map (\<lambda>(k, files, amount).
                   (PStr k, PDict [(PStr ''files'', PNum (of_nat files)),
                                   (PStr ''size'', PNum (of_nat amount))])) d)"

definition get_storage_statistics ::
  "os_env \<Rightarrow> path \<Rightarrow> (nat \<Rightarrow> datetime) \<Rightarrow> filesystem \<Rightarrow> exn + pyval" where
  "get_storage_statistics env base_dir reading fs =
     (case statistics_loop env fs reading (all_files fs base_dir) 0
             \<lparr>total_files = 0, total_size_bytes = 0, by_directory = [], by_user = [],
              recent_activity = []\<rparr> of
        Inl e \<Rightarrow> Inr (error_result (snd e))
      | Inr stats \<Rightarrow>
          Inr (PDict
            [(PStr ''status'', success),
             (PStr ''statistics'', PDict
                [(PStr ''total_files'', PNum (of_nat (total_files stats))),
                 (PStr ''total_size_bytes'', PNum (of_nat (total_size_bytes stats))),
                 (PStr ''total_size_mb'', PNum (of_nat (total_size_bytes stats) / (1024 * 1024))),
                 (PStr ''by_directory'', files_and_size (by_directory stats)),
                 (PStr ''by_user'', files_and_size (by_user stats)),
                 (PStr ''recent_activity'', PList (recent_activity stats))])]))"

section \<open>AnalysisProcessor: one tweet, and the tweets of a user\<close>

text \<open>
  The language tools the processor calls are parameters: TextBlob's polarity and
  subjectivity of a text (\<open>None\<close>: it raises), the transformer pipelines for sentiment and
  summary (\<open>None\<close> when the constructor could not load them; a call gives \<open>None\<close> when
  it raises), \<open>str.split()\<close> and the four \<open>re.findall\<close> searches.
\<close>

record nlp =
  textblob :: "string \<Rightarrow> (rat \<times> rat) option"
  sentiment_analyzer :: "(string \<Rightarrow> (string \<times> rat) option) option"
  summarizer :: "(string \<Rightarrow> string option) option"
  split_words :: "string \<Rightarrow> string list"
  find_hashtags :: "string \<Rightarrow> string list"
  find_mentions :: "string \<Rightarrow> string list"
  find_urls :: "string \<Rightarrow> string list"
  find_emojis :: "string \<Rightarrow> string list"

text \<open>\<open>for x in v\<close>: a list gives its items, a dictionary its keys, a string its characters.\<close>

definition py_iter :: "pyval \<Rightarrow> exn + pyval list" where
  "py_iter v =
     (case v of
        PList xs \<Rightarrow> Inr xs
      | PDict kvs \<Rightarrow> Inr (map fst kvs)
      | PStr s \<Rightarrow> Inr (map (\<lambda>c. PStr [c]) s)
      | _ \<Rightarrow> Inl (TypeError, ''object is not iterable''))"

definition classify_sentiment :: "rat \<Rightarrow> string" where
  "classify_sentiment polarity =
     (if polarity > 1 / 10 then ''bullish''
      else if polarity < - (1 / 10) then ''bearish''
      else ''neutral'')"

definition neutral_sentiment :: pyval where
  "neutral_sentiment =
     PDict [(PStr ''textblob'', PDict [(PStr ''polarity'', PNum 0),
                                       (PStr ''subjectivity'', PNum 0),
                                       (PStr ''classification'', PStr ''neutral'')]),
            (PStr ''transformer'', PNone),
            (PStr ''overall_sentiment'', PStr ''neutral'')]"

text \<open>
  \<open>_analyze_sentiment\<close>. A text that is not a string makes \<open>TextBlob\<close> raise; every
  exception ends in the neutral default. A failure of the transformer is caught on its
  own and leaves \<open>transformer\<close> at \<open>None\<close>.
\<close>

definition analyze_sentiment :: "nlp \<Rightarrow> pyval \<Rightarrow> pyval" where
  "analyze_sentiment tools text =
     (case text of
        PStr s \<Rightarrow>
          (case textblob tools s of
             None \<Rightarrow> neutral_sentiment
           | Some (polarity, subjectivity) \<Rightarrow>
               PDict [(PStr ''textblob'',
                         PDict [(PStr ''polarity'', PNum polarity),
                                (PStr ''subjectivity'', PNum subjectivity),
                                (PStr ''classification'', PStr (classify_sentiment polarity))]),
                      (PStr ''transformer'',
                         (case sentiment_analyzer tools of
                            None \<Rightarrow> PNone
                          | Some analyzer \<Rightarrow>
                              (case analyzer (take 512 s) of
                                 None \<Rightarrow> PNone
                               | Some (label, score) \<Rightarrow>
                                   PDict [(PStr ''label'', PStr label),
                                          (PStr ''score'', PNum score)]))),
                      (PStr ''overall_sentiment'', PStr (classify_sentiment polarity))])
      | _ \<Rightarrow> neutral_sentiment)"

text \<open>
  \<open>text[:100] + "..." if len(text) > 100 else text\<close>. It is evaluated in the \<open>try\<close> of
  \<open>_generate_summary\<close> and again in its \<open>except\<close> clause, so where it raises (a text
  without a length, or a long list or dictionary) the exception leaves \<open>_generate_summary\<close>.
\<close>

definition truncated :: "pyval \<Rightarrow> exn + pyval" where
  "truncated text =
     (case text of
        PStr s \<Rightarrow> Inr (PStr (if length s > 100 then take 100 s @ ''...'' else s))
      | PList xs \<Rightarrow>
          if length xs > 100 then Inl (TypeError, ''can only concatenate list to list'')
          else Inr (PList xs)
      | PDict kvs \<Rightarrow>
          if length kvs > 100 then Inl (TypeError, ''unhashable type: slice'')
          else Inr (PDict kvs)
      | _ \<Rightarrow> Inl (TypeError, ''object has no len()''))"

definition generate_summary :: "nlp \<Rightarrow> pyval \<Rightarrow> exn + pyval" where
  "generate_summary tools text =
     (case text of
        PStr s \<Rightarrow>
          (case summarizer tools of
             None \<Rightarrow> truncated text
           | Some summarize \<Rightarrow>
               if length (split_words tools s) < 10 then truncated text
               else (case summarize s of
                       Some summary \<Rightarrow> Inr (PStr summary)
                     | None \<Rightarrow> truncated text))
      | _ \<Rightarrow> truncated text)"

definition zero_engagement :: pyval where
  "zero_engagement =
     PDict [(PStr ''retweets'', PNum 0), (PStr ''likes'', PNum 0), (PStr ''replies'', PNum 0),
            (PStr ''quotes'', PNum 0), (PStr ''total_engagement'', PNum 0),
            (PStr ''engagement_rate'', PNum 0)]"

definition extract_engagement_metrics :: "pyval \<Rightarrow> pyval" where
  "extract_engagement_metrics tweet =
     (case
        and_then (dict_get tweet ''retweet_count'' (PNum 0))
        (\<lambda>retweets. and_then (dict_get tweet ''favorite_count'' (PNum 0))
        (\<lambda>likes. and_then (dict_get tweet ''reply_count'' (PNum 0))
        (\<lambda>replies. and_then (dict_get tweet ''quote_count'' (PNum 0))
        (\<lambda>quotes. and_then (sum_over Inr [retweets, likes, replies, quotes] 0)
        (\<lambda>total_engagement. and_then (dict_get tweet ''user'' (PDict []))
        (\<lambda>user. and_then (dict_get user ''followers_count'' (PNum 0))
        (\<lambda>follower_count. and_then (num_of follower_count)
        (\<lambda>followers.
           Inr (PDict
             [(PStr ''retweets'', retweets), (PStr ''likes'', likes),
              (PStr ''replies'', replies), (PStr ''quotes'', quotes),
              (PStr ''total_engagement'', PNum total_engagement),
              (PStr ''engagement_rate'',
                 PNum (if followers > 0 then total_engagement / followers * 100 else 0))])))))))))
      of Inr engagement \<Rightarrow> engagement | Inl e \<Rightarrow> zero_engagement)"

definition no_media :: pyval where
  "no_media =
     PDict [(PStr ''images'', PList []), (PStr ''videos'', PList []), (PStr ''gifs'', PList []),
            (PStr ''has_media'', PBool False)]"

fun media_loop ::
  "pyval list \<Rightarrow> pyval list \<Rightarrow> pyval list \<Rightarrow> pyval list
     \<Rightarrow> exn + (pyval list \<times> pyval list \<times> pyval list)" where
  "media_loop [] images videos gifs = Inr (images, videos, gifs)"
| "media_loop (item # items) images videos gifs =
     and_then (dict_get item ''url'' (PStr ''''))
     (\<lambda>url. and_then (dict_get item ''type'' (PStr ''''))
     (\<lambda>type_default. and_then (dict_get item ''media_url_https'' (PStr ''''))
     (\<lambda>media_url. and_then (subscript item ''type'')
     (\<lambda>item_type.
        (let media_item = PDict [(PStr ''url'', url), (PStr ''type'', type_default),
                                 (PStr ''media_url'', media_url)]
         in if item_type = PStr ''photo'' then
              media_loop items (images @ [media_item]) videos gifs
            else if item_type = PStr ''video'' then
              media_loop items images (videos @ [media_item]) gifs
            else if item_type = PStr ''animated_gif'' then
              media_loop items images videos (gifs @ [media_item])
            else media_loop items images videos gifs)))))"

definition extract_media_info :: "pyval \<Rightarrow> pyval" where
  "extract_media_info tweet =
     (case tweet of
        PDict kvs \<Rightarrow>
          (case map_of kvs (PStr ''media'') of
             None \<Rightarrow> no_media
           | Some media \<Rightarrow>
               (case and_then (py_iter media) (\<lambda>items. media_loop items [] [] []) of
                  Inr (images, videos, gifs) \<Rightarrow>
                    PDict [(PStr ''images'', PList images), (PStr ''videos'', PList videos),
                           (PStr ''gifs'', PList gifs), (PStr ''has_media'', PBool True)]
                | Inl e \<Rightarrow> no_media))
      | _ \<Rightarrow> no_media)"

definition strings :: "string list \<Rightarrow> pyval" where
  "strings xs = PList (map PStr xs)"

definition analyze_text_content :: "nlp \<Rightarrow> pyval \<Rightarrow> pyval" where
  "analyze_text_content tools text =
     (case text of
        PStr s \<Rightarrow>
          (let word_count = length (split_words tools s);
               char_count = length s
           in PDict
                [(PStr ''word_count'', PNum (of_nat word_count)),
                 (PStr ''char_count'', PNum (of_nat char_count)),
                 (PStr ''avg_word_length'',
                    PNum (if word_count > 0 then of_nat char_count / of_nat word_count else 0)),
                 (PStr ''hashtags'', strings (find_hashtags tools s)),
                 (PStr ''hashtag_count'', PNum (of_nat (length (find_hashtags tools s)))),
                 (PStr ''mentions'', strings (find_mentions tools s)),
                 (PStr ''mention_count'', PNum (of_nat (length (find_mentions tools s)))),
                 (PStr ''urls'', strings (find_urls tools s)),
                 (PStr ''url_count'', PNum (of_nat (length (find_urls tools s)))),
                 (PStr ''emojis'', strings (find_emojis tools s)),
                 (PStr ''emoji_count'', PNum (of_nat (length (find_emojis tools s))))])
      | _ \<Rightarrow> PDict [])"

definition extract_user_info :: "pyval \<Rightarrow> pyval" where
  "extract_user_info tweet =
     (case
        and_then (dict_get tweet ''user'' (PDict []))
        (\<lambda>user. and_then (dict_get user ''screen_name'' (PStr ''''))
        (\<lambda>screen_name. and_then (dict_get user ''name'' (PStr ''''))
        (\<lambda>name. and_then (dict_get user ''followers_count'' (PNum 0))
        (\<lambda>followers. and_then (dict_get user ''friends_count'' (PNum 0))
        (\<lambda>following. and_then (dict_get user ''statuses_count'' (PNum 0))
        (\<lambda>statuses. and_then (dict_get user ''verified'' (PBool False))
        (\<lambda>verified. and_then (dict_get user ''created_at'' (PStr ''''))
        (\<lambda>created. and_then (dict_get user ''description'' (PStr ''''))
        (\<lambda>description. and_then (dict_get user ''location'' (PStr ''''))
        (\<lambda>location.
           Inr (PDict
             [(PStr ''username'', screen_name), (PStr ''name'', name),
              (PStr ''followers_count'', followers), (PStr ''following_count'', following),
              (PStr ''tweets_count'', statuses), (PStr ''verified'', verified),
              (PStr ''created_at'', created), (PStr ''description'', description),
              (PStr ''location'', location)])))))))))))
      of Inr info \<Rightarrow> info | Inl e \<Rightarrow> PDict [])"

text \<open>
  \<open>analyze_single_tweet\<close>. In its \<open>try\<close>, a tweet that is not a dictionary has no \<open>get\<close>,
  and the summary may raise; the \<open>except\<close> clause answers with the error and the raw tweet.
\<close>

definition analyze_single_tweet_body :: "nlp \<Rightarrow> pyval \<Rightarrow> exn + pyval" where
  "analyze_single_tweet_body tools tweet =
     and_then (dict_get tweet ''text'' (PStr ''''))
     (\<lambda>text_default. and_then (dict_get tweet ''full_text'' text_default)
     (\<lambda>text. and_then (generate_summary tools text)
     (\<lambda>summary. and_then (dict_get tweet ''id_str'' (PStr ''''))
     (\<lambda>id_str. and_then (dict_get tweet ''created_at'' (PStr ''''))
     (\<lambda>created_at. and_then (dict_get tweet ''url'' (PStr ''''))
     (\<lambda>url. and_then (dict_get tweet ''lang'' (PStr ''''))
     (\<lambda>lang. and_then (dict_get tweet ''retweeted_status'' PNone)
     (\<lambda>retweeted_status. and_then (dict_get tweet ''in_reply_to_status_id_str'' PNone)
     (\<lambda>in_reply_to.
        Inr (PDict
          [(PStr ''id'', id_str),
           (PStr ''text'', text),
           (PStr ''summary'', summary),
           (PStr ''created_at'', created_at),
           (PStr ''sentiment'', analyze_sentiment tools text),
           (PStr ''engagement'', extract_engagement_metrics tweet),
           (PStr ''text_analysis'', analyze_text_content tools text),
           (PStr ''media'', extract_media_info tweet),
           (PStr ''user'', extract_user_info tweet),
           (PStr ''url'', url),
           (PStr ''lang'', lang),
           (PStr ''is_retweet'', PBool (retweeted_status \<noteq> PNone)),
           (PStr ''is_reply'', PBool (in_reply_to \<noteq> PNone))]))))))))))"

definition analyze_single_tweet :: "nlp \<Rightarrow> pyval \<Rightarrow> exn + pyval" where
  "analyze_single_tweet tools tweet =
     (case analyze_single_tweet_body tools tweet of
        Inr analysis \<Rightarrow> Inr analysis
      | Inl e \<Rightarrow> Inr (PDict [(PStr ''error'', PStr (snd e)), (PStr ''raw_tweet'', tweet)]))"

text \<open>
  \<open>analyze_user_tweets\<close>, on the raw directory \<open>data/raw\<close>. \<open>now1\<close> is the clock reading
  for the bundle, \<open>now2\<close> the one for the file name, \<open>wtime\<close> the time stamped on the file.
\<close>

definition analyzed_path :: "datetime \<Rightarrow> string \<Rightarrow> path" where
  "analyzed_path now2 username =
     [''data'', ''analyzed'', username @ ''_analyzed_'' @ timestamp_str now2 @ ''.json'']"

definition analyze_user_tweets_body ::
  "nlp \<Rightarrow> os_env \<Rightarrow> (string \<Rightarrow> datetime option) \<Rightarrow> datetime \<Rightarrow> datetime \<Rightarrow> datetime
     \<Rightarrow> string \<Rightarrow> filesystem \<Rightarrow> (exn + pyval) \<times> filesystem" where
  "analyze_user_tweets_body tools env parse now1 now2 wtime username fs =
     (let user_files = glob fs [''data'', ''raw''] (username @ ''_raw_*.json'')
      in if user_files = [] then
           (Inr (error_result (''No data files found for '' @ username)), fs)
         else
           (case
              and_then (read_json env fs (latest env fs user_files))
              (\<lambda>tweets. and_then (py_iter tweets)
              (\<lambda>items. and_then (map_exn (analyze_single_tweet tools) items)
              (\<lambda>analyzed_tweets.
                 and_then (generate_comprehensive_analysis parse now1 analyzed_tweets username)
              (\<lambda>analysis_results. Inr (analyzed_tweets, analysis_results)))))
            of
              Inl e \<Rightarrow> (Inl e, fs)
            | Inr (analyzed_tweets, analysis_results) \<Rightarrow>
                (case write_json env wtime (analyzed_path now2 username) analysis_results fs of
                   (Inl e, fs') \<Rightarrow> (Inl e, fs')
                 | (Inr u, fs') \<Rightarrow>
                     (Inr (PDict
                        [(PStr ''status'', success),
                         (PStr ''message'',
                            PStr (''Successfully analyzed '' @ show_nat (length analyzed_tweets)
                                  @ '' tweets for '' @ username)),
                         (PStr ''filepath'', PStr (path_str (analyzed_path now2 username))),
                         (PStr ''analysis'', analysis_results)]),
                      fs'))))"

definition analyze_user_tweets ::
  "nlp \<Rightarrow> os_env \<Rightarrow> (string \<Rightarrow> datetime option) \<Rightarrow> datetime \<Rightarrow> datetime \<Rightarrow> datetime
     \<Rightarrow> string \<Rightarrow> filesystem \<Rightarrow> (exn + pyval) \<times> filesystem" where
  "analyze_user_tweets tools env parse now1 now2 wtime username fs =
     (case analyze_user_tweets_body tools env parse now1 now2 wtime username fs of
        (Inr result, fs') \<Rightarrow> (Inr result, fs')
      | (Inl e, fs') \<Rightarrow>
          (Inr (error_result (''Error analyzing tweets for '' @ username @ '': '' @ snd e)),
           fs'))"

subsection \<open>Sample tools\<close>

definition sample_tools :: nlp where
  "sample_tools =
     \<lparr>textblob = (\<lambda>s. Some (0, 0)), sentiment_analyzer = None, summarizer = None,
       split_words = (\<lambda>s. [s]), find_hashtags = (\<lambda>s. []), find_mentions = (\<lambda>s. []),
       find_urls = (\<lambda>s. []), find_emojis = (\<lambda>s. [])\<rparr>"

definition sample_raw_tweet :: pyval where
  "sample_raw_tweet =
     PDict [(PStr ''id_str'', PStr ''1''), (PStr ''full_text'', PStr ''gm''),
            (PStr ''created_at'', PStr ''Mon Jan 01 15:00:00 +0000 2024''),
            (PStr ''favorite_count'', PNum 10), (PStr ''retweet_count'', PNum 5),
            (PStr ''reply_count'', PNum 2)]"

text \<open>A data directory in which \<open>raw\<close> is a file, so that it cannot be made a directory.\<close>

definition blocked_tree :: filesystem where
  "blocked_tree = [([''data''], Dir), ([''data'', ''raw''], File Truncated sample_now)]"

section \<open>AnalysisProcessor: the insights report\<close>

text \<open>
  The comparisons and the division the report makes on values it reads from the bundle.
  Numbers order as numbers and strings as strings; every other pair is a \<open>TypeError\<close> here
  (lists, which Python also orders, are not modelled: the bundle holds counts and means
  under these keys).
\<close>

fun str_less :: "string \<Rightarrow> string \<Rightarrow> bool" where
  "str_less [] [] = False"
| "str_less [] (y # ys) = True"
| "str_less (x # xs) [] = False"
| "str_less (x # xs) (y # ys) =
     ((of_char x :: nat) < of_char y \<or> (x = y \<and> str_less xs ys))"

definition py_greater :: "pyval \<Rightarrow> pyval \<Rightarrow> exn + bool" where
  "py_greater a b =
     (case (a, b) of
        (PStr s, PStr t) \<Rightarrow> Inr (str_less t s)
      | _ \<Rightarrow> and_then (num_of a) (\<lambda>x. and_then (num_of b) (\<lambda>y. Inr (x > y))))"

definition py_div :: "pyval \<Rightarrow> pyval \<Rightarrow> exn + rat" where
  "py_div a b =
     and_then (num_of a)
     (\<lambda>x. and_then (num_of b)
     (\<lambda>y. if y = 0 then Inl (OtherError, ''division by zero'') else Inr (x / y)))"

text \<open>\<open>v == 0\<close>\<close>

definition is_zero :: "pyval \<Rightarrow> bool" where
  "is_zero v = (case v of PNum r \<Rightarrow> r = 0 | PBool b \<Rightarrow> \<not> b | _ \<Rightarrow> False)"

definition dict_items :: "pyval \<Rightarrow> exn + (pyval \<times> pyval) list" where
  "dict_items d =
     (case d of
        PDict kvs \<Rightarrow> Inr kvs
      | _ \<Rightarrow> Inl (AttributeError, ''object has no attribute items''))"

text \<open>\<open>max(d.items(), key=lambda x: x[1])[0]\<close>\<close>

fun max_item :: "pyval \<times> pyval \<Rightarrow> (pyval \<times> pyval) list \<Rightarrow> exn + (pyval \<times> pyval)" where
  "max_item best [] = Inr best"
| "max_item best (x # xs) =
     and_then (py_greater (snd x) (snd best)) (\<lambda>greater. max_item (if greater then x else best) xs)"

definition max_key :: "pyval \<Rightarrow> exn + pyval" where
  "max_key d =
     and_then (dict_items d)
     (\<lambda>items. case items of
        [] \<Rightarrow> Inl (ValueError, ''max() arg is an empty sequence'')
      | x # xs \<Rightarrow> and_then (max_item x xs) (\<lambda>best. Inr (fst best)))"

definition generate_key_metrics :: "pyval \<Rightarrow> exn + pyval" where
  "generate_key_metrics analysis_data =
     and_then (dict_get analysis_data ''summary'' (PDict []))
     (\<lambda>summary. and_then (dict_get summary ''total_tweets'' (PNum 0))
     (\<lambda>total_tweets. and_then (dict_get summary ''total_engagement'' (PNum 0))
     (\<lambda>total_engagement. and_then (dict_get summary ''average_engagement'' (PNum 0))
     (\<lambda>average_engagement. and_then (dict_get summary ''media_percentage'' (PNum 0))
     (\<lambda>media_percentage.
        Inr (PDict
          [(PStr ''total_tweets'', total_tweets),
           (PStr ''total_engagement'', total_engagement),
           (PStr ''average_engagement'', average_engagement),
           (PStr ''engagement_rate'', average_engagement),
           (PStr ''media_usage_percentage'', media_percentage)]))))))"

definition generate_sentiment_insights :: "pyval \<Rightarrow> exn + pyval" where
  "generate_sentiment_insights analysis_data =
     and_then (dict_get analysis_data ''summary'' (PDict []))
     (\<lambda>summary. and_then (dict_get summary ''sentiment_distribution'' (PDict []))
     (\<lambda>sentiment_dist. and_then (dict_get summary ''total_tweets'' (PNum 0))
     (\<lambda>total_tweets.
        if is_zero total_tweets then Inr (PDict [])
        else
          and_then (if truthy sentiment_dist then max_key sentiment_dist
                    else Inr (PStr ''neutral''))
          (\<lambda>dominant_sentiment. and_then (dict_items sentiment_dist)
          (\<lambda>items.
             and_then (map_exn (\<lambda>(sentiment, count).
                          and_then (py_div count total_tweets)
                            (\<lambda>share. Inr (sentiment, PNum (share * 100)))) items)
          (\<lambda>sentiment_percentages. and_then (dict_get sentiment_dist ''bullish'' (PNum 0))
          (\<lambda>bullish. and_then (dict_get sentiment_dist ''bearish'' (PNum 0))
          (\<lambda>bearish. and_then (num_of bullish)
          (\<lambda>up. and_then (num_of bearish)
          (\<lambda>down.
             Inr (PDict
               [(PStr ''dominant_sentiment'', dominant_sentiment),
                (PStr ''sentiment_distribution'', PDict sentiment_percentages),
                (PStr ''sentiment_balance'', PNum \<bar>up - down\<bar>)])))))))))))"

definition generate_engagement_insights :: "pyval \<Rightarrow> exn + pyval" where
  "generate_engagement_insights analysis_data =
     and_then (dict_get analysis_data ''insights'' (PDict []))
     (\<lambda>insights. and_then (dict_get insights ''engagement_patterns'' (PDict []))
     (\<lambda>engagement_patterns. and_then (dict_get engagement_patterns ''by_sentiment'' PNone)
     (\<lambda>by_sentiment.
        and_then (if truthy by_sentiment then max_key by_sentiment else Inr PNone)
     (\<lambda>best_performing_sentiment.
        and_then (dict_get engagement_patterns ''by_media'' (PDict []))
     (\<lambda>media_impact. and_then (dict_get analysis_data ''summary'' (PDict []))
     (\<lambda>summary. and_then (dict_get summary ''average_engagement'' (PNum 0))
     (\<lambda>average_engagement. and_then (py_greater average_engagement (PNum 0))
     (\<lambda>positive.
        Inr (PDict
          [(PStr ''best_performing_sentiment'', best_performing_sentiment),
           (PStr ''media_impact'', media_impact),
           (PStr ''engagement_trends'',
              PStr (if positive then ''increasing'' else ''stable''))])))))))))"

definition generate_content_insights :: "pyval \<Rightarrow> exn + pyval" where
  "generate_content_insights analysis_data =
     and_then (dict_get analysis_data ''summary'' (PDict []))
     (\<lambda>summary. and_then (dict_get summary ''total_words'' (PNum 0))
     (\<lambda>total_words. and_then (dict_get summary ''total_tweets'' (PNum 1))
     (\<lambda>total_tweets. and_then (py_div total_words total_tweets)
     (\<lambda>average_words. and_then (dict_get summary ''total_hashtags'' (PNum 0))
     (\<lambda>hashtag_usage. and_then (dict_get summary ''total_mentions'' (PNum 0))
     (\<lambda>mention_usage. and_then (dict_get summary ''media_percentage'' (PNum 0))
     (\<lambda>media_usage. and_then (py_div mention_usage total_tweets)
     (\<lambda>interaction_rate.
        Inr (PDict
          [(PStr ''content_length'', PDict
              [(PStr ''average_words'', PNum average_words),
               (PStr ''hashtag_usage'', hashtag_usage),
               (PStr ''mention_usage'', mention_usage)]),
           (PStr ''content_strategy'', PDict
              [(PStr ''media_usage'', media_usage),
               (PStr ''interaction_rate'', PNum interaction_rate)])])))))))))"

text \<open>
  \<open>generate_insights_report\<close>. The first three readings of the clock and times are those
  of \<open>analyze_user_tweets\<close>, which it runs first; \<open>now3\<close> is the reading for
  \<open>generated_at\<close>, \<open>now4\<close> the one for the file name, \<open>wtime2\<close> the time stamped on the
  report.
\<close>

definition insights_report_path :: "datetime \<Rightarrow> string \<Rightarrow> path" where
  "insights_report_path now4 username =
     [''data'', ''insights'', username @ ''_insights_'' @ timestamp_str now4 @ ''.json'']"

definition build_insights :: "datetime \<Rightarrow> string \<Rightarrow> pyval \<Rightarrow> exn + pyval" where
  "build_insights now3 username analysis_data =
     and_then (generate_key_metrics analysis_data)
     (\<lambda>key_metrics. and_then (generate_sentiment_insights analysis_data)
     (\<lambda>sentiment_insights. and_then (generate_engagement_insights analysis_data)
     (\<lambda>engagement_insights. and_then (generate_content_insights analysis_data)
     (\<lambda>content_insights. and_then (generate_recommendations analysis_data)
     (\<lambda>recommendations.
        Inr (PDict
          [(PStr ''username'', PStr username),
           (PStr ''generated_at'', PStr (isoformat now3)),
           (PStr ''key_metrics'', key_metrics),
           (PStr ''sentiment_insights'', sentiment_insights),
           (PStr ''engagement_insights'', engagement_insights),
           (PStr ''content_insights'', content_insights),
           (PStr ''recommendations'', PList (map PStr recommendations))]))))))"

definition generate_insights_report_body ::
  "nlp \<Rightarrow> os_env \<Rightarrow> (string \<Rightarrow> datetime option) \<Rightarrow> datetime \<Rightarrow> datetime \<Rightarrow> datetime
     \<Rightarrow> datetime \<Rightarrow> datetime \<Rightarrow> datetime \<Rightarrow> string \<Rightarrow> filesystem
     \<Rightarrow> (exn + pyval) \<times> filesystem" where
  "generate_insights_report_body tools env parse now1 now2 wtime1 now3 now4 wtime2 username fs =
     (case analyze_user_tweets tools env parse now1 now2 wtime1 username fs of
        (Inl e, fs1) \<Rightarrow> (Inl e, fs1)
      | (Inr analysis_result, fs1) \<Rightarrow>
          (case subscript analysis_result ''status'' of
             Inl e \<Rightarrow> (Inl e, fs1)
           | Inr status \<Rightarrow>
               if status \<noteq> success then (Inr analysis_result, fs1)
               else
                 (case and_then (subscript analysis_result ''analysis'')
                         (build_insights now3 username) of
                    Inl e \<Rightarrow> (Inl e, fs1)
                  | Inr insights \<Rightarrow>
                      (case write_json env wtime2 (insights_report_path now4 username)
                              insights fs1 of
                         (Inl e, fs2) \<Rightarrow> (Inl e, fs2)
                       | (Inr u, fs2) \<Rightarrow>
                           (Inr (PDict
                              [(PStr ''status'', success),
                               (PStr ''message'',
                                  PStr (''Generated insights report for '' @ username)),
                               (PStr ''filepath'',
                                  PStr (path_str (insights_report_path now4 username))),
                               (PStr ''insights'', insights)]),
                            fs2)))))"

definition generate_insights_report ::
  "nlp \<Rightarrow> os_env \<Rightarrow> (string \<Rightarrow> datetime option) \<Rightarrow> datetime \<Rightarrow> datetime \<Rightarrow> datetime
     \<Rightarrow> datetime \<Rightarrow> datetime \<Rightarrow> datetime \<Rightarrow> string \<Rightarrow> filesystem
     \<Rightarrow> (exn + pyval) \<times> filesystem" where
  "generate_insights_report tools env parse now1 now2 wtime1 now3 now4 wtime2 username fs =
     (case generate_insights_report_body tools env parse now1 now2 wtime1 now3 now4 wtime2
             username fs of
        (Inr result, fs') \<Rightarrow> (Inr result, fs')
      | (Inl e, fs') \<Rightarrow> (Inr (error_result (snd e)), fs'))"

section \<open>Notions used to state how operations report their outcome\<close>

text \<open>
  An operation reports its outcome when it returns (no exception reaches the caller) a
  dictionary whose \<open>status\<close> is \<open>success\<close> or \<open>error\<close>.
\<close>

definition reports_status :: "exn + pyval \<Rightarrow> bool" where
  "reports_status r \<longleftrightarrow>
     result_status r = Some (PStr ''success'') \<or> result_status r = Some (PStr ''error'')"

section \<open>Properties of the analysis\<close>

subsection \<open>Histograms and the maximum\<close>

lemma first_index_append:
  "first_index (xs @ [h]) k =
     (if k \<in> set xs then first_index xs k else length xs + (if h = k then 0 else 1))"
  by (induction xs) auto

lemma first_index_less: "k \<in> set xs \<Longrightarrow> first_index xs k < length xs"
  by (induction xs) auto

lemma posting_loop_hours:
  "posting_loop parse tweets dc hc = Inr (dc', hc') \<Longrightarrow>
     hc' = fold incr (parsed_hours parse tweets) hc"
proof (induction tweets arbitrary: dc hc)
  case Nil
  then show ?case by (simp add: parsed_hours_def List.map_filter_simps)
next
  case (Cons t ts)
  then show ?case
    by (auto simp: parsed_hours_def List.map_filter_simps item_hour_def and_then_def
        split: sum.splits if_splits prod.splits exn_class.splits)
qed

lemma keys_incr:
  "map fst (incr k c) = (if k \<in> set (map fst c) then map fst c else map fst c @ [k])"
  by (simp add: incr_def update_keys)

lemma map_of_incr:
  "map_of (incr k c) k' =
     (if k' = k then Some (case map_of c k of None \<Rightarrow> 1 | Some n \<Rightarrow> n + 1) else map_of c k')"
  by (simp add: incr_def update_conv')

lemma hist_snoc: "fold incr (hs @ [h]) [] = incr h (fold incr hs [])"
  by simp

lemma hist_keys: "set (map fst (fold incr hs [])) = set hs"
proof (induction hs rule: rev_induct)
  case Nil
  show ?case by simp
next
  case (snoc h hs)
  have "map fst (fold incr (hs @ [h]) []) =
          (if h \<in> set (map fst (fold incr hs [])) then map fst (fold incr hs [])
           else map fst (fold incr hs []) @ [h])"
    by (simp only: hist_snoc keys_incr)
  with snoc show ?case by (auto split: if_splits)
qed

lemma hist_count:
  "map_of (fold incr hs []) k = (if k \<in> set hs then Some (count_list hs k) else None)"
proof (induction hs rule: rev_induct)
  case Nil
  show ?case by simp
next
  case (snoc h hs)
  have "map_of (fold incr (hs @ [h]) []) k =
     (if k = h then Some (case map_of (fold incr hs []) h of None \<Rightarrow> 1 | Some n \<Rightarrow> n + 1)
      else map_of (fold incr hs []) k)"
    by (simp only: hist_snoc map_of_incr)
  with snoc show ?case by (auto split: if_splits)
qed

lemma hist_order:
  "sorted_wrt (\<lambda>a b. first_index hs a < first_index hs b) (map fst (fold incr hs []))"
proof (induction hs rule: rev_induct)
  case Nil
  show ?case by simp
next
  case (snoc h hs)
  have keys: "set (map fst (fold incr hs [])) = set hs" by (rule hist_keys)
  have mono: "sorted_wrt (\<lambda>a b. first_index (hs @ [h]) a < first_index (hs @ [h]) b)
                 (map fst (fold incr hs []))"
    using snoc keys
    by (auto simp: sorted_wrt_iff_nth_less first_index_append)
  show ?case
  proof (cases "h \<in> set hs")
    case True
    with mono keys show ?thesis by (simp only: hist_snoc keys_incr if_True)
  next
    case False
    have "map fst (fold incr (hs @ [h]) []) = map fst (fold incr hs []) @ [h]"
      using False keys by (simp only: hist_snoc keys_incr if_False)
    with mono keys False show ?thesis
      by (auto simp: sorted_wrt_append first_index_append first_index_less
          simp del: fold_append)
  qed
qed

lemma hist_distinct: "distinct (map fst (fold incr hs []))"
proof (induction hs rule: rev_induct)
  case Nil
  show ?case by simp
next
  case (snoc h hs)
  have "map fst (fold incr (hs @ [h]) []) =
          (if h \<in> set (map fst (fold incr hs [])) then map fst (fold incr hs [])
           else map fst (fold incr hs []) @ [h])"
    by (simp only: hist_snoc keys_incr)
  with snoc show ?case by (auto split: if_splits)
qed

lemma max_from_spec:
  "max_from key best xs = r \<Longrightarrow>
     (r = best \<and> (\<forall>x \<in> set xs. key x \<le> key best)) \<or>
     (\<exists>pre post. xs = pre @ r # post \<and> key best < key r \<and>
        (\<forall>y \<in> set pre. key y < key r) \<and> (\<forall>y \<in> set post. key y \<le> key r))"
proof (induction xs arbitrary: best)
  case Nil
  then show ?case by simp
next
  case (Cons x xs)
  show ?case
  proof (cases "key best < key x")
    case True
    with Cons.prems have "max_from key x xs = r" by simp
    from Cons.IH[OF this] show ?thesis
    proof
      assume "r = x \<and> (\<forall>y \<in> set xs. key y \<le> key x)"
      with True have "x # xs = [] @ r # xs \<and> key best < key r \<and>
        (\<forall>y \<in> set []. key y < key r) \<and> (\<forall>y \<in> set xs. key y \<le> key r)" by simp
      then show ?thesis by blast
    next
      assume "\<exists>pre post. xs = pre @ r # post \<and> key x < key r \<and>
        (\<forall>y \<in> set pre. key y < key r) \<and> (\<forall>y \<in> set post. key y \<le> key r)"
      then obtain pre post where p: "xs = pre @ r # post" "key x < key r"
        "\<forall>y \<in> set pre. key y < key r" "\<forall>y \<in> set post. key y \<le> key r" by blast
      with True have "x # xs = (x # pre) @ r # post \<and> key best < key r \<and>
        (\<forall>y \<in> set (x # pre). key y < key r) \<and> (\<forall>y \<in> set post. key y \<le> key r)" by auto
      then show ?thesis by blast
    qed
  next
    case False
    with Cons.prems have "max_from key best xs = r" by simp
    from Cons.IH[OF this] show ?thesis
    proof
      assume "r = best \<and> (\<forall>y \<in> set xs. key y \<le> key best)"
      with False show ?thesis by auto
    next
      assume "\<exists>pre post. xs = pre @ r # post \<and> key best < key r \<and>
        (\<forall>y \<in> set pre. key y < key r) \<and> (\<forall>y \<in> set post. key y \<le> key r)"
      then obtain pre post where p: "xs = pre @ r # post" "key best < key r"
        "\<forall>y \<in> set pre. key y < key r" "\<forall>y \<in> set post. key y \<le> key r" by blast
      with False have "x # xs = (x # pre) @ r # post \<and> key best < key r \<and>
        (\<forall>y \<in> set (x # pre). key y < key r) \<and> (\<forall>y \<in> set post. key y \<le> key r)" by auto
      then show ?thesis by blast
    qed
  qed
qed

lemma max_from_first:
  assumes "max_from key x rest = r"
  shows "\<exists>pre post. x # rest = pre @ r # post \<and>
        (\<forall>y \<in> set pre. key y < key r) \<and> (\<forall>y \<in> set post. key y \<le> key r)"
proof -
  from max_from_spec[OF assms] show ?thesis
  proof
    assume "r = x \<and> (\<forall>y \<in> set rest. key y \<le> key x)"
    then have "x # rest = [] @ r # rest \<and> (\<forall>y \<in> set []. key y < key r) \<and>
        (\<forall>y \<in> set rest. key y \<le> key r)"
      by simp
    then show ?thesis by blast
  next
    assume "\<exists>pre post. rest = pre @ r # post \<and> key x < key r \<and>
        (\<forall>y \<in> set pre. key y < key r) \<and> (\<forall>y \<in> set post. key y \<le> key r)"
    then obtain pre post where p: "rest = pre @ r # post" "key x < key r"
        "\<forall>y \<in> set pre. key y < key r" "\<forall>y \<in> set post. key y \<le> key r" by blast
    then have "x # rest = (x # pre) @ r # post \<and> (\<forall>y \<in> set (x # pre). key y < key r) \<and>
        (\<forall>y \<in> set post. key y \<le> key r)"
      by simp
    then show ?thesis by blast
  qed
qed

text \<open>
  The most active hour of a histogram built from the hours \<open>hs\<close>: it has the greatest
  count, and among the hours of that count it is the one \<open>hs\<close> mentions first.
\<close>

lemma most_active_hour_hist:
  assumes ne: "hs \<noteq> []"
  shows "\<exists>h. most_active_hour (fold incr hs []) = Some h \<and> h \<in> set hs \<and>
           (\<forall>h' \<in> set hs. count_list hs h' \<le> count_list hs h) \<and>
           (\<forall>h' \<in> set hs. count_list hs h' = count_list hs h \<longrightarrow>
                first_index hs h \<le> first_index hs h')"
proof -
  define hc where "hc = fold incr hs []"
  have keys: "set (map fst hc) = set hs" unfolding hc_def by (rule hist_keys)
  have dist: "distinct (map fst hc)" unfolding hc_def by (rule hist_distinct)
  have ord: "sorted_wrt (\<lambda>a b. first_index hs a < first_index hs b) (map fst hc)"
    unfolding hc_def by (rule hist_order)
  have cnt: "c = count_list hs k" if "(k, c) \<in> set hc" for k c
  proof -
    from that dist have "map_of hc k = Some c" by simp
    moreover have "map_of hc k = (if k \<in> set hs then Some (count_list hs k) else None)"
      unfolding hc_def by (rule hist_count)
    ultimately show ?thesis by (simp split: if_splits)
  qed
  from ne keys have "hc \<noteq> []" by auto
  then obtain x rest where hc: "hc = x # rest" by (cases hc) auto
  define r where "r = max_from snd x rest"
  then have "max_from snd x rest = r" by simp
  from max_from_first[OF this] obtain pre post where
    split: "x # rest = pre @ r # post" and
    pre: "\<forall>y \<in> set pre. snd y < snd r" and post: "\<forall>y \<in> set post. snd y \<le> snd r"
    by blast
  have hc_split: "hc = pre @ r # post" using hc split by simp
  obtain h c where r: "r = (h, c)" by (cases r)
  have c: "c = count_list hs h" using cnt[of h c] hc_split r by simp
  have h_in: "h \<in> set hs" using keys hc_split r by force
  have mah: "most_active_hour hc = Some h"
    using hc r r_def by (simp add: most_active_hour_def)
  have le: "count_list hs h' \<le> count_list hs h" if "h' \<in> set hs" for h'
  proof -
    from that keys obtain c' where in_hc: "(h', c') \<in> set hc" by force
    then have c': "c' = count_list hs h'" by (rule cnt)
    from in_hc hc_split have "(h', c') \<in> set pre \<or> (h', c') = r \<or> (h', c') \<in> set post"
      by auto
    then show ?thesis using pre post r c c' by force
  qed
  have tie: "first_index hs h \<le> first_index hs h'"
    if "h' \<in> set hs" and eq: "count_list hs h' = count_list hs h" for h'
  proof -
    from that keys obtain c' where in_hc: "(h', c') \<in> set hc" by force
    then have c': "c' = count_list hs h'" by (rule cnt)
    from in_hc hc_split have "(h', c') \<in> set pre \<or> (h', c') = r \<or> (h', c') \<in> set post"
      by auto
    then show ?thesis
    proof (elim disjE)
      assume "(h', c') \<in> set pre"
      with pre r c c' eq show ?thesis by force
    next
      assume "(h', c') = r"
      with r show ?thesis by simp
    next
      assume "(h', c') \<in> set post"
      then have "h' \<in> set (map fst post)" by force
      moreover from ord hc_split r
      have "\<forall>k \<in> set (map fst post). first_index hs h < first_index hs k"
        by (simp add: sorted_wrt_append)
      ultimately show ?thesis by force
    qed
  qed
  from mah h_in le tie show ?thesis unfolding hc_def by blast
qed

subsection \<open>The most active hour\<close>

text \<open>
  Claim C6, as the code has it. When \<open>_analyze_posting_frequency\<close> returns its populated
  dictionary and at least one \<open>created_at\<close> parses, \<open>most_active_hour\<close> is an hour of
  maximal count in the hourly histogram; among several hours of that count it is the one
  whose first parseable tweet comes earliest in the sequence (the key first inserted into
  the histogram), which need not be the smallest hour.
\<close>

theorem most_active_hour_first_inserted_maximum:
  assumes ok: "analyze_posting_frequency parse tweets \<noteq> PDict []"
      and ne: "parsed_hours parse tweets \<noteq> []"
  shows "\<exists>h. dict_get (analyze_posting_frequency parse tweets) ''most_active_hour'' PNone
               = Inr (PNum (of_nat h)) \<and>
             h \<in> set (parsed_hours parse tweets) \<and>
             (\<forall>h' \<in> set (parsed_hours parse tweets).
                count_list (parsed_hours parse tweets) h'
                  \<le> count_list (parsed_hours parse tweets) h) \<and>
             (\<forall>h' \<in> set (parsed_hours parse tweets).
                count_list (parsed_hours parse tweets) h'
                  = count_list (parsed_hours parse tweets) h \<longrightarrow>
                first_index (parsed_hours parse tweets) h
                  \<le> first_index (parsed_hours parse tweets) h')"
proof -
  from ok obtain dc hc where loop: "posting_loop parse tweets [] [] = Inr (dc, hc)"
    by (auto simp: analyze_posting_frequency_def split: sum.splits)
  then have hc: "hc = fold incr (parsed_hours parse tweets) []"
    by (rule posting_loop_hours)
  from most_active_hour_hist[OF ne] obtain h where
    h: "most_active_hour (fold incr (parsed_hours parse tweets) []) = Some h"
       "h \<in> set (parsed_hours parse tweets)"
       "\<forall>h' \<in> set (parsed_hours parse tweets).
          count_list (parsed_hours parse tweets) h' \<le> count_list (parsed_hours parse tweets) h"
       "\<forall>h' \<in> set (parsed_hours parse tweets).
          count_list (parsed_hours parse tweets) h' = count_list (parsed_hours parse tweets) h
            \<longrightarrow> first_index (parsed_hours parse tweets) h
                  \<le> first_index (parsed_hours parse tweets) h'"
    by blast
  have "dict_get (analyze_posting_frequency parse tweets) ''most_active_hour'' PNone
          = Inr (PNum (of_nat h))"
    using loop hc h(1) by (simp add: analyze_posting_frequency_def dict_get_def)
  with h show ?thesis by blast
qed

lemma sample_hours: "parsed_hours sample_strptime [tweet_at_15, tweet_at_9] = [15, 9]"
  by (simp add: parsed_hours_def List.map_filter_simps item_hour_def dict_get_def
      tweet_at_15_def tweet_at_9_def sample_tweet_def py_strptime_def sample_strptime_def)

lemma sample_posting_frequency:
  "analyze_posting_frequency sample_strptime [tweet_at_15, tweet_at_9] =
     PDict [(PStr ''daily_posts'', PDict [(PStr ''2024-01-01'', PNum 1),
                                          (PStr ''2024-01-02'', PNum 1)]),
            (PStr ''hourly_distribution'', PDict [(PNum 15, PNum 1), (PNum 9, PNum 1)]),
            (PStr ''most_active_hour'', PNum 15)]"
  by code_simp

theorem most_active_hour_first_inserted_maximum_witness:
  "analyze_posting_frequency sample_strptime [tweet_at_15, tweet_at_9] \<noteq> PDict [] \<and>
   parsed_hours sample_strptime [tweet_at_15, tweet_at_9] \<noteq> [] \<and>
   (\<exists>h. dict_get (analyze_posting_frequency sample_strptime [tweet_at_15, tweet_at_9])
           ''most_active_hour'' PNone = Inr (PNum (of_nat h)) \<and>
         h \<in> set (parsed_hours sample_strptime [tweet_at_15, tweet_at_9]))"
proof -
  have ok: "analyze_posting_frequency sample_strptime [tweet_at_15, tweet_at_9] \<noteq> PDict []"
    by (simp add: sample_posting_frequency)
  have ne: "parsed_hours sample_strptime [tweet_at_15, tweet_at_9] \<noteq> []"
    by (simp add: sample_hours)
  from most_active_hour_first_inserted_maximum[OF ok ne] ok ne show ?thesis by blast
qed

text \<open>
  Claim C6 as stated fails on a tie: with one tweet at 15h followed by one at 9h both
  hours have count 1, and the code answers 15, not the smallest hour 9.
\<close>

theorem most_active_hour_tie_counterexample:
  "dict_get (analyze_posting_frequency sample_strptime [tweet_at_15, tweet_at_9])
     ''hourly_distribution'' PNone = Inr (PDict [(PNum 15, PNum 1), (PNum 9, PNum 1)]) \<and>
   dict_get (analyze_posting_frequency sample_strptime [tweet_at_15, tweet_at_9])
     ''most_active_hour'' PNone = Inr (PNum 15)"
  by (simp add: sample_posting_frequency dict_get_def)

subsection \<open>The empty item sequence\<close>

lemma and_then_Inr: "and_then m f = Inr r \<longleftrightarrow> (\<exists>x. m = Inr x \<and> f x = Inr r)"
  by (cases m) (simp_all add: and_then_def)

lemma comprehensive_analysis_body_shape:
  assumes "comprehensive_analysis_body parse now tweets username = Inr result"
  shows "\<exists>kvs. result = PDict kvs \<and>
           (kvs = [] \<or>
            map fst kvs = map PStr [''username'', ''tweets'', ''summary'', ''insights'',
                                    ''timestamp''])"
proof (cases "tweets = []")
  case True
  with assms show ?thesis by (auto simp: comprehensive_analysis_body_def)
next
  case False
  with assms show ?thesis
    by (auto simp: comprehensive_analysis_body_def and_then_Inr)
qed

text \<open>
  Claim C7, as the code has it. For the empty item sequence
  \<open>_generate_comprehensive_analysis\<close> returns the empty dictionary (no summary, no
  insights), and the recommendations generated from that dictionary are the
  low-engagement and the low-media recommendation. For every input, empty or not, the
  function raises nothing and returns a dictionary: the bundle with the keys
  \<open>username\<close>, \<open>tweets\<close>, \<open>summary\<close>, \<open>insights\<close> and \<open>timestamp\<close>, or the empty
  dictionary.
\<close>

theorem empty_analysis_is_empty_dict:
  "generate_comprehensive_analysis parse now [] username = Inr (PDict []) \<and>
   generate_recommendations (PDict []) = Inr [rec_engagement, rec_media] \<and>
   (\<exists>kvs. generate_comprehensive_analysis parse now tweets username = Inr (PDict kvs) \<and>
          (kvs = [] \<or>
           map fst kvs = map PStr [''username'', ''tweets'', ''summary'', ''insights'',
                                   ''timestamp'']))"
proof -
  have "generate_comprehensive_analysis parse now [] username = Inr (PDict [])"
    by (simp add: generate_comprehensive_analysis_def comprehensive_analysis_body_def)
  moreover have "generate_recommendations (PDict []) = Inr [rec_engagement, rec_media]"
    by (simp add: generate_recommendations_def dict_get_def and_then_def)
  moreover have
    "\<exists>kvs. generate_comprehensive_analysis parse now tweets username = Inr (PDict kvs) \<and>
           (kvs = [] \<or>
            map fst kvs = map PStr [''username'', ''tweets'', ''summary'', ''insights'',
                                    ''timestamp''])"
  proof (cases "comprehensive_analysis_body parse now tweets username")
    case (Inl e)
    then show ?thesis by (simp add: generate_comprehensive_analysis_def)
  next
    case (Inr result)
    from comprehensive_analysis_body_shape[OF Inr] Inr show ?thesis
      by (auto simp: generate_comprehensive_analysis_def)
  qed
  ultimately show ?thesis by blast
qed

text \<open>
  Claim C7 as stated fails: the result for the empty sequence has no \<open>summary\<close> (so no
  \<open>total_tweets = 0\<close>), and its recommendation list has two entries.
\<close>

theorem empty_analysis_counterexample:
  "generate_comprehensive_analysis sample_strptime sample_now [] ''alice'' = Inr (PDict []) \<and>
   subscript (PDict []) ''summary'' = Inl (KeyError, [CHR 0x27] @ ''summary'' @ [CHR 0x27]) \<and>
   and_then (generate_comprehensive_analysis sample_strptime sample_now [] ''alice'')
     generate_recommendations = Inr [rec_engagement, rec_media]"
  by (simp add: generate_comprehensive_analysis_def comprehensive_analysis_body_def
      generate_recommendations_def dict_get_def and_then_def subscript_def)

subsection \<open>Recommendations\<close>

lemma recommendations_shape:
  assumes "generate_recommendations analysis_data = Inr recs"
  shows "\<exists>summary insights avg_engagement avg media_percentage media sentiment_dist
            neutral_count neutral posting_freq.
          dict_get analysis_data ''summary'' (PDict []) = Inr summary \<and>
          dict_get analysis_data ''insights'' (PDict []) = Inr insights \<and>
          dict_get summary ''average_engagement'' (PNum 0) = Inr avg_engagement \<and>
          num_of avg_engagement = Inr avg \<and>
          dict_get summary ''media_percentage'' (PNum 0) = Inr media_percentage \<and>
          num_of media_percentage = Inr media \<and>
          dict_get summary ''sentiment_distribution'' (PDict []) = Inr sentiment_dist \<and>
          dict_get sentiment_dist ''neutral'' (PNum 0) = Inr neutral_count \<and>
          num_of neutral_count = Inr neutral \<and>
          dict_get insights ''posting_frequency'' (PDict []) = Inr posting_freq \<and>
          recs = (if avg < 10 then [rec_engagement] else []) @
                 (if media < 30 then [rec_media] else []) @
                 (if neutral > 70 then [rec_emotional] else []) @
                 (if truthy posting_freq then [rec_posting_times] else [])"
  using assms unfolding generate_recommendations_def and_then_Inr
  by (elim exE conjE) (intro exI conjI, (assumption | simp)+)

lemma subseq_opt: "subseq (if b then [x] else []) [x]"
  by simp

text \<open>The four rules are evaluated, and their recommendations emitted, in a fixed order.\<close>

lemma recommendations_order:
  assumes "generate_recommendations analysis_data = Inr recs"
  shows "subseq recs [rec_engagement, rec_media, rec_emotional, rec_posting_times]"
proof -
  from recommendations_shape[OF assms] obtain a b c d where
    recs: "recs = (if a then [rec_engagement] else []) @ (if b then [rec_media] else []) @
                  (if c then [rec_emotional] else []) @
                  (if d then [rec_posting_times] else [])"
    by blast
  have "subseq ((if a then [rec_engagement] else []) @ ((if b then [rec_media] else []) @
                  ((if c then [rec_emotional] else []) @
                  (if d then [rec_posting_times] else []))))
          ([rec_engagement] @ ([rec_media] @ ([rec_emotional] @ [rec_posting_times])))"
    by (intro list_emb_append_mono subseq_opt)
  with recs show ?thesis by simp
qed

lemma rec_emotional_distinct:
  "rec_emotional \<noteq> rec_engagement" "rec_emotional \<noteq> rec_media"
  "rec_emotional \<noteq> rec_posting_times"
  by (simp_all add: rec_emotional_def rec_engagement_def rec_media_def rec_posting_times_def)

text \<open>The rule of the code: the number of neutral tweets, compared with 70.\<close>

lemma emotional_recommendation_iff_count:
  assumes "dict_get analysis_data ''summary'' (PDict []) = Inr summary"
      and "dict_get summary ''sentiment_distribution'' (PDict []) = Inr sentiment_dist"
      and "dict_get sentiment_dist ''neutral'' (PNum 0) = Inr neutral_count"
      and "num_of neutral_count = Inr n"
      and "generate_recommendations analysis_data = Inr recs"
  shows "rec_emotional \<in> set recs \<longleftrightarrow> n > 70"
proof -
  from recommendations_shape[OF assms(5)] assms(1-4) obtain a b d where
    recs: "recs = (if a then [rec_engagement] else []) @ (if b then [rec_media] else []) @
                  (if n > 70 then [rec_emotional] else []) @
                  (if d then [rec_posting_times] else [])"
    by auto
  show ?thesis unfolding recs using rec_emotional_distinct by simp
qed

lemma neutral_tweets_parts:
  "sentiment_loop neutral_tweets [] = Inr [(PStr ''neutral'', 3)]"
  "sum_over tweet_engagement neutral_tweets 0 = Inr 72"
  "most_engaging neutral_tweets = Inr neutral_tweets"
  "sum_over (tweet_text_count field) neutral_tweets 0 = Inr 0"
  "count_media neutral_tweets 0 = Inr 3"
  "analyze_posting_frequency sample_strptime neutral_tweets =
     PDict [(PStr ''daily_posts'', PDict []), (PStr ''hourly_distribution'', PDict []),
            (PStr ''most_active_hour'', PNone)]"
  "length neutral_tweets = 3" "neutral_tweets \<noteq> []"
  by (simp_all add: neutral_tweets_def sample_tweet_def tweet_sentiment_def
      tweet_engagement_def tweet_text_count_def tweet_has_media_def most_engaging_def
      analyze_posting_frequency_def counts_dict_def most_active_hour_def
      dict_get_def and_then_def incr_def)

lemma neutral_tweets_analysis:
  "generate_comprehensive_analysis sample_strptime sample_now neutral_tweets ''alice'' =
   Inr (PDict
     [(PStr ''username'', PStr ''alice''),
      (PStr ''tweets'', PList neutral_tweets),
      (PStr ''summary'', PDict
         [(PStr ''total_tweets'', PNum 3),
          (PStr ''sentiment_distribution'', PDict [(PStr ''neutral'', PNum 3)]),
          (PStr ''total_engagement'', PNum 72),
          (PStr ''average_engagement'', PNum 24),
          (PStr ''total_words'', PNum 0),
          (PStr ''total_hashtags'', PNum 0),
          (PStr ''total_mentions'', PNum 0),
          (PStr ''tweets_with_media'', PNum 3),
          (PStr ''media_percentage'', PNum 100)]),
      (PStr ''insights'', PDict
         [(PStr ''most_engaging_tweets'', PList neutral_tweets),
          (PStr ''posting_frequency'', PDict
             [(PStr ''daily_posts'', PDict []),
              (PStr ''hourly_distribution'', PDict []),
              (PStr ''most_active_hour'', PNone)]),
          (PStr ''sentiment_trends'', analyze_sentiment_trends sample_strptime neutral_tweets),
          (PStr ''engagement_patterns'', analyze_engagement_patterns neutral_tweets)]),
      (PStr ''timestamp'', PStr (isoformat sample_now))])"
  by (simp add: generate_comprehensive_analysis_def comprehensive_analysis_body_def
      neutral_tweets_parts and_then_def counts_dict_def)

text \<open>
  Claim C5 on three tweets that are all neutral: the neutral share is 3/3, above 0.70, so
  the rule of the specification asks for the emotional-content recommendation; the code
  compares the count 3 with 70 and does not emit it.
\<close>

theorem all_neutral_bundle_gets_no_emotional_recommendation:
  "and_then (generate_comprehensive_analysis sample_strptime sample_now neutral_tweets ''alice'')
     spec_neutral_rule = Inr True \<and>
   and_then (generate_comprehensive_analysis sample_strptime sample_now neutral_tweets ''alice'')
     generate_recommendations = Inr [rec_posting_times]"
  by (simp add: neutral_tweets_analysis and_then_def spec_neutral_rule_def
      generate_recommendations_def dict_get_def)

section \<open>Properties of the batch\<close>

lemma status_of_Some: "status_of r = Some s \<longleftrightarrow> (\<exists>d. r = PDict d \<and> map_of d (PStr ''status'') = Some s)"
  by (cases r) (simp_all add: status_of_def)

lemma subscript_status: "subscript r ''status'' = Inr s \<longleftrightarrow> status_of r = Some s"
  by (cases r) (simp_all add: status_of_def subscript_def split: option.splits)

lemma fetch_cases:
  "fetch_and_store_tweets c u w = (r, w') \<Longrightarrow>
     (\<exists>e. store_user_tweets c u w = (Inl e, w') \<and> r = error_result (snd e)) \<or>
     store_user_tweets c u w = (Inr r, w')"
  by (auto simp: fetch_and_store_tweets_def split: prod.splits sum.splits)

lemma analyze_cases:
  "analyze_user_tweets_step c u w = (r, w') \<Longrightarrow>
     (\<exists>e. analyze_user c u w = (Inl e, w') \<and> r = error_result (snd e)) \<or>
     analyze_user c u w = (Inr r, w')"
  by (auto simp: analyze_user_tweets_step_def split: prod.splits sum.splits)

lemma status_error_result [simp]: "status_of (error_result m) = Some (PStr ''error'')"
  by (simp add: status_of_def error_result_def)

lemma body_cases:
  assumes "process_user_body c u w = (Inr result, w')"
  shows "status_of result = Some (PStr ''error'') \<or>
         (status_of result = Some (PStr ''success'') \<and>
          (\<exists>stored w1 analysed.
             store_user_tweets c u w = (Inr stored, w1) \<and>
             status_of stored = Some (PStr ''success'') \<and>
             analyze_user c u w1 = (Inr analysed, w') \<and>
             status_of analysed = Some (PStr ''success'')))"
proof -
  obtain sr w1 where f: "fetch_and_store_tweets c u w = (sr, w1)"
    by (cases "fetch_and_store_tweets c u w")
  obtain ar w2 where a: "analyze_user_tweets_step c u w1 = (ar, w2)"
    by (cases "analyze_user_tweets_step c u w1")
  show ?thesis
  proof (cases "subscript sr ''status''")
    case (Inl e)
    with assms f show ?thesis by (simp add: process_user_body_def)
  next
    case (Inr st)
    note st = this
    show ?thesis
    proof (cases "st = PStr ''success''")
      case False
      with assms f st
      have "and_then (subscript sr ''message'')
              (\<lambda>m. Inr (PDict ((PStr ''status'', PStr ''error'') #
                 [(PStr ''message'', PStr (''Failed to fetch tweets for '' @ u @ '': '' @ str_of c m)),
                  (PStr ''step'', PStr ''fetch_and_store'')]))) = Inr result"
        by (simp add: process_user_body_def)
      then have "status_of result = Some (PStr ''error'')"
        by (auto simp: and_then_Inr status_of_def)
      then show ?thesis by simp
    next
      case True
      with st have sst: "status_of sr = Some (PStr ''success'')" by (simp add: subscript_status)
      then have "sr \<noteq> error_result m" for m by auto
      with fetch_cases[OF f] have store: "store_user_tweets c u w = (Inr sr, w1)" by auto
      show ?thesis
      proof (cases "subscript ar ''status''")
        case (Inl e)
        with assms f st True a show ?thesis by (simp add: process_user_body_def)
      next
        case (Inr ast)
        note ast = this
        show ?thesis
        proof (cases "ast = PStr ''success''")
          case False
          with assms f st True a ast
          have "and_then (subscript ar ''message'')
              (\<lambda>m. Inr (PDict ((PStr ''status'', PStr ''error'') #
                 [(PStr ''message'', PStr (''Failed to analyze tweets for '' @ u @ '': '' @ str_of c m)),
                  (PStr ''step'', PStr ''analysis'')]))) = Inr result"
            by (simp add: process_user_body_def)
          then have "status_of result = Some (PStr ''error'')"
        by (auto simp: and_then_Inr status_of_def)
      then show ?thesis by simp
        next
          case Ta: True
          with ast have asst: "status_of ar = Some (PStr ''success'')" by (simp add: subscript_status)
          then have "ar \<noteq> error_result m" for m by auto
          with analyze_cases[OF a] have an: "analyze_user c u w1 = (Inr ar, w2)" by auto
          from assms f st True a ast Ta have "w' = w2" and
            "result = PDict [(PStr ''status'', PStr ''success''),
                             (PStr ''message'', PStr (''Successfully processed '' @ u)),
                             (PStr ''storage'', sr),
                             (PStr ''analysis'', ar),
                             (PStr ''timestamp'', PStr (isoformat (clock c w2)))]"
            by (auto simp add: process_user_body_def)
          then have "status_of result = Some (PStr ''success'')" by (simp add: status_of_def)
          with store sst an asst \<open>w' = w2\<close> show ?thesis by blast
        qed
      qed
    qed
  qed
qed

lemma process_user_cases:
  "\<exists>result w'. process_user c u w = (Inr result, w') \<and>
     (status_of result = Some (PStr ''error'') \<or>
      (status_of result = Some (PStr ''success'') \<and>
       (\<exists>stored w1 analysed.
          store_user_tweets c u w = (Inr stored, w1) \<and>
          status_of stored = Some (PStr ''success'') \<and>
          analyze_user c u w1 = (Inr analysed, w') \<and>
          status_of analysed = Some (PStr ''success''))))"
proof -
  obtain r w' where b: "process_user_body c u w = (r, w')"
    by (cases "process_user_body c u w")
  show ?thesis
  proof (cases r)
    case (Inl e)
    with b have "process_user c u w =
        (Inr (error_result (''Unexpected error processing '' @ u @ '': '' @ snd e)), w')"
      by (simp add: process_user_def)
    then show ?thesis by simp
  next
    case (Inr result)
    with b have "process_user c u w = (Inr result, w')" by (simp add: process_user_def)
    with body_cases[of c u w result w'] b Inr show ?thesis by simp
  qed
qed


lemma gather_length: "length (fst (gather c us w)) = length us"
proof (induction us arbitrary: w)
  case Nil
  show ?case by simp
next
  case (Cons u us)
  obtain r1 w1 where p: "process_user c u w = (r1, w1)" by (cases "process_user c u w")
  obtain rs w2 where g: "gather c us w1 = (rs, w2)" by (cases "gather c us w1")
  from Cons[of w1] p g show ?case by simp
qed

lemma gather_nth:
  "i < length us \<Longrightarrow>
     fst (gather c us w) ! i = fst (process_user c (us ! i) (snd (gather c (take i us) w)))"
proof (induction us arbitrary: w i)
  case Nil
  then show ?case by simp
next
  case (Cons u us)
  obtain r1 w1 where p: "process_user c u w = (r1, w1)" by (cases "process_user c u w")
  obtain rs w2 where g: "gather c us w1 = (rs, w2)" by (cases "gather c us w1")
  show ?case
  proof (cases i)
    case 0
    with p g show ?thesis by simp
  next
    case (Suc j)
    obtain rs' w3 where g': "gather c (take j us) w1 = (rs', w3)"
      by (cases "gather c (take j us) w1")
    from Suc Cons.prems have "j < length us" by simp
    from Cons.IH[OF this, of w1] p g g' Suc show ?thesis by simp
  qed
qed

lemma combine_keys:
  "set (map fst (combine xs acc)) = set (map fst acc) \<union> PStr ` fst ` set xs"
  by (induction xs acc rule: combine.induct) (auto simp: update_keys split: if_splits)

lemma combine_distinct: "distinct (map fst acc) \<Longrightarrow> distinct (map fst (combine xs acc))"
  by (induction xs acc rule: combine.induct) (auto simp: distinct_update)

lemma combine_map_of:
  "map_of (combine xs acc) k =
     (case map_of (rev (map (\<lambda>(u, r). (PStr u, settle r)) xs)) k of
        Some v \<Rightarrow> Some v | None \<Rightarrow> map_of acc k)"
  by (induction xs acc rule: combine.induct)
     (auto simp: update_conv' map_add_def split: option.splits)

lemma map_of_rev_last:
  assumes "zs = pre @ (k, v) # post" and "k \<notin> fst ` set post"
  shows "map_of (rev zs) k = Some v"
proof -
  have "map_of (rev post) k = None" using assms(2) by (simp add: map_of_eq_None_iff)
  then show ?thesis using assms(1) by (simp add: map_add_def)
qed

lemma zip_keys: "length rs = length us \<Longrightarrow>
   map fst (map (\<lambda>(u, r). (PStr u, settle r)) (zip us rs)) = map PStr us"
  by (induction us rs rule: list_induct2') auto

lemma combine_nth:
  assumes len: "length rs = length us" and i: "i < length us"
      and last: "us ! i \<notin> set (drop (Suc i) us)"
  shows "map_of (combine (zip us rs) []) (PStr (us ! i)) = Some (settle (rs ! i))"
proof -
  define zs where "zs = map (\<lambda>(u, r). (PStr u, settle r)) (zip us rs)"
  have lz: "length zs = length us" using len by (simp add: zs_def)
  have zi: "zs ! i = (PStr (us ! i), settle (rs ! i))" using i len by (simp add: zs_def)
  have split: "zs = take i zs @ (PStr (us ! i), settle (rs ! i)) # drop (Suc i) zs"
    using id_take_nth_drop[of i zs] i lz zi by simp
  have "map fst zs = map PStr us" unfolding zs_def using len by (rule zip_keys)
  then have "map fst (drop (Suc i) zs) = map PStr (drop (Suc i) us)"
    by (simp only: drop_map[symmetric])
  then have "set (map fst (drop (Suc i) zs)) = set (map PStr (drop (Suc i) us))"
    by simp
  then have "fst ` set (drop (Suc i) zs) = PStr ` set (drop (Suc i) us)"
    by (simp only: set_map)
  with last have "PStr (us ! i) \<notin> fst ` set (drop (Suc i) zs)" by auto
  from map_of_rev_last[OF split this] show ?thesis
    by (simp add: combine_map_of zs_def)
qed

lemma last_occurrence: "u \<in> set us \<Longrightarrow> \<exists>i < length us. us ! i = u \<and> u \<notin> set (drop (Suc i) us)"
proof (induction us)
  case Nil
  then show ?case by simp
next
  case (Cons a us)
  show ?case
  proof (cases "u \<in> set us")
    case True
    from Cons.IH[OF this] obtain i where "i < length us" "us ! i = u" "u \<notin> set (drop (Suc i) us)"
      by blast
    then have "Suc i < length (a # us) \<and> (a # us) ! Suc i = u \<and> u \<notin> set (drop (Suc (Suc i)) (a # us))"
      by simp
    then show ?thesis by blast
  next
    case False
    with Cons.prems have "0 < length (a # us) \<and> (a # us) ! 0 = u \<and> u \<notin> set (drop (Suc 0) (a # us))"
      by simp
    then show ?thesis by blast
  qed
qed

text \<open>
  Claim C1. \<open>process_multiple_users\<close> returns a dictionary, never an exception; its keys are
  exactly the requested user names, each once; every value is a result with status
  \<open>success\<close> or \<open>error\<close>. The value under a name is what \<open>process_user\<close> returned
  for the last task of that name, in the state of the world the earlier tasks left; it
  reports \<open>success\<close> only when both collaborators returned a \<open>success\<close> result, so an
  exception or a failure of a stage is recorded as an \<open>error\<close> result under that name.
\<close>

theorem batch_result_covers_every_requested_id:
  "\<exists>results w'.
     process_multiple_users c usernames w = (Inr (PDict results), w') \<and>
     set (map fst results) = PStr ` set usernames \<and>
     distinct (map fst results) \<and>
     (\<forall>u \<in> set usernames. \<exists>result. map_of results (PStr u) = Some result \<and>
        status_of result \<in> {Some (PStr ''success''), Some (PStr ''error'')}) \<and>
     (\<forall>i < length usernames. usernames ! i \<notin> set (drop (Suc i) usernames) \<longrightarrow>
        (\<exists>result w1.
           map_of results (PStr (usernames ! i)) = Some result \<and>
           process_user c (usernames ! i) (snd (gather c (take i usernames) w))
             = (Inr result, w1) \<and>
           (status_of result = Some (PStr ''error'') \<or>
            (status_of result = Some (PStr ''success'') \<and>
             (\<exists>stored w0 analysed.
                store_user_tweets c (usernames ! i) (snd (gather c (take i usernames) w))
                  = (Inr stored, w0) \<and>
                status_of stored = Some (PStr ''success'') \<and>
                analyze_user c (usernames ! i) w0 = (Inr analysed, w1) \<and>
                status_of analysed = Some (PStr ''success''))))))"
proof -
  obtain rs w' where g: "gather c usernames w = (rs, w')" by (cases "gather c usernames w")
  define results where "results = combine (zip usernames rs) []"
  have len: "length rs = length usernames" using gather_length[of c usernames w] g by simp
  have run: "process_multiple_users c usernames w = (Inr (PDict results), w')"
    using g by (simp add: process_multiple_users_def results_def)
  have "fst ` set (zip usernames rs) = set usernames"
    using len by (metis list.set_map map_fst_zip)
  then have keys: "set (map fst results) = PStr ` set usernames"
    unfolding results_def by (simp only: combine_keys) simp
  have dist: "distinct (map fst results)"
    unfolding results_def by (rule combine_distinct) simp
  have at: "\<exists>result w1.
           map_of results (PStr (usernames ! i)) = Some result \<and>
           process_user c (usernames ! i) (snd (gather c (take i usernames) w))
             = (Inr result, w1) \<and>
           (status_of result = Some (PStr ''error'') \<or>
            (status_of result = Some (PStr ''success'') \<and>
             (\<exists>stored w0 analysed.
                store_user_tweets c (usernames ! i) (snd (gather c (take i usernames) w))
                  = (Inr stored, w0) \<and>
                status_of stored = Some (PStr ''success'') \<and>
                analyze_user c (usernames ! i) w0 = (Inr analysed, w1) \<and>
                status_of analysed = Some (PStr ''success''))))"
    if i: "i < length usernames" and last: "usernames ! i \<notin> set (drop (Suc i) usernames)" for i
  proof -
    define wi where "wi = snd (gather c (take i usernames) w)"
    from process_user_cases[of c "usernames ! i" wi] obtain result w1 where
      p: "process_user c (usernames ! i) wi = (Inr result, w1)" and
      st: "status_of result = Some (PStr ''error'') \<or>
           (status_of result = Some (PStr ''success'') \<and>
            (\<exists>stored w0 analysed.
               store_user_tweets c (usernames ! i) wi = (Inr stored, w0) \<and>
               status_of stored = Some (PStr ''success'') \<and>
               analyze_user c (usernames ! i) w0 = (Inr analysed, w1) \<and>
               status_of analysed = Some (PStr ''success'')))"
      by blast
    have "rs ! i = Inr result"
      using gather_nth[OF i, of c w] g p by (simp add: wi_def)
    with combine_nth[OF len i last]
    have "map_of results (PStr (usernames ! i)) = Some result"
      by (simp add: results_def settle_def)
    with p st show ?thesis unfolding wi_def by blast
  qed
  have all: "\<exists>result. map_of results (PStr u) = Some result \<and>
        status_of result \<in> {Some (PStr ''success''), Some (PStr ''error'')}"
    if "u \<in> set usernames" for u
  proof -
    from last_occurrence[OF that] obtain i where
      "i < length usernames" "usernames ! i = u" "u \<notin> set (drop (Suc i) usernames)" by blast
    with at[of i] show ?thesis by auto
  qed
  from run keys dist all at show ?thesis by blast
qed

lemma sample_alice:
  "process_user sample_collaborators ''alice'' 0 =
     (Inr (PDict [(PStr ''status'', PStr ''success''),
                  (PStr ''message'', PStr ''Successfully processed alice''),
                  (PStr ''storage'', PDict [(PStr ''status'', PStr ''success'')]),
                  (PStr ''analysis'', PDict [(PStr ''status'', PStr ''success'')]),
                  (PStr ''timestamp'', PStr (isoformat sample_now))]), 2)"
  by (simp add: process_user_def process_user_body_def fetch_and_store_tweets_def
      analyze_user_tweets_step_def sample_collaborators_def error_result_def subscript_def
      and_then_def)

lemma sample_state: "snd (gather sample_collaborators [''alice''] 0) = 2"
  by (simp add: sample_alice)

lemma sample_bob:
  "process_user sample_collaborators ''bob'' 2 =
     (Inr (PDict [(PStr ''status'', PStr ''error''),
                  (PStr ''message'', PStr ''Failed to fetch tweets for bob: connection reset''),
                  (PStr ''step'', PStr ''fetch_and_store'')]), 3)"
  by (simp add: process_user_def process_user_body_def fetch_and_store_tweets_def
      analyze_user_tweets_step_def sample_collaborators_def error_result_def subscript_def
      and_then_def)

theorem batch_result_covers_every_requested_id_witness:
  "''bob'' \<in> set [''alice'', ''bob'', ''carol''] \<and>
   (1::nat) < length [''alice'', ''bob'', ''carol''] \<and>
   [''alice'', ''bob'', ''carol''] ! 1 \<notin> set (drop (Suc 1) [''alice'', ''bob'', ''carol'']) \<and>
   (\<exists>results w'.
      process_multiple_users sample_collaborators [''alice'', ''bob'', ''carol''] 0
        = (Inr (PDict results), w') \<and>
      set (map fst results) = PStr ` set [''alice'', ''bob'', ''carol''] \<and>
      (\<exists>result. map_of results (PStr ''bob'') = Some result \<and>
         status_of result = Some (PStr ''error'')))"
proof -
  define us where "us = [''alice'', ''bob'', ''carol'']"
  have h0: "''bob'' \<in> set us" by (simp add: us_def)
  have h1: "(1::nat) < length us" by (simp add: us_def)
  have h2: "us ! 1 \<notin> set (drop (Suc 1) us)" by (simp add: us_def)
  have bob: "us ! 1 = ''bob''" by (simp add: us_def)
  have st: "snd (gather sample_collaborators (take 1 us) 0) = 2"
    by (simp add: us_def sample_alice)
  from batch_result_covers_every_requested_id[of sample_collaborators us 0]
  obtain results w' where
    run: "process_multiple_users sample_collaborators us 0 = (Inr (PDict results), w')" and
    keys: "set (map fst results) = PStr ` set us" and
    at: "\<forall>i < length us. us ! i \<notin> set (drop (Suc i) us) \<longrightarrow>
        (\<exists>result w1.
           map_of results (PStr (us ! i)) = Some result \<and>
           process_user sample_collaborators (us ! i)
             (snd (gather sample_collaborators (take i us) 0)) = (Inr result, w1) \<and>
           (status_of result = Some (PStr ''error'') \<or>
            (status_of result = Some (PStr ''success'') \<and>
             (\<exists>stored w0 analysed.
                store_user_tweets sample_collaborators (us ! i)
                  (snd (gather sample_collaborators (take i us) 0)) = (Inr stored, w0) \<and>
                status_of stored = Some (PStr ''success'') \<and>
                analyze_user sample_collaborators (us ! i) w0 = (Inr analysed, w1) \<and>
                status_of analysed = Some (PStr ''success'')))))"
    by (elim exE conjE)
  from at[rule_format, OF h1 h2] obtain result w1 where
    r: "map_of results (PStr (us ! 1)) = Some result"
       "process_user sample_collaborators (us ! 1)
          (snd (gather sample_collaborators (take 1 us) 0)) = (Inr result, w1)"
    by (elim exE conjE)
  from r(2) have "process_user sample_collaborators ''bob'' 2 = (Inr result, w1)"
    by (simp only: bob st)
  then have "status_of result = Some (PStr ''error'')"
    by (auto simp add: sample_bob status_of_def)
  with r(1) bob have "\<exists>result. map_of results (PStr ''bob'') = Some result \<and>
         status_of result = Some (PStr ''error'')" by auto
  with run keys have "\<exists>results w'.
      process_multiple_users sample_collaborators us 0 = (Inr (PDict results), w') \<and>
      set (map fst results) = PStr ` set us \<and>
      (\<exists>result. map_of results (PStr ''bob'') = Some result \<and>
         status_of result = Some (PStr ''error''))" by blast
  with h0 h1 h2 show ?thesis unfolding us_def by (intro conjI)
qed


section \<open>Properties of storing\<close>

text \<open>
  Claim C10. For the empty tweet list \<open>store_tweet_data\<close> returns the error result
  "No tweets to store for ..." and leaves the file system as it was: no directory is
  created and no file written.
\<close>

theorem store_of_no_tweets_changes_nothing: "store_tweet_data env now1 now2 wtime [] username data_type fs =
     (Inr (PDict [(PStr ''status'', PStr ''error''),
                  (PStr ''message'', PStr (''No tweets to store for '' @ username))]), fs)"
  by (simp add: store_tweet_data_def store_tweet_data_body_def)

lemma length_zpad [simp]: "length (zpad w n) = w"
  by (induction w arbitrary: n) auto

lemma digit_inj: "digit a = digit b \<longleftrightarrow> a mod 10 = b mod 10"
proof -
  have d: "distinct ''0123456789''" by simp
  have "a mod 10 < length ''0123456789''" "b mod 10 < length ''0123456789''" by simp_all
  with d show ?thesis unfolding digit_def by (simp only: nth_eq_iff_index_eq)
qed

lemma decimal_split:
  "10 * x + r = 10 * y + s \<Longrightarrow> r < 10 \<Longrightarrow> s < 10 \<Longrightarrow> x = y \<and> r = (s::nat)"
  by arith

lemma zpad_inj: "zpad w a = zpad w b \<longleftrightarrow> a mod 10 ^ w = b mod 10 ^ w"
proof (induction w arbitrary: a b)
  case 0
  show ?case by simp
next
  case (Suc w)
  have "zpad (Suc w) a = zpad (Suc w) b \<longleftrightarrow>
          zpad w (a div 10) = zpad w (b div 10) \<and> digit a = digit b"
    by simp
  also have "\<dots> \<longleftrightarrow> (a div 10) mod 10 ^ w = (b div 10) mod 10 ^ w \<and> a mod 10 = b mod 10"
    by (simp only: Suc digit_inj)
  also have "\<dots> \<longleftrightarrow> a mod 10 ^ Suc w = b mod 10 ^ Suc w"
  proof -
    have e: "x mod 10 ^ Suc w = 10 * ((x div 10) mod 10 ^ w) + x mod 10" for x :: nat
      by (simp add: mod_mult2_eq)
    show ?thesis
    proof
      assume "(a div 10) mod 10 ^ w = (b div 10) mod 10 ^ w \<and> a mod 10 = b mod 10"
      then show "a mod 10 ^ Suc w = b mod 10 ^ Suc w" by (simp only: e)
    next
      assume h: "a mod 10 ^ Suc w = b mod 10 ^ Suc w"
      then have "10 * ((a div 10) mod 10 ^ w) + a mod 10 = 10 * ((b div 10) mod 10 ^ w) + b mod 10"
        by (simp only: e)
      moreover have "a mod 10 < 10" "b mod 10 < 10" by simp_all
      ultimately show "(a div 10) mod 10 ^ w = (b div 10) mod 10 ^ w \<and> a mod 10 = b mod 10"
        by (rule decimal_split)
    qed
  qed
  finally show ?case .
qed

lemma zpad_eq_small: "a < 10 ^ w \<Longrightarrow> b < 10 ^ w \<Longrightarrow> zpad w a = zpad w b \<longleftrightarrow> a = b"
  by (simp add: zpad_inj)


lemma date_str_inj:
  assumes "valid_datetime a" "valid_datetime b"
  shows "date_str a = date_str b \<longleftrightarrow> year a = year b \<and> month a = month b \<and> day a = day b"
proof -
  have "year a < 10 ^ 4" "year b < 10 ^ 4" "month a < 10 ^ 2" "month b < 10 ^ 2"
       "day a < 10 ^ 2" "day b < 10 ^ 2"
    using assms by (simp_all add: valid_datetime_def)
  then show ?thesis by (simp add: date_str_def zpad_eq_small)
qed

lemma timestamp_str_inj:
  assumes "valid_datetime a" "valid_datetime b"
  shows "timestamp_str a = timestamp_str b \<longleftrightarrow>
           year a = year b \<and> month a = month b \<and> day a = day b \<and>
           hour a = hour b \<and> minute a = minute b \<and> second a = second b"
proof -
  have "year a < 10 ^ 4" "year b < 10 ^ 4" "month a < 10 ^ 2" "month b < 10 ^ 2"
       "day a < 10 ^ 2" "day b < 10 ^ 2" "hour a < 10 ^ 2" "hour b < 10 ^ 2"
       "minute a < 10 ^ 2" "minute b < 10 ^ 2" "second a < 10 ^ 2" "second b < 10 ^ 2"
    using assms by (simp_all add: valid_datetime_def)
  then show ?thesis by (simp add: timestamp_str_def zpad_eq_small)
qed

lemma tweet_data_path_eq:
  "tweet_data_path a1 a2 u k = tweet_data_path b1 b2 u k \<longleftrightarrow>
     date_str a1 = date_str b1 \<and> timestamp_str a2 = timestamp_str b2"
  by (auto simp: tweet_data_path_def tweet_data_dir_def tweet_data_filename_def)

text \<open>
  Claim C8, as the code has it. The time in the file name is printed to the second, so the
  paths of two \<open>store_tweet_data\<close> calls for the same user and data type are equal exactly
  when the calls read the same date for the partition and the same second for the name;
  calls in different seconds never share a path, calls within one second do.
\<close>

theorem store_paths_differ_iff_seconds_differ:
  assumes "valid_datetime a1" "valid_datetime a2" "valid_datetime b1" "valid_datetime b2"
  shows "tweet_data_path a1 a2 username data_type = tweet_data_path b1 b2 username data_type \<longleftrightarrow>
           (year a1 = year b1 \<and> month a1 = month b1 \<and> day a1 = day b1) \<and>
           (year a2 = year b2 \<and> month a2 = month b2 \<and> day a2 = day b2 \<and>
            hour a2 = hour b2 \<and> minute a2 = minute b2 \<and> second a2 = second b2)"
  using assms by (simp only: tweet_data_path_eq date_str_inj timestamp_str_inj)

lemma zpad2: "zpad 2 n = [digit (n div 10), digit n]"
proof -
  have "zpad (Suc (Suc 0)) n = [digit (n div 10), digit n]" by simp
  then show ?thesis by (simp only: numeral_2_eq_2)
qed

lemma zpad4:
  "zpad 4 n = [digit (n div 10 div 10 div 10), digit (n div 10 div 10), digit (n div 10), digit n]"
proof -
  have four: "(4::nat) = Suc (Suc (Suc (Suc 0)))" by simp
  have "zpad (Suc (Suc (Suc (Suc 0)))) n =
          [digit (n div 10 div 10 div 10), digit (n div 10 div 10), digit (n div 10), digit n]"
    by simp
  then show ?thesis by (simp only: four)
qed

lemma sample_valid: "valid_datetime sample_now" "valid_datetime sample_now_later"
  by (simp_all add: valid_datetime_def sample_now_def sample_now_later_def)

lemma sample_strs:
  "date_str sample_now = ''2024-03-05''" "timestamp_str sample_now = ''20240305_123045''"
  "date_str sample_now_later = ''2024-03-05''"
  "timestamp_str sample_now_later = ''20240305_123045''"
  by (simp_all add: date_str_def timestamp_str_def sample_now_def sample_now_later_def
      zpad2 zpad4 digit_def)

lemma sample_path:
  "tweet_data_path sample_now sample_now ''alice'' ''raw'' =
     [''output'', ''2024-03-05'', ''tweets'', ''raw'', ''alice'', ''alice_raw_20240305_123045.json'']"
  "tweet_data_path sample_now_later sample_now_later ''alice'' ''raw'' =
     [''output'', ''2024-03-05'', ''tweets'', ''raw'', ''alice'', ''alice_raw_20240305_123045.json'']"
  by (simp_all add: tweet_data_path_def tweet_data_dir_def tweet_data_filename_def sample_strs)

lemma sample_dir:
  "tweet_data_dir sample_now ''alice'' ''raw'' = [''output'', ''2024-03-05'', ''tweets'', ''raw'', ''alice'']"
  "tweet_data_dir sample_now_later ''alice'' ''raw'' = [''output'', ''2024-03-05'', ''tweets'', ''raw'', ''alice'']"
  by (simp_all add: tweet_data_dir_def sample_strs)

lemma sample_target:
  "tweet_data_path sample_now sample_now ''alice'' ''raw'' = sample_target"
  "tweet_data_path sample_now_later sample_now_later ''alice'' ''raw'' = sample_target"
  by (simp_all add: sample_path sample_target_def)

lemma sample_mkdir:
  "mkdir_fault env = (\<lambda>p. None) \<Longrightarrow>
   mkdir_parents env [''output'', ''2024-03-05'', ''tweets'', ''raw'', ''alice''] [] =
     (Inr (), sample_output_tree)"
  by (simp add: mkdir_parents_def mkdir1_def sample_output_tree_def)

lemma sample_mkdir_again:
  "mkdir_parents env [''output'', ''2024-03-05'', ''tweets'', ''raw'', ''alice'']
     (sample_output_tree @ [(sample_target, n)]) =
     (Inr (), sample_output_tree @ [(sample_target, n)])"
  by (simp add: mkdir_parents_def mkdir1_def sample_output_tree_def sample_target_def)

lemma sample_write:
  "open_fault env sample_target = None \<Longrightarrow>
   write_json env wtime sample_target v sample_output_tree =
     (case write_fault env sample_target of
        None \<Rightarrow> (Inr (), sample_output_tree @ [(sample_target, File (Document v) wtime)])
      | Some msg \<Rightarrow> (Inl (OSError, msg), sample_output_tree @ [(sample_target, File Truncated wtime)]))"
  by (simp add: write_json_def is_dir_def sample_output_tree_def sample_target_def split: option.splits)

lemma sample_write_again:
  "open_fault env sample_target = None \<Longrightarrow> write_fault env sample_target = None \<Longrightarrow>
   write_json env wtime sample_target v (sample_output_tree @ [(sample_target, File c m)]) =
     (Inr (), sample_output_tree @ [(sample_target, File (Document v) wtime)])"
  by (simp add: write_json_def is_dir_def sample_output_tree_def sample_target_def)

lemma sample_faults:
  "mkdir_fault sample_env = (\<lambda>p. None)" "open_fault sample_env p = None"
  "write_fault sample_env p = None"
  "mkdir_fault full_disk_env = (\<lambda>p. None)" "open_fault full_disk_env p = None"
  "write_fault full_disk_env p = Some ''No space left on device''"
  by (simp_all add: sample_env_def full_disk_env_def)

lemma sample_store_first:
  "snd (store_tweet_data sample_env sample_now sample_now sample_now [tweet_at_15]
          ''alice'' ''raw'' []) =
     sample_output_tree @ [(sample_target, File (Document (PList [tweet_at_15])) sample_now)]"
  "result_status (fst (store_tweet_data sample_env sample_now sample_now sample_now [tweet_at_15]
          ''alice'' ''raw'' [])) = Some success"
  by (simp_all add: store_tweet_data_def store_tweet_data_body_def sample_dir sample_target
      sample_mkdir sample_write sample_faults result_status_def status_of_def)

lemma sample_store_second:
  "snd (store_tweet_data sample_env sample_now_later sample_now_later sample_now_later
          [tweet_at_9] ''alice'' ''raw''
          (sample_output_tree @ [(sample_target, File (Document (PList [tweet_at_15])) sample_now)])) =
     sample_output_tree @ [(sample_target, File (Document (PList [tweet_at_9])) sample_now_later)]"
  "result_status (fst (store_tweet_data sample_env sample_now_later sample_now_later sample_now_later
          [tweet_at_9] ''alice'' ''raw''
          (sample_output_tree @ [(sample_target, File (Document (PList [tweet_at_15])) sample_now)]))) = Some success"
  by (simp_all add: store_tweet_data_def store_tweet_data_body_def sample_dir sample_target
      sample_mkdir_again sample_write_again sample_faults result_status_def status_of_def)

lemma sample_store_full_disk:
  "store_tweet_data full_disk_env sample_now sample_now sample_now [tweet_at_15]
          ''alice'' ''raw'' [] =
     (Inr (error_result ''Error storing tweet data for alice: No space left on device''),
      sample_output_tree @ [(sample_target, File Truncated sample_now)])"
  by (simp add: store_tweet_data_def store_tweet_data_body_def sample_dir sample_target
      sample_mkdir sample_write sample_faults)

theorem store_paths_differ_iff_seconds_differ_witness:
  "valid_datetime sample_now \<and> valid_datetime (sample_now\<lparr>second := 46\<rparr>) \<and>
   tweet_data_path sample_now sample_now ''alice'' ''raw''
     \<noteq> tweet_data_path sample_now (sample_now\<lparr>second := 46\<rparr>) ''alice'' ''raw''"
proof -
  have v: "valid_datetime sample_now" "valid_datetime (sample_now\<lparr>second := 46\<rparr>)"
    by (simp_all add: valid_datetime_def sample_now_def)
  have "second sample_now \<noteq> second (sample_now\<lparr>second := 46\<rparr>)"
    by (simp add: sample_now_def)
  with store_paths_differ_iff_seconds_differ
         [OF v(1) v(1) v(1) v(2), of "''alice''" "''raw''"] v
  show ?thesis by simp
qed

text \<open>
  Claim C8 as stated fails: two calls in the same second (the clock readings differ in
  the microsecond only) build the same path, and the second call overwrites the file of
  the first.
\<close>

theorem same_second_stores_collide:
  "sample_now \<noteq> sample_now_later \<and>
   tweet_data_path sample_now sample_now ''alice'' ''raw'' =
     tweet_data_path sample_now_later sample_now_later ''alice'' ''raw'' \<and>
   snd (store_tweet_data sample_env sample_now_later sample_now_later sample_now_later
          [tweet_at_9] ''alice'' ''raw''
          (snd (store_tweet_data sample_env sample_now sample_now sample_now [tweet_at_15]
                  ''alice'' ''raw'' []))) =
     sample_output_tree @ [(sample_target, File (Document (PList [tweet_at_9])) sample_now_later)]"
  by (simp add: sample_store_first sample_store_second sample_target)
     (simp add: sample_now_def sample_now_later_def)

subsection \<open>A write that breaks off\<close>

lemma mkdir1_other:
  "mkdir1 env q fs = (r, fs') \<Longrightarrow> p \<noteq> q \<Longrightarrow> map_of fs' p = map_of fs p"
  by (auto simp: mkdir1_def map_add_def split: option.splits node.splits)

lemma mkdir1_ok: "mkdir1 env q fs = (Inr u, fs') \<Longrightarrow> map_of fs' q = Some Dir"
  by (auto simp: mkdir1_def map_add_def split: option.splits node.splits)

lemma mkdir1_keeps:
  "mkdir1 env q fs = (r, fs') \<Longrightarrow> map_of fs p = Some n \<Longrightarrow> map_of fs' p = Some n"
  by (auto simp: mkdir1_def map_add_def split: option.splits node.splits)

lemma mkdirs_other:
  "mkdirs env qs fs = (r, fs') \<Longrightarrow> p \<notin> set qs \<Longrightarrow> map_of fs' p = map_of fs p"
proof (induction qs arbitrary: fs)
  case Nil
  then show ?case by simp
next
  case (Cons q qs)
  obtain r1 fs1 where m: "mkdir1 env q fs = (r1, fs1)" by (cases "mkdir1 env q fs")
  from Cons.prems(2) have pq: "p \<noteq> q" and pqs: "p \<notin> set qs" by auto
  from mkdir1_other[OF m pq] have keep: "map_of fs1 p = map_of fs p" .
  show ?case
  proof (cases r1)
    case (Inl e)
    with Cons.prems(1) m have "fs' = fs1" by simp
    with keep show ?thesis by simp
  next
    case (Inr u)
    with Cons.prems(1) m have "mkdirs env qs fs1 = (r, fs')" by simp
    from Cons.IH[OF this pqs] keep show ?thesis by simp
  qed
qed

lemma mkdirs_keeps:
  "mkdirs env qs fs = (r, fs') \<Longrightarrow> map_of fs p = Some n \<Longrightarrow> map_of fs' p = Some n"
proof (induction qs arbitrary: fs)
  case Nil
  then show ?case by simp
next
  case (Cons q qs)
  obtain r1 fs1 where m: "mkdir1 env q fs = (r1, fs1)" by (cases "mkdir1 env q fs")
  from mkdir1_keeps[OF m Cons.prems(2)] have keep: "map_of fs1 p = Some n" .
  show ?case
  proof (cases r1)
    case (Inl e)
    with Cons.prems(1) m have "fs' = fs1" by simp
    with keep show ?thesis by simp
  next
    case (Inr u)
    with Cons.prems(1) m have "mkdirs env qs fs1 = (r, fs')" by simp
    from Cons.IH[OF this keep] show ?thesis .
  qed
qed

lemma mkdirs_ok:
  "mkdirs env qs fs = (Inr u, fs') \<Longrightarrow> q \<in> set qs \<Longrightarrow> map_of fs' q = Some Dir"
proof (induction qs arbitrary: fs)
  case Nil
  then show ?case by simp
next
  case (Cons q' qs)
  obtain r1 fs1 where m: "mkdir1 env q' fs = (r1, fs1)" by (cases "mkdir1 env q' fs")
  from Cons.prems(1) m obtain u1 where r1: "r1 = Inr u1" by (cases r1) auto
  with Cons.prems(1) m have rest: "mkdirs env qs fs1 = (Inr u, fs')" by simp
  show ?case
  proof (cases "q \<in> set qs")
    case True
    from Cons.IH[OF rest True] show ?thesis .
  next
    case False
    with Cons.prems(2) have "q = q'" by simp
    with m r1 have "map_of fs1 q = Some Dir" by (simp add: mkdir1_ok)
    from mkdirs_keeps[OF rest this] show ?thesis .
  qed
qed

lemma tl_prefixes: "set (tl (prefixes p)) = {q. prefix q p \<and> q \<noteq> []}"
proof (cases p)
  case Nil
  then show ?thesis by simp
next
  case (Cons a list)
  have "set (map ((#) a) (prefixes list)) = {q. prefix q (a # list) \<and> q \<noteq> []}"
  proof (intro set_eqI iffI)
    fix q assume "q \<in> set (map ((#) a) (prefixes list))"
    then obtain r where "prefix r list" "q = a # r" by auto
    then show "q \<in> {q. prefix q (a # list) \<and> q \<noteq> []}" by simp
  next
    fix q assume "q \<in> {q. prefix q (a # list) \<and> q \<noteq> []}"
    then obtain r where "q = a # r" "prefix r list" by (cases q) auto
    then show "q \<in> set (map ((#) a) (prefixes list))" by simp
  qed
  with Cons show ?thesis by simp
qed

lemma mkdir_parents_ok: "mkdir_parents env p fs = (Inr u, fs') \<Longrightarrow> is_dir fs' p"
proof (cases "p = []")
  case True
  then show ?thesis by (simp add: is_dir_def)
next
  case False
  assume "mkdir_parents env p fs = (Inr u, fs')"
  then have "mkdirs env (tl (prefixes p)) fs = (Inr u, fs')" by (simp add: mkdir_parents_def)
  moreover from False have "p \<in> set (tl (prefixes p))" by (simp add: tl_prefixes)
  ultimately have "map_of fs' p = Some Dir" by (rule mkdirs_ok)
  then show ?thesis by (simp add: is_dir_def)
qed

lemma mkdir_parents_below:
  assumes "mkdir_parents env p fs = (r, fs')"
  shows "map_of fs' (p @ [name]) = map_of fs (p @ [name])"
proof -
  from assms have "mkdirs env (tl (prefixes p)) fs = (r, fs')" by (simp add: mkdir_parents_def)
  moreover have "p @ [name] \<notin> set (tl (prefixes p))" by (auto simp: tl_prefixes)
  ultimately show ?thesis by (rule mkdirs_other)
qed

text \<open>
  Claim C3, as the code has it. When the write breaks off partway, \<open>store_tweet_data\<close>
  returns an error result carrying the message of the failure, and raises nothing; the
  document was being written into the target path itself (no temporary file, no rename),
  so the target path is left holding the truncated file.
\<close>

theorem failed_write_reports_error_and_leaves_truncated_file:
  assumes "tweets \<noteq> []"
      and "mkdir_parents env (tweet_data_dir now1 username data_type) fs = (Inr (), fs1)"
      and "map_of fs (tweet_data_path now1 now2 username data_type) \<noteq> Some Dir"
      and "open_fault env (tweet_data_path now1 now2 username data_type) = None"
      and "write_fault env (tweet_data_path now1 now2 username data_type) = Some msg"
  shows "store_tweet_data env now1 now2 wtime tweets username data_type fs =
           (Inr (error_result (''Error storing tweet data for '' @ username @ '': '' @ msg)),
            AList.update (tweet_data_path now1 now2 username data_type)
              (File Truncated wtime) fs1) \<and>
         map_of (snd (store_tweet_data env now1 now2 wtime tweets username data_type fs))
           (tweet_data_path now1 now2 username data_type) = Some (File Truncated wtime)"
proof -
  define target where "target = tweet_data_path now1 now2 username data_type"
  define dir where "dir = tweet_data_dir now1 username data_type"
  have t: "target = dir @ [tweet_data_filename now2 username data_type]"
    by (simp add: target_def dir_def tweet_data_path_def)
  have d: "is_dir fs1 dir" using assms(2) unfolding dir_def by (rule mkdir_parents_ok)
  have "map_of fs1 target = map_of fs target"
    unfolding t using assms(2) unfolding dir_def by (rule mkdir_parents_below)
  with assms(3) have nd: "map_of fs1 target \<noteq> Some Dir" by (simp add: target_def)
  have w: "write_json env wtime target (PList tweets) fs1 =
             (Inl (OSError, msg), AList.update target (File Truncated wtime) fs1)"
    using d nd assms(4,5) by (simp add: write_json_def t target_def[symmetric])
  have "store_tweet_data env now1 now2 wtime tweets username data_type fs =
           (Inr (error_result (''Error storing tweet data for '' @ username @ '': '' @ msg)),
            AList.update target (File Truncated wtime) fs1)"
    using assms(1,2) w
    by (simp add: store_tweet_data_def store_tweet_data_body_def target_def[symmetric])
  then show ?thesis by (simp add: target_def update_conv')
qed

theorem failed_write_reports_error_and_leaves_truncated_file_witness:
  "[tweet_at_15] \<noteq> [] \<and>
   mkdir_parents full_disk_env (tweet_data_dir sample_now ''alice'' ''raw'') [] =
     (Inr (), sample_output_tree) \<and>
   map_of [] (tweet_data_path sample_now sample_now ''alice'' ''raw'') \<noteq> Some Dir \<and>
   open_fault full_disk_env (tweet_data_path sample_now sample_now ''alice'' ''raw'') = None \<and>
   write_fault full_disk_env (tweet_data_path sample_now sample_now ''alice'' ''raw'')
     = Some ''No space left on device'' \<and>
   map_of (snd (store_tweet_data full_disk_env sample_now sample_now sample_now [tweet_at_15]
                  ''alice'' ''raw'' []))
     (tweet_data_path sample_now sample_now ''alice'' ''raw'') = Some (File Truncated sample_now)"
proof -
  have h1: "[tweet_at_15] \<noteq> []" by simp
  have h2: "mkdir_parents full_disk_env (tweet_data_dir sample_now ''alice'' ''raw'') [] =
     (Inr (), sample_output_tree)"
    by (simp add: sample_dir sample_mkdir sample_faults)
  have h3: "map_of [] (tweet_data_path sample_now sample_now ''alice'' ''raw'') \<noteq> Some Dir"
    by simp
  have h4: "open_fault full_disk_env (tweet_data_path sample_now sample_now ''alice'' ''raw'')
              = None"
    by (simp add: sample_faults)
  have h5: "write_fault full_disk_env (tweet_data_path sample_now sample_now ''alice'' ''raw'')
     = Some ''No space left on device''"
    by (simp add: sample_faults)
  from failed_write_reports_error_and_leaves_truncated_file[OF h1 h2 h3 h4 h5, of sample_now]
    h1 h2 h3 h4 h5
  show ?thesis by blast
qed

text \<open>
  Claim C3 as stated fails: on a full disk the store returns an error result, and the
  target path then holds a file, cut short.
\<close>

theorem failed_write_leaves_file_counterexample:
  "result_status (fst (store_tweet_data full_disk_env sample_now sample_now sample_now
                         [tweet_at_15] ''alice'' ''raw'' [])) = Some (PStr ''error'') \<and>
   snd (store_tweet_data full_disk_env sample_now sample_now sample_now
          [tweet_at_15] ''alice'' ''raw'' []) =
     sample_output_tree @ [(tweet_data_path sample_now sample_now ''alice'' ''raw'',
                            File Truncated sample_now)]"
  by (simp add: sample_store_full_disk sample_target result_status_def status_of_def
      error_result_def)

section \<open>Properties of retrieving\<close>

lemma update_fresh: "k \<notin> fst ` set al \<Longrightarrow> AList.update k v al = al @ [(k, v)]"
  by (induction al) auto

lemma merge_keys_append:
  "distinct (map fst (acc @ kvs)) \<Longrightarrow> fold (\<lambda>(k, v) acc. AList.update k v acc) kvs acc = acc @ kvs"
proof (induction kvs arbitrary: acc)
  case Nil
  then show ?case by simp
next
  case (Cons kv kvs)
  obtain k v where kv: "kv = (k, v)" by (cases kv)
  from Cons.prems kv have fresh: "k \<notin> fst ` set acc" by auto
  from Cons.prems kv have "distinct (map fst ((acc @ [(k, v)]) @ kvs))" by simp
  from Cons.IH[OF this] fresh kv show ?case by (simp add: update_fresh)
qed

lemma merge_keys_distinct: "distinct (map fst kvs) \<Longrightarrow> merge_keys kvs = kvs"
  using merge_keys_append[of "[]" kvs] by (simp add: merge_keys_def)

lemma json_decode_native: "json_native v \<Longrightarrow> json_decode env v = v"
proof (induction v)
  case (PList xs)
  then have "map (json_decode env) xs = xs"
    by (auto simp: list_all_iff intro: map_idI)
  then show ?case by simp
next
  case (PDict kvs)
  have "map (map_prod (string_key env) (json_decode env)) kvs = kvs"
  proof (rule map_idI)
    fix kv assume in_kvs: "kv \<in> set kvs"
    obtain k v where kv: "kv = (k, v)" by (cases kv)
    from PDict.prems in_kvs kv have "is_str k" "json_native v"
      by (auto simp: list_all_iff)
    moreover from in_kvs kv have "v \<in> Basic_BNFs.snds kv" by simp
    ultimately have "json_decode env v = v" "string_key env k = k"
      using PDict.IH[OF in_kvs] by (auto simp: string_key_def is_str_def split: pyval.splits)
    with kv show "map_prod (string_key env) (json_decode env) kv = kv" by simp
  qed
  moreover from PDict.prems have "distinct (map fst kvs)" by simp
  ultimately show ?case by (simp add: merge_keys_distinct)
qed simp_all

lemma fnmatch_star_json: "fnmatch ''*.json'' (s @ ''.json'')"
  by (induction s) simp_all

lemma fnmatch_plain_prefix:
  "glob_plain u \<Longrightarrow> fnmatch (u @ pat) (u @ s) = fnmatch pat s"
  by (induction u) (simp_all add: glob_plain_def)

lemma fnmatch_artifact:
  "glob_plain username \<Longrightarrow>
     fnmatch (username @ ''_insights_*.json'') (username @ ''_insights_'' @ stamp @ ''.json'')"
  using fnmatch_star_json[of stamp] by (simp add: fnmatch_plain_prefix)


lemma max_from_strict:
  assumes t: "t \<in> set (x # rest)"
      and newest: "\<forall>p \<in> set (x # rest). p \<noteq> t \<longrightarrow> key p < key t"
  shows "max_from key x rest = t"
proof -
  define r where "r = max_from key x rest"
  then have "max_from key x rest = r" by simp
  from max_from_first[OF this] obtain pre post where
    split: "x # rest = pre @ r # post" and
    pre: "\<forall>y \<in> set pre. key y < key r" and post: "\<forall>y \<in> set post. key y \<le> key r"
    by blast
  have r_in: "r \<in> set (x # rest)" by (simp only: split) simp
  have "key t \<le> key r"
  proof -
    from t have "t \<in> set (pre @ r # post)" by (simp only: split)
    then have "t \<in> set pre \<or> t = r \<or> t \<in> set post" by auto
    with pre post show ?thesis by (auto intro: less_imp_le)
  qed
  with newest r_in have "r = t" by (auto simp: not_less[symmetric])
  with r_def show ?thesis by simp
qed

lemma latest_newest:
  assumes "t \<in> set files"
      and "\<forall>p \<in> set files. p \<noteq> t \<longrightarrow> dt_key (mtime env fs p) < dt_key (mtime env fs t)"
  shows "latest env fs files = t"
proof -
  from assms(1) have ne: "files \<noteq> []" by auto
  then have files: "hd files # tl files = files" by simp
  have "max_from (\<lambda>p. dt_key (mtime env fs p)) (hd files) (tl files) = t"
  proof (rule max_from_strict)
    show "t \<in> set (hd files # tl files)" using assms(1) by (simp only: files)
    show "\<forall>p \<in> set (hd files # tl files). p \<noteq> t \<longrightarrow>
            dt_key (mtime env fs p) < dt_key (mtime env fs t)"
      using assms(2) by (simp only: files)
  qed
  then show ?thesis by (simp add: latest_def)
qed

lemma keys_update:
  "set (map fst (AList.update k v al)) = insert k (set (map fst al))"
  by (induction al) auto

lemma children_update:
  "set (children (AList.update t n fs) d) =
     set (children fs d) \<union> (if t \<noteq> [] \<and> butlast t = d then {t} else {})"
  by (auto simp: children_def keys_update simp del: set_map)

lemma glob_update:
  assumes "map_of fs d = Some Dir" "t \<noteq> d"
  shows "set (glob (AList.update t n fs) d pat) =
           set (glob fs d pat) \<union>
           (if t \<noteq> [] \<and> butlast t = d \<and> fnmatch pat (last t) then {t} else {})"
  using assms by (auto simp: glob_def is_dir_def update_conv' children_update)

lemma mtime_update:
  "mtime env (AList.update t (File c m) fs) p = (if p = t then m else mtime env fs p)"
  by (simp add: mtime_def update_conv')

lemma read_update:
  "open_fault env t = None \<Longrightarrow>
     read_json env (AList.update t (File (Document v) m) fs) t = Inr (json_decode env v)"
  by (simp add: read_json_def update_conv')


text \<open>
  The insights path, for comparison: \<open>store_insights_report\<close> writes below \<open>base_dir\<close>,
  where \<open>retrieve_user_data\<close> looks, and there the round trip holds. When the insights
  directory exists, the write succeeds, the user name has no glob character, the payload
  is a value JSON represents as it is, and every other matching entry is older than the
  new file, retrieving the insights of that user returns the stored payload.
\<close>

lemma insights_round_trip:
  assumes dir: "map_of fs (base_dir @ [''insights'']) = Some Dir"
      and nodir: "map_of fs (base_dir @ [''insights'', insights_filename now username]) \<noteq> Some Dir"
      and op: "open_fault env (base_dir @ [''insights'', insights_filename now username]) = None"
      and wr: "write_fault env (base_dir @ [''insights'', insights_filename now username]) = None"
      and plain: "glob_plain username"
      and native: "json_native insights_data"
      and newest: "\<forall>p \<in> set (glob fs (base_dir @ [''insights'']) (username @ ''_insights_*.json'')).
                     p \<noteq> base_dir @ [''insights'', insights_filename now username] \<longrightarrow>
                     dt_key (mtime env fs p) < dt_key wtime"
  shows "\<exists>result fs'.
           store_insights_report env base_dir now wtime insights_data username fs
             = (Inr result, fs') \<and>
           status_of result = Some success \<and>
           retrieve_user_data env fs' base_dir username ''insights'' =
             Inr (PDict [(PStr ''status'', success),
                         (PStr ''username'', PStr username),
                         (PStr ''data_type'', PStr ''insights''),
                         (PStr ''data'', PDict [(PStr ''insights'', insights_data)])])"
proof -
  define d where "d = base_dir @ [''insights'']"
  define t where "t = base_dir @ [''insights'', insights_filename now username]"
  define pat where "pat = username @ ''_insights_*.json''"
  define fs' where "fs' = AList.update t (File (Document insights_data) wtime) fs"
  have t: "t = d @ [insights_filename now username]" by (simp add: t_def d_def)
  have td: "t \<noteq> d" "t \<noteq> []" "butlast t = d" "last t = insights_filename now username"
    by (simp_all add: t)
  have dir': "map_of fs d = Some Dir" using dir by (simp add: d_def)
  have w: "write_json env wtime t insights_data fs = (Inr (), fs')"
    using dir' nodir op wr td
    by (simp add: write_json_def is_dir_def fs'_def t_def[symmetric])
  have store: "store_insights_report env base_dir now wtime insights_data username fs =
     (Inr (PDict
             [(PStr ''status'', success),
              (PStr ''message'',
                 PStr (''Successfully stored insights report for '' @ username)),
              (PStr ''filepath'', PStr (path_str t)),
              (PStr ''filename'', PStr (insights_filename now username))]), fs')"
    using w by (simp add: store_insights_report_def t_def[symmetric])
  have m: "fnmatch pat (last t)"
    using fnmatch_artifact[OF plain, of "timestamp_str now"]
    by (simp add: td pat_def insights_filename_def)
  have files: "set (glob fs' d pat) = set (glob fs d pat) \<union> {t}"
    unfolding fs'_def using glob_update[OF dir' td(1), of _ pat] td m by simp
  then have t_in: "t \<in> set (glob fs' d pat)" by simp
  then have ne: "glob fs' d pat \<noteq> []" by auto
  have "\<forall>p \<in> set (glob fs' d pat). p \<noteq> t \<longrightarrow>
          dt_key (mtime env fs' p) < dt_key (mtime env fs' t)"
    using newest files
    by (auto simp: fs'_def mtime_update d_def[symmetric] t_def[symmetric] pat_def[symmetric])
  with t_in have l: "latest env fs' (glob fs' d pat) = t" by (rule latest_newest)
  have r: "read_json env fs' t = Inr insights_data"
    using op by (simp add: fs'_def read_update json_decode_native[OF native] t_def[symmetric])
  have k: "retrieve_kind env fs' base_dir username ''insights'' [] =
             Inr [(PStr ''insights'', insights_data)]"
    using ne l r
    by (simp add: retrieve_kind_def Let_def d_def[symmetric] pat_def[symmetric] and_then_def)
  have "retrieve_user_data env fs' base_dir username ''insights'' =
             Inr (PDict [(PStr ''status'', success),
                         (PStr ''username'', PStr username),
                         (PStr ''data_type'', PStr ''insights''),
                         (PStr ''data'', PDict [(PStr ''insights'', insights_data)])])"
    by (simp add: retrieve_user_data_def k and_then_def)
  with store show ?thesis by (simp add: status_of_def)
qed


lemma insights_round_trip_on_sample:
  "map_of sample_data_tree ([''data''] @ [''insights'']) = Some Dir \<and>
   glob_plain ''alice'' \<and> json_native sample_insights \<and>
   (\<exists>result fs'.
      store_insights_report sample_env [''data''] sample_now sample_now sample_insights ''alice''
        sample_data_tree = (Inr result, fs') \<and>
      status_of result = Some success \<and>
      retrieve_user_data sample_env fs' [''data''] ''alice'' ''insights'' =
        Inr (PDict [(PStr ''status'', success),
                    (PStr ''username'', PStr ''alice''),
                    (PStr ''data_type'', PStr ''insights''),
                    (PStr ''data'', PDict [(PStr ''insights'', sample_insights)])]))"
proof -
  have dir: "map_of sample_data_tree ([''data''] @ [''insights'']) = Some Dir"
    by (simp add: sample_data_tree_def)
  have nodir: "map_of sample_data_tree
                 ([''data''] @ [''insights'', insights_filename sample_now ''alice'']) \<noteq> Some Dir"
    by (simp add: sample_data_tree_def)
  have op: "open_fault sample_env
              ([''data''] @ [''insights'', insights_filename sample_now ''alice'']) = None"
    by (simp add: sample_env_def)
  have wr: "write_fault sample_env
              ([''data''] @ [''insights'', insights_filename sample_now ''alice'']) = None"
    by (simp add: sample_env_def)
  have plain: "glob_plain ''alice''" by (simp add: glob_plain_def)
  have native: "json_native sample_insights" by (simp add: sample_insights_def is_str_def)
  have newest: "\<forall>p \<in> set (glob sample_data_tree ([''data''] @ [''insights''])
                              (''alice'' @ ''_insights_*.json'')).
                  p \<noteq> [''data''] @ [''insights'', insights_filename sample_now ''alice''] \<longrightarrow>
                  dt_key (mtime sample_env sample_data_tree p) < dt_key sample_now"
    by (simp add: glob_def children_def sample_data_tree_def)
  from insights_round_trip[OF dir nodir op wr plain native newest] dir plain native
  show ?thesis by blast
qed

lemma sample_store_on_data_tree:
  "store_tweet_data sample_env sample_now sample_now sample_now [tweet_at_15] ''alice'' ''raw''
     sample_data_tree =
   (Inr (PDict
      [(PStr ''status'', success),
       (PStr ''message'', PStr ''Successfully stored 1 tweets for alice''),
       (PStr ''filepath'', PStr (path_str sample_target)),
       (PStr ''filename'', PStr ''alice_raw_20240305_123045.json''),
       (PStr ''data_type'', PStr ''raw''),
       (PStr ''tweet_count'', PNum 1)]),
    sample_data_tree @ sample_output_tree @
      [(sample_target, File (Document (PList [tweet_at_15])) sample_now)])"
proof -
  have mk: "mkdir_parents sample_env [''output'', ''2024-03-05'', ''tweets'', ''raw'', ''alice'']
              sample_data_tree = (Inr (), sample_data_tree @ sample_output_tree)"
    by (simp add: mkdir_parents_def mkdir1_def sample_output_tree_def sample_data_tree_def
        sample_env_def)
  have w: "write_json sample_env sample_now sample_target (PList [tweet_at_15])
             (sample_data_tree @ sample_output_tree) =
           (Inr (), sample_data_tree @ sample_output_tree @
              [(sample_target, File (Document (PList [tweet_at_15])) sample_now)])"
    by (simp add: write_json_def is_dir_def sample_output_tree_def sample_data_tree_def
        sample_target_def sample_env_def)
  have n: "show_nat (Suc 0) = ''1''"
    by (subst show_nat.simps) (simp add: digit_def)
  show ?thesis
    by (simp add: store_tweet_data_def store_tweet_data_body_def sample_dir sample_target mk w n)
       (simp add: tweet_data_filename_def sample_strs)
qed

subsection \<open>What the stores change for retrieving\<close>

lemma outside_update:
  "take 1 p = [''output''] \<Longrightarrow> outside_output (AList.update p v fs) = outside_output fs"
  by (induction fs) (auto simp: outside_output_def)

lemma outside_append:
  "take 1 q = [''output''] \<Longrightarrow> outside_output (fs @ [(q, n)]) = outside_output fs"
  by (simp add: outside_output_def)

lemma outside_mkdir1:
  "take 1 q = [''output''] \<Longrightarrow> outside_output (snd (mkdir1 env q fs)) = outside_output fs"
  by (auto simp: mkdir1_def outside_append split: option.splits node.splits)

lemma outside_mkdirs:
  "\<forall>q \<in> set qs. take 1 q = [''output''] \<Longrightarrow>
     outside_output (snd (mkdirs env qs fs)) = outside_output fs"
proof (induction qs arbitrary: fs)
  case Nil
  show ?case by simp
next
  case (Cons q qs)
  obtain r fs1 where m: "mkdir1 env q fs = (r, fs1)" by (cases "mkdir1 env q fs")
  from Cons.prems have "take 1 q = [''output'']" by simp
  from outside_mkdir1[OF this, of env fs] m have o1: "outside_output fs1 = outside_output fs"
    by simp
  show ?case
  proof (cases r)
    case (Inl e)
    with m o1 show ?thesis by simp
  next
    case (Inr u)
    from Cons.prems have "\<forall>q \<in> set qs. take 1 q = [''output'']" by simp
    from Cons.IH[OF this, of fs1] m Inr o1 show ?thesis by simp
  qed
qed

lemma outside_mkdir_parents:
  assumes "take 1 p = [''output'']"
  shows "outside_output (snd (mkdir_parents env p fs)) = outside_output fs"
  unfolding mkdir_parents_def
proof (rule outside_mkdirs, intro ballI)
  fix q assume "q \<in> set (tl (prefixes p))"
  then have "prefix q p" "q \<noteq> []" by (simp_all add: tl_prefixes)
  then obtain x xs zs where "q = x # xs" "p = q @ zs" by (cases q) (auto simp: prefix_def)
  with assms show "take 1 q = [''output'']" by simp
qed

lemma outside_write_json:
  "take 1 p = [''output''] \<Longrightarrow>
     outside_output (snd (write_json env wtime p v fs)) = outside_output fs"
  by (auto simp: write_json_def outside_update split: option.splits)

lemma outside_store_tweet_data:
  "outside_output (snd (store_tweet_data env now1 now2 wtime tweets username data_type fs))
     = outside_output fs"
proof (cases "tweets = []")
  case True
  then show ?thesis by (simp add: store_tweet_data_def store_tweet_data_body_def)
next
  case False
  define dir where "dir = tweet_data_dir now1 username data_type"
  define target where "target = tweet_data_path now1 now2 username data_type"
  have hd: "take 1 dir = [''output'']" "take 1 target = [''output'']"
    by (simp_all add: dir_def target_def tweet_data_dir_def tweet_data_path_def)
  obtain r1 fs1 where mk: "mkdir_parents env dir fs = (r1, fs1)"
    by (cases "mkdir_parents env dir fs")
  from outside_mkdir_parents[OF hd(1), of env fs] mk
  have o1: "outside_output fs1 = outside_output fs" by simp
  obtain r2 fs2 where w: "write_json env wtime target (PList tweets) fs1 = (r2, fs2)"
    by (cases "write_json env wtime target (PList tweets) fs1")
  from outside_write_json[OF hd(2), of env wtime "PList tweets" fs1] w o1
  have o2: "outside_output fs2 = outside_output fs" by simp
  have "snd (store_tweet_data env now1 now2 wtime tweets username data_type fs) = fs1 \<or>
        snd (store_tweet_data env now1 now2 wtime tweets username data_type fs) = fs2"
    using False mk w
    by (cases r1; cases r2)
       (simp_all add: store_tweet_data_def store_tweet_data_body_def
          dir_def[symmetric] target_def[symmetric])
  with o1 o2 show ?thesis by auto
qed

lemma outside_store_analysis_results:
  "outside_output (snd (store_analysis_results env now1 now2 wtime analysis_data username fs))
     = outside_output fs"
proof -
  define target where "target = analysis_results_path now1 now2 username"
  have hd: "take 1 (butlast target) = [''output'']" "take 1 target = [''output'']"
    by (simp_all add: target_def analysis_results_path_def)
  obtain r1 fs1 where mk: "mkdir_parents env (butlast target) fs = (r1, fs1)"
    by (cases "mkdir_parents env (butlast target) fs")
  from outside_mkdir_parents[OF hd(1), of env fs] mk
  have o1: "outside_output fs1 = outside_output fs" by simp
  obtain r2 fs2 where w: "write_json env wtime target analysis_data fs1 = (r2, fs2)"
    by (cases "write_json env wtime target analysis_data fs1")
  from outside_write_json[OF hd(2), of env wtime analysis_data fs1] w o1
  have o2: "outside_output fs2 = outside_output fs" by simp
  have "snd (store_analysis_results env now1 now2 wtime analysis_data username fs) = fs1 \<or>
        snd (store_analysis_results env now1 now2 wtime analysis_data username fs) = fs2"
    using mk w
    by (cases r1; cases r2)
       (simp_all add: store_analysis_results_def target_def[symmetric])
  with o1 o2 show ?thesis by auto
qed

lemma map_of_outside:
  "take 1 p \<noteq> [''output''] \<Longrightarrow> map_of (outside_output fs) p = map_of fs p"
  by (induction fs) (auto simp: outside_output_def)

lemma child_head:
  assumes "p \<noteq> []" and "butlast p = d" and "d \<noteq> []"
  shows "take 1 p = take 1 d"
proof -
  from assms(1,2) have p: "p = d @ [last p]" by (metis append_butlast_last_id)
  from assms(3) obtain a as where "d = a # as" by (cases d) auto
  with p have "p = a # (as @ [last p])" by simp
  then have "take 1 p = [a]" by (metis One_nat_def take_Suc_Cons take_0)
  with \<open>d = a # as\<close> show ?thesis by simp
qed

lemma children_outside:
  assumes "take 1 d \<noteq> [''output'']" and "d \<noteq> []"
  shows "children (outside_output fs) d = children fs d"
proof -
  have "map fst (outside_output fs) = [p \<leftarrow> map fst fs. take 1 p \<noteq> [''output'']]"
    unfolding outside_output_def by (induction fs) auto
  then have "children (outside_output fs) d =
      [p \<leftarrow> map fst fs. take 1 p \<noteq> [''output''] \<and> (p \<noteq> [] \<and> butlast p = d)]"
    by (simp add: children_def)
  also have "\<dots> = [p \<leftarrow> map fst fs. p \<noteq> [] \<and> butlast p = d]"
    using assms by (auto intro!: filter_cong dest: child_head)
  finally show ?thesis by (simp add: children_def)
qed

lemma glob_outside:
  assumes "take 1 d \<noteq> [''output'']" and "d \<noteq> []"
  shows "glob (outside_output fs) d pat = glob fs d pat"
  using assms by (simp add: glob_def is_dir_def children_outside map_of_outside)

lemma glob_head:
  assumes "p \<in> set (glob fs d pat)" and "take 1 d \<noteq> [''output'']" and "d \<noteq> []"
  shows "take 1 p \<noteq> [''output'']"
proof -
  from assms(1) have "p \<noteq> []" "butlast p = d"
    by (auto simp: glob_def children_def split: if_splits)
  from child_head[OF this assms(3)] assms(2) show ?thesis by simp
qed

lemma max_from_cong:
  "key best = key' best \<Longrightarrow> \<forall>x \<in> set xs. key x = key' x \<Longrightarrow>
     max_from key best xs = max_from key' best xs"
  by (induction xs arbitrary: best) auto

lemma latest_outside:
  assumes "\<forall>p \<in> set files. take 1 p \<noteq> [''output'']" and "files \<noteq> []"
  shows "latest env (outside_output fs) files = latest env fs files"
proof -
  have "mtime env (outside_output fs) p = mtime env fs p" if "p \<in> set files" for p
    using that assms(1) by (simp add: mtime_def map_of_outside)
  moreover from assms(2) have "hd files \<in> set files" "set (tl files) \<subseteq> set files"
    by (auto dest: list.set_sel)
  ultimately show ?thesis
    unfolding latest_def by (intro max_from_cong) auto
qed

lemma read_json_outside:
  "take 1 p \<noteq> [''output''] \<Longrightarrow> read_json env (outside_output fs) p = read_json env fs p"
  by (simp add: read_json_def map_of_outside)

lemma max_from_member: "max_from key best xs \<in> set (best # xs)"
  by (induction xs arbitrary: best) auto

lemma retrieve_kind_outside:
  "retrieve_kind env (outside_output fs) [''data''] username kind acc =
   retrieve_kind env fs [''data''] username kind acc"
proof -
  let ?files = "glob fs ([''data''] @ [kind]) (username @ ''_'' @ kind @ ''_*.json'')"
  have g: "glob (outside_output fs) ([''data''] @ [kind]) (username @ ''_'' @ kind @ ''_*.json'')
             = ?files"
    by (rule glob_outside) simp_all
  have heads: "\<forall>p \<in> set ?files. take 1 p \<noteq> [''output'']"
    by (auto dest!: glob_head)
  show ?thesis
  proof (cases "?files = []")
    case True
    then show ?thesis
      unfolding retrieve_kind_def Let_def g by simp
  next
    case False
    from latest_outside[OF heads False] have l: "latest env (outside_output fs) ?files =
        latest env fs ?files" .
    have "latest env fs ?files \<in> set (hd ?files # tl ?files)"
      unfolding latest_def by (rule max_from_member)
    with False have "latest env fs ?files \<in> set ?files" by (metis list.collapse)
    with heads have "take 1 (latest env fs ?files) \<noteq> [''output'']" by blast
    then have r: "read_json env (outside_output fs) (latest env fs ?files) =
        read_json env fs (latest env fs ?files)" by (rule read_json_outside)
    show ?thesis
      unfolding retrieve_kind_def Let_def g l r by (rule refl)
  qed
qed

lemma retrieve_user_data_outside:
  "retrieve_user_data env (outside_output fs) [''data''] username data_type =
   retrieve_user_data env fs [''data''] username data_type"
  unfolding retrieve_user_data_def retrieve_kind_outside by (rule refl)

lemma retrieve_sees_outside_only:
  assumes "outside_output fs' = outside_output fs"
  shows "retrieve_user_data env fs' [''data''] username data_type =
         retrieve_user_data env fs [''data''] username data_type"
proof -
  have "retrieve_user_data env fs' [''data''] username data_type =
        retrieve_user_data env (outside_output fs') [''data''] username data_type"
    by (rule retrieve_user_data_outside[symmetric])
  also have "\<dots> = retrieve_user_data env (outside_output fs) [''data''] username data_type"
    by (simp only: assms)
  also have "\<dots> = retrieve_user_data env fs [''data''] username data_type"
    by (rule retrieve_user_data_outside)
  finally show ?thesis .
qed

lemma stores_leave_retrieve_as_it_was:
  "retrieve_user_data env
     (snd (store_tweet_data env now1 now2 wtime tweets username data_type fs))
     [''data''] user kind = retrieve_user_data env fs [''data''] user kind"
  "retrieve_user_data env
     (snd (store_analysis_results env now1 now2 wtime analysis_data username fs))
     [''data''] user kind = retrieve_user_data env fs [''data''] user kind"
  by (rule retrieve_sees_outside_only, rule outside_store_tweet_data,
      rule retrieve_sees_outside_only, rule outside_store_analysis_results)

lemma sample_store_analysis:
  "result_status (fst (store_analysis_results sample_env sample_now sample_now sample_now
                         sample_insights ''alice'' sample_data_tree)) = Some success"
proof -
  have p: "analysis_results_path sample_now sample_now ''alice'' =
             [''output'', ''2024-03-05'', ''tweets'', ''analyzed'', ''alice'',
              ''alice_analysis_20240305_123045.json'']"
    by (simp add: analysis_results_path_def sample_strs)
  have mk: "mkdir_parents sample_env [''output'', ''2024-03-05'', ''tweets'', ''analyzed'', ''alice'']
              sample_data_tree =
            (Inr (), sample_data_tree @
               [([''output''], Dir), ([''output'', ''2024-03-05''], Dir),
                ([''output'', ''2024-03-05'', ''tweets''], Dir),
                ([''output'', ''2024-03-05'', ''tweets'', ''analyzed''], Dir),
                ([''output'', ''2024-03-05'', ''tweets'', ''analyzed'', ''alice''], Dir)])"
    by (simp add: mkdir_parents_def mkdir1_def sample_data_tree_def sample_env_def)
  have "\<exists>fs2. (write_json sample_env sample_now
             [''output'', ''2024-03-05'', ''tweets'', ''analyzed'', ''alice'',
              ''alice_analysis_20240305_123045.json''] sample_insights
             (sample_data_tree @
               [([''output''], Dir), ([''output'', ''2024-03-05''], Dir),
                ([''output'', ''2024-03-05'', ''tweets''], Dir),
                ([''output'', ''2024-03-05'', ''tweets'', ''analyzed''], Dir),
                ([''output'', ''2024-03-05'', ''tweets'', ''analyzed'', ''alice''], Dir)])) =
           (Inr (), fs2)"
    by (simp add: write_json_def is_dir_def sample_data_tree_def sample_env_def)
  then obtain fs2 where w: "write_json sample_env sample_now
             [''output'', ''2024-03-05'', ''tweets'', ''analyzed'', ''alice'',
              ''alice_analysis_20240305_123045.json''] sample_insights
             (sample_data_tree @
               [([''output''], Dir), ([''output'', ''2024-03-05''], Dir),
                ([''output'', ''2024-03-05'', ''tweets''], Dir),
                ([''output'', ''2024-03-05'', ''tweets'', ''analyzed''], Dir),
                ([''output'', ''2024-03-05'', ''tweets'', ''analyzed'', ''alice''], Dir)]) =
           (Inr (), fs2)" by blast
  show ?thesis
    unfolding store_analysis_results_def p
    by (simp add: mk w result_status_def status_of_def)
qed

lemma sample_retrieve_nothing:
  "retrieve_user_data sample_env sample_data_tree [''data''] ''alice'' ''raw'' =
     Inr (PDict [(PStr ''status'', success),
                 (PStr ''username'', PStr ''alice''),
                 (PStr ''data_type'', PStr ''raw''),
                 (PStr ''data'', PDict [])])"
  "retrieve_user_data sample_env sample_data_tree [''data''] ''alice'' ''analyzed'' =
     Inr (PDict [(PStr ''status'', success),
                 (PStr ''username'', PStr ''alice''),
                 (PStr ''data_type'', PStr ''analyzed''),
                 (PStr ''data'', PDict [])])"
proof -
  have g: "glob sample_data_tree [''data'', kind] pat = []" for kind pat
    by (simp add: glob_def children_def sample_data_tree_def)
  show "retrieve_user_data sample_env sample_data_tree [''data''] ''alice'' ''raw'' =
     Inr (PDict [(PStr ''status'', success),
                 (PStr ''username'', PStr ''alice''),
                 (PStr ''data_type'', PStr ''raw''),
                 (PStr ''data'', PDict [])])"
    by (simp add: retrieve_user_data_def retrieve_kind_def g and_then_def)
  show "retrieve_user_data sample_env sample_data_tree [''data''] ''alice'' ''analyzed'' =
     Inr (PDict [(PStr ''status'', success),
                 (PStr ''username'', PStr ''alice''),
                 (PStr ''data_type'', PStr ''analyzed''),
                 (PStr ''data'', PDict [])])"
    by (simp add: retrieve_user_data_def retrieve_kind_def g and_then_def)
qed

text \<open>
  Claim C2 against the code. What \<open>store_tweet_data\<close> and \<open>store_analysis_results\<close>
  store is never what \<open>retrieve_user_data\<close> returns: they write below
  \<open>output/{date}/tweets/\<close>, and \<open>retrieve_user_data\<close> reads \<open>data/raw\<close>, \<open>data/analyzed\<close>
  and \<open>data/insights\<close>. For every payload, user and kind, retrieving after the store
  returns what it returned before the store. On the data directories as the constructor
  leaves them, storing a tweet for \<open>alice\<close> succeeds and retrieving her raw data returns
  no data, and likewise for an analysis and her analyzed data.
\<close>

theorem stored_payload_is_not_retrieved:
  "retrieve_user_data env
     (snd (store_tweet_data env now1 now2 wtime tweets username data_type fs))
     [''data''] user kind = retrieve_user_data env fs [''data''] user kind \<and>
   retrieve_user_data env
     (snd (store_analysis_results env now1 now2 wtime analysis_data username fs))
     [''data''] user kind = retrieve_user_data env fs [''data''] user kind \<and>
   result_status (fst (store_tweet_data sample_env sample_now sample_now sample_now
                         [tweet_at_15] ''alice'' ''raw'' sample_data_tree)) = Some success \<and>
   retrieve_user_data sample_env
     (snd (store_tweet_data sample_env sample_now sample_now sample_now
             [tweet_at_15] ''alice'' ''raw'' sample_data_tree))
     [''data''] ''alice'' ''raw'' =
     Inr (PDict [(PStr ''status'', success),
                 (PStr ''username'', PStr ''alice''),
                 (PStr ''data_type'', PStr ''raw''),
                 (PStr ''data'', PDict [])]) \<and>
   result_status (fst (store_analysis_results sample_env sample_now sample_now sample_now
                         sample_insights ''alice'' sample_data_tree)) = Some success \<and>
   retrieve_user_data sample_env
     (snd (store_analysis_results sample_env sample_now sample_now sample_now
             sample_insights ''alice'' sample_data_tree))
     [''data''] ''alice'' ''analyzed'' =
     Inr (PDict [(PStr ''status'', success),
                 (PStr ''username'', PStr ''alice''),
                 (PStr ''data_type'', PStr ''analyzed''),
                 (PStr ''data'', PDict [])])"
proof (intro conjI)
  show "result_status (fst (store_tweet_data sample_env sample_now sample_now sample_now
                         [tweet_at_15] ''alice'' ''raw'' sample_data_tree)) = Some success"
    by (simp add: sample_store_on_data_tree result_status_def status_of_def)
  show "result_status (fst (store_analysis_results sample_env sample_now sample_now sample_now
                         sample_insights ''alice'' sample_data_tree)) = Some success"
    by (rule sample_store_analysis)
qed (simp_all only: stores_leave_retrieve_as_it_was sample_retrieve_nothing)

section \<open>Properties of the retention sweep\<close>




lemma without_files_Nil [simp]: "without_files [] fs = fs"
  by (induction fs) (auto simp: without_files_def)




lemma children_member: "f \<in> set (children fs d) \<Longrightarrow> f \<noteq> [] \<and> butlast f = d"
  by (simp add: children_def)








subsection \<open>Removals up to the first refusal\<close>









subsection \<open>The sweep of the date partitions\<close>




subsection \<open>The sweep of the loose files\<close>














subsection \<open>The whole sweep\<close>





subsection \<open>What the sweep leaves alone\<close>








subsection \<open>The sweep on the sample corpus\<close>




















section \<open>Operations report their outcome\<close>

lemma reports_status_error: "reports_status (Inr (error_result m))"
  by (simp add: reports_status_def result_status_def)

lemma reports_status_success: "reports_status (Inr (PDict ((PStr ''status'', success) # kvs)))"
  by (simp add: reports_status_def result_status_def status_of_def success_def)

lemma guarded:
  assumes "\<And>result fs'. body = (Inr result, fs') \<Longrightarrow> reports_status (Inr result)"
  shows "reports_status (fst (case body of
            (Inr result, fs') \<Rightarrow> (Inr result, fs')
          | (Inl e, fs') \<Rightarrow> (Inr (error_result (msg e)), fs')))"
proof (cases body)
  case (Pair r fs')
  show ?thesis
  proof (cases r)
    case (Inl e)
    with Pair show ?thesis by (simp add: reports_status_error)
  next
    case (Inr result)
    with Pair assms[of result fs'] show ?thesis by simp
  qed
qed

lemma analyze_user_tweets_body_status:
  "analyze_user_tweets_body tools env parse now1 now2 wtime username fs = (Inr result, fs')
   \<Longrightarrow> reports_status (Inr result)"
  by (auto simp: analyze_user_tweets_body_def Let_def reports_status_error reports_status_success
           split: if_splits sum.splits prod.splits)

lemma analyze_user_tweets_status:
  "reports_status (fst (analyze_user_tweets tools env parse now1 now2 wtime username fs))"
  unfolding analyze_user_tweets_def by (rule guarded) (rule analyze_user_tweets_body_status)

lemma generate_insights_report_body_status:
  assumes "generate_insights_report_body tools env parse now1 now2 wtime1 now3 now4 wtime2
             username fs = (Inr result, fs')"
  shows "reports_status (Inr result)"
proof -
  obtain r fs1 where a: "analyze_user_tweets tools env parse now1 now2 wtime1 username fs = (r, fs1)"
    by (cases "analyze_user_tweets tools env parse now1 now2 wtime1 username fs")
  have r: "reports_status r"
    using analyze_user_tweets_status[of tools env parse now1 now2 wtime1 username fs] a by simp
  show ?thesis
    using assms a r
    by (auto simp: generate_insights_report_body_def reports_status_success
             split: if_splits sum.splits prod.splits)
qed

lemma generate_insights_report_status:
  "reports_status (fst (generate_insights_report tools env parse now1 now2 wtime1 now3 now4
                          wtime2 username fs))"
  unfolding generate_insights_report_def
  by (rule guarded) (rule generate_insights_report_body_status)

lemma store_tweet_data_body_status:
  "store_tweet_data_body env now1 now2 wtime tweets username data_type fs = (Inr result, fs')
   \<Longrightarrow> reports_status (Inr result)"
  by (auto simp: store_tweet_data_body_def reports_status_success
                 reports_status_error[unfolded error_result_def]
           split: if_splits sum.splits prod.splits)

lemma store_tweet_data_status:
  "reports_status (fst (store_tweet_data env now1 now2 wtime tweets username data_type fs))"
  unfolding store_tweet_data_def by (rule guarded) (rule store_tweet_data_body_status)

lemma store_analysis_results_status:
  "reports_status (fst (store_analysis_results env now1 now2 wtime analysis_data username fs))"
  unfolding store_analysis_results_def
  by (rule guarded) (auto simp: reports_status_success split: sum.splits prod.splits)

lemma store_insights_report_status:
  "reports_status (fst (store_insights_report env base_dir now wtime insights_data username fs))"
  by (auto simp: store_insights_report_def reports_status_success reports_status_error
           split: sum.splits prod.splits)

lemma retrieve_user_data_status:
  "reports_status (retrieve_user_data env fs base_dir username data_type)"
  by (auto simp: retrieve_user_data_def and_then_Inr reports_status_success reports_status_error
           split: sum.splits)

lemma cleanup_old_data_body_status:
  "cleanup_old_data_body env base_dir now days_to_keep fs = (Inr result, fs')
   \<Longrightarrow> reports_status (Inr result)"
  by (auto simp: cleanup_old_data_body_def reports_status_success
           split: option.splits sum.splits prod.splits)

lemma cleanup_old_data_status:
  "reports_status (fst (cleanup_old_data env base_dir now days_to_keep fs))"
  unfolding cleanup_old_data_def by (rule guarded) (rule cleanup_old_data_body_status)

lemma create_backup_status:
  "reports_status (fst (create_backup env base_dir now backup_name_arg fs))"
  unfolding create_backup_def Let_def
  by (rule guarded) (auto simp: reports_status_success split: sum.splits prod.splits)

lemma validate_data_integrity_status:
  "reports_status (validate_data_integrity env base_dir fs)"
  by (auto simp: validate_data_integrity_def reports_status_success split: prod.splits)

lemma organize_data_by_date_body_status:
  "organize_data_by_date_body env base_dir now date_arg fs = (Inr result, fs')
   \<Longrightarrow> reports_status (Inr result)"
  by (auto simp: organize_data_by_date_body_def Let_def reports_status_success
           split: sum.splits prod.splits)

lemma organize_data_by_date_status:
  "reports_status (fst (organize_data_by_date env base_dir now date_arg fs))"
  unfolding organize_data_by_date_def by (rule guarded) (rule organize_data_by_date_body_status)

lemma archive_data_status:
  "reports_status (fst (archive_data env base_dir now wtime archive_name_arg fs))"
  unfolding archive_data_def Let_def
  by (rule guarded) (auto simp: reports_status_success split: sum.splits prod.splits)

lemma export_data_body_status:
  assumes "export_data_body env base_dir now wtime username export_format fs = (Inr result, fs')"
  shows "reports_status (Inr result)"
proof -
  have r: "reports_status (retrieve_user_data env fs base_dir username ''all'')"
    by (rule retrieve_user_data_status)
  show ?thesis
    using assms r
    by (auto simp: export_data_body_def and_then_Inr reports_status_success
             split: if_splits sum.splits prod.splits)
qed

lemma export_data_status:
  "reports_status (fst (export_data env base_dir now wtime username export_format fs))"
  unfolding export_data_def by (rule guarded) (rule export_data_body_status)

lemma get_data_summary_status:
  "reports_status (get_data_summary env base_dir fs)"
  by (auto simp: get_data_summary_def reports_status_success split: prod.splits)

lemma get_storage_statistics_status:
  "reports_status (get_storage_statistics env base_dir reading fs)"
  by (auto simp: get_storage_statistics_def reports_status_success reports_status_error
           split: sum.splits)


lemma analyze_single_tweet_body_keys:
  "analyze_single_tweet_body tools tweet = Inr analysis
   \<Longrightarrow> \<exists>kvs. analysis = PDict kvs \<and>
         map fst kvs =
           map PStr [''id'', ''text'', ''summary'', ''created_at'', ''sentiment'', ''engagement'',
                     ''text_analysis'', ''media'', ''user'', ''url'', ''lang'', ''is_retweet'',
                     ''is_reply'']"
  by (auto simp: analyze_single_tweet_body_def and_then_Inr)

lemma analyze_single_tweet_no_status:
  "\<exists>kvs. analyze_single_tweet tools tweet = Inr (PDict kvs) \<and>
         map_of kvs (PStr ''status'') = None"
proof (cases "analyze_single_tweet_body tools tweet")
  case (Inl e)
  then show ?thesis by (simp add: analyze_single_tweet_def)
next
  case (Inr analysis)
  from analyze_single_tweet_body_keys[OF Inr] obtain kvs where
    kvs: "analysis = PDict kvs"
      "map fst kvs =
         map PStr [''id'', ''text'', ''summary'', ''created_at'', ''sentiment'', ''engagement'',
                   ''text_analysis'', ''media'', ''user'', ''url'', ''lang'', ''is_retweet'',
                   ''is_reply'']"
    by blast
  have "PStr ''status'' \<notin> set (map fst kvs)" unfolding kvs(2) by simp
  then have "map_of kvs (PStr ''status'') = None" by (simp add: map_of_eq_None_iff)
  with Inr kvs(1) show ?thesis by (simp add: analyze_single_tweet_def)
qed

text \<open>
  C9, as the code has it. Every public operation of the analysis processor and of the data
  manager that answers with a result dictionary returns for every input, with no exception
  reaching the caller, a dictionary whose \<open>status\<close> is \<open>success\<close> or \<open>error\<close>:
  \<open>analyze_user_tweets\<close>, \<open>generate_insights_report\<close>, \<open>store_tweet_data\<close>,
  \<open>store_analysis_results\<close>, \<open>store_insights_report\<close>, \<open>organize_data_by_date\<close>,
  \<open>cleanup_old_data\<close>, \<open>create_backup\<close>, \<open>archive_data\<close>, \<open>get_data_summary\<close>,
  \<open>validate_data_integrity\<close>, \<open>retrieve_user_data\<close>, \<open>export_data\<close> and
  \<open>get_storage_statistics\<close>. \<open>analyze_single_tweet\<close> returns a dictionary for every
  input as well, but one that has no \<open>status\<close> key.
\<close>

theorem operations_report_success_or_error:
  "reports_status (fst (analyze_user_tweets tools env parse now1 now2 wtime username fs)) \<and>
   reports_status (fst (generate_insights_report tools env parse now1 now2 wtime now3 now4
                          wtime2 username fs)) \<and>
   reports_status (fst (store_tweet_data env now1 now2 wtime tweets username data_type fs)) \<and>
   reports_status (fst (store_analysis_results env now1 now2 wtime analysis_data username fs)) \<and>
   reports_status (fst (store_insights_report env base_dir now1 wtime insights_data username
                          fs)) \<and>
   reports_status (fst (organize_data_by_date env base_dir now1 date_arg fs)) \<and>
   reports_status (fst (cleanup_old_data env base_dir now1 days_to_keep fs)) \<and>
   reports_status (fst (create_backup env base_dir now1 name_arg fs)) \<and>
   reports_status (fst (archive_data env base_dir now1 wtime name_arg fs)) \<and>
   reports_status (get_data_summary env base_dir fs) \<and>
   reports_status (validate_data_integrity env base_dir fs) \<and>
   reports_status (retrieve_user_data env fs base_dir username data_type) \<and>
   reports_status (fst (export_data env base_dir now1 wtime username export_format fs)) \<and>
   reports_status (get_storage_statistics env base_dir reading fs) \<and>
   (\<exists>kvs. analyze_single_tweet tools tweet = Inr (PDict kvs) \<and>
          map_of kvs (PStr ''status'') = None)"
  by (intro conjI analyze_user_tweets_status generate_insights_report_status
        store_tweet_data_status store_analysis_results_status store_insights_report_status
        organize_data_by_date_status cleanup_old_data_status create_backup_status
        archive_data_status get_data_summary_status validate_data_integrity_status
        retrieve_user_data_status export_data_status get_storage_statistics_status
        analyze_single_tweet_no_status)

theorem operations_report_success_or_error_witness:
  "reports_status (fst (analyze_user_tweets sample_tools sample_env sample_strptime sample_now
                          sample_now sample_now ''alice'' sample_data_tree)) \<and>
   reports_status (fst (generate_insights_report sample_tools sample_env sample_strptime
                          sample_now sample_now sample_now sample_now sample_now sample_now
                          ''alice'' sample_data_tree)) \<and>
   reports_status (fst (store_tweet_data sample_env sample_now sample_now sample_now
                          [sample_raw_tweet] ''alice'' ''raw'' sample_data_tree)) \<and>
   reports_status (fst (store_analysis_results sample_env sample_now sample_now sample_now
                          sample_insights ''alice'' sample_data_tree)) \<and>
   reports_status (fst (store_insights_report sample_env [''data''] sample_now sample_now
                          sample_insights ''alice'' sample_data_tree)) \<and>
   reports_status (fst (organize_data_by_date sample_env [''data''] sample_now None
                          sample_data_tree)) \<and>
   reports_status (fst (cleanup_old_data sample_env [''data''] sample_now 30 sample_data_tree)) \<and>
   reports_status (fst (create_backup sample_env [''data''] sample_now None sample_data_tree)) \<and>
   reports_status (fst (archive_data sample_env [''data''] sample_now sample_now None
                          sample_data_tree)) \<and>
   reports_status (get_data_summary sample_env [''data''] sample_data_tree) \<and>
   reports_status (validate_data_integrity sample_env [''data''] sample_data_tree) \<and>
   reports_status (retrieve_user_data sample_env sample_data_tree [''data''] ''alice'' ''raw'') \<and>
   reports_status (fst (export_data sample_env [''data''] sample_now sample_now ''alice''
                          ''xml'' sample_data_tree)) \<and>
   reports_status (get_storage_statistics sample_env [''data''] (\<lambda>n. sample_now)
                     sample_data_tree) \<and>
   (\<exists>kvs. analyze_single_tweet sample_tools sample_raw_tweet = Inr (PDict kvs) \<and>
          map_of kvs (PStr ''status'') = None)"
  by (rule operations_report_success_or_error
        [where tools = sample_tools and env = sample_env and parse = sample_strptime
           and ?now1.0 = sample_now and ?now2.0 = sample_now and wtime = sample_now
           and ?now3.0 = sample_now and ?now4.0 = sample_now and ?wtime2.0 = sample_now
           and username = "''alice''" and fs = sample_data_tree
           and tweets = "[sample_raw_tweet]" and data_type = "''raw''"
           and analysis_data = sample_insights and insights_data = sample_insights
           and base_dir = "[''data'']" and date_arg = None and days_to_keep = 30
           and name_arg = None and export_format = "''xml''"
           and reading = "\<lambda>n. sample_now" and tweet = sample_raw_tweet])

text \<open>
  The sentence as written fails at \<open>analyze_single_tweet\<close>, whose answer for an ordinary
  tweet is the analysis of that tweet, with these keys and no \<open>status\<close>, and at
  \<open>ensure_directories\<close>, which has no \<open>try\<close>: where \<open>data/raw\<close> is a file, the
  \<open>FileExistsError\<close> of \<open>mkdir\<close> reaches the caller.
\<close>

theorem single_tweet_analysis_has_no_status:
  "(\<exists>kvs. analyze_single_tweet sample_tools sample_raw_tweet = Inr (PDict kvs) \<and>
          map fst kvs =
            map PStr [''id'', ''text'', ''summary'', ''created_at'', ''sentiment'',
                      ''engagement'', ''text_analysis'', ''media'', ''user'', ''url'', ''lang'',
                      ''is_retweet'', ''is_reply''] \<and>
          map_of kvs (PStr ''status'') = None) \<and>
   \<not> reports_status (analyze_single_tweet sample_tools sample_raw_tweet) \<and>
   fst (ensure_directories sample_env [''data''] blocked_tree)
     = Inl (OSError, ''File exists: data/raw'')"
proof -
  have summary: "generate_summary sample_tools (PStr ''gm'') = Inr (PStr ''gm'')"
    by (simp add: generate_summary_def truncated_def sample_tools_def)
  have run: "analyze_single_tweet sample_tools sample_raw_tweet =
      Inr (PDict
        [(PStr ''id'', PStr ''1''),
         (PStr ''text'', PStr ''gm''),
         (PStr ''summary'', PStr ''gm''),
         (PStr ''created_at'', PStr ''Mon Jan 01 15:00:00 +0000 2024''),
         (PStr ''sentiment'', analyze_sentiment sample_tools (PStr ''gm'')),
         (PStr ''engagement'', extract_engagement_metrics sample_raw_tweet),
         (PStr ''text_analysis'', analyze_text_content sample_tools (PStr ''gm'')),
         (PStr ''media'', extract_media_info sample_raw_tweet),
         (PStr ''user'', extract_user_info sample_raw_tweet),
         (PStr ''url'', PStr []),
         (PStr ''lang'', PStr []),
         (PStr ''is_retweet'', PBool False),
         (PStr ''is_reply'', PBool False)])"
    unfolding analyze_single_tweet_def analyze_single_tweet_body_def
    by (simp add: dict_get_def and_then_def summary sample_raw_tweet_def)
  have dirs: "fst (ensure_directories sample_env [''data''] blocked_tree)
      = Inl (OSError, ''File exists: data/raw'')"
    by (simp add: ensure_directories_def data_directories_def mkdir_parents_def mkdir1_def
          blocked_tree_def)
  show ?thesis
    unfolding run reports_status_def result_status_def status_of_def
    using dirs by simp
qed

end
